theory Spec2Isabelle
  imports
    Complex_Main
    "HOL-Library.Word"
    "HOL-Library.Multiset"
    "HOL-Library.Char_ord"
    "HOL-Library.List_Lexorder"
    "HOL-Library.Log_Nat"
begin

section \<open>Python values and exceptions\<close>

text \<open>
  The notebooks are Python on top of PyTorch. Every exception the modelled code can raise
  is a value of \<open>error\<close>; a function that can raise returns \<open>error + 'a\<close>, \<open>Inl\<close>
  being the exception. Python floats are idealised as rationals (\<open>rat\<close>), except
  where a length is computed from them (\<open>float_mul\<close> below); Python ints are
  \<open>int\<close>, and \<open>str\<close> is \<open>string\<close> with 8-bit characters ordered by code.
\<close>

datatype error =
    IndexError | KeyError | ValueError | ZeroDivisionError | UnboundLocalError
  | RuntimeError | OSError | OverflowError

text \<open>\<open>xs[i]\<close> on a Python list: negative indices count from the end.\<close>

definition py_getitem :: "'a list \<Rightarrow> int \<Rightarrow> error + 'a" where
  "py_getitem xs i =
     (if 0 \<le> i \<and> i < int (length xs) then Inr (xs ! nat i)
      else if i < 0 \<and> - int (length xs) \<le> i then Inr (xs ! nat (int (length xs) + i))
      else Inl IndexError)"

text \<open>\<open>xs[:stop]\<close>: a negative \<open>stop\<close> counts from the end.\<close>

definition py_slice_to :: "'a list \<Rightarrow> int \<Rightarrow> 'a list" where
  "py_slice_to xs stop =
     (if 0 \<le> stop then take (nat stop) xs else take (nat (int (length xs) + stop)) xs)"

text \<open>\<open>int(r)\<close> on a float truncates towards zero.\<close>

definition py_int_of_float :: "rat \<Rightarrow> int" where
  "py_int_of_float r = (if 0 \<le> r then \<lfloor>r\<rfloor> else \<lceil>r\<rceil>)"

text \<open>
  The product of two floats is the double nearest to the exact product, the even one of
  two that are as near. A double is a multiple of a power of two by an integer of at
  most 53 bits, the power being at least \<open>2^-1074\<close>; from \<open>2^1024\<close> on the result
  is infinite. \<open>round_double\<close> is also how a decimal literal or an int becomes a
  float.
\<close>

definition round_half_even :: "rat \<Rightarrow> int" where
  "round_half_even q =
     (let f = \<lfloor>q\<rfloor>; d = q - of_int f
      in if d < 1 / 2 then f else if 1 / 2 < d then f + 1 else if even f then f else f + 1)"

definition pow2 :: "int \<Rightarrow> rat" where
  "pow2 e = (if 0 \<le> e then 2 ^ nat e else 1 / 2 ^ nat (- e))"

text \<open>The largest \<open>e\<close> with \<open>2^e \<le> a\<close>, for a positive \<open>a\<close>.\<close>

definition floor_log2 :: "rat \<Rightarrow> int" where
  "floor_log2 a =
     (let (p, q) = quotient_of a; e = bitlen p - bitlen q
      in if pow2 e \<le> a then e else e - 1)"

definition round_double :: "rat \<Rightarrow> rat" where
  "round_double r =
     (if r = 0 then 0
      else (let a = \<bar>r\<bar>; e = max (floor_log2 a - 52) (- 1074)
            in sgn r * of_int (round_half_even (a / pow2 e)) * pow2 e))"

definition is_inf :: "rat \<Rightarrow> bool" where
  "is_inf r = (r \<noteq> 0 \<and> 1024 \<le> floor_log2 \<bar>r\<bar>)"

definition float_mul :: "rat \<Rightarrow> rat \<Rightarrow> rat" where
  "float_mul a b = round_double (round_double a * round_double b)"

text \<open>Running a list of fallible computations in order; the first exception wins.\<close>

fun sequence_result :: "(error + 'a) list \<Rightarrow> error + 'a list" where
  "sequence_result [] = Inr []"
| "sequence_result (r # rs) =
     (case r of
        Inl e \<Rightarrow> Inl e
      | Inr v \<Rightarrow> (case sequence_result rs of Inl e \<Rightarrow> Inl e | Inr vs \<Rightarrow> Inr (v # vs)))"

subsection \<open>Strings\<close>

definition isspace :: "char \<Rightarrow> bool" where
  "isspace c = (of_char c \<in> {9, 10, 11, 12, 13, 28, 29, 30, 31, 32, 133, 160 :: nat})"

definition isdigit :: "char \<Rightarrow> bool" where
  "isdigit c = (CHR ''0'' \<le> c \<and> c \<le> CHR ''9'')"

definition ascii_lowercase :: string where
  "ascii_lowercase = ''abcdefghijklmnopqrstuvwxyz''"

text \<open>
  \<open>str.lower\<close>: on the 8-bit characters only \<open>A\<close>..\<open>Z\<close> become ASCII letters; the
  accented capitals of Latin-1 stay outside \<open>ascii_lowercase\<close> before and after.
\<close>

definition lower_char :: "char \<Rightarrow> char" where
  "lower_char c =
     (if CHR ''A'' \<le> c \<and> c \<le> CHR ''Z'' then char_of (of_char c + (32 :: nat)) else c)"

definition py_lower :: "string \<Rightarrow> string" where
  "py_lower s = map lower_char s"

definition py_strip :: "string \<Rightarrow> string" where
  "py_strip s = rev (dropWhile isspace (rev (dropWhile isspace s)))"

text \<open>\<open>s.replace(old, "")\<close>: every occurrence of \<open>old\<close>, left to right, is removed.\<close>

function str_remove :: "string \<Rightarrow> string \<Rightarrow> string" where
  "str_remove [] old = []"
| "str_remove (c # cs) old =
     (if old \<noteq> [] \<and> take (length old) (c # cs) = old
      then str_remove (drop (length old) (c # cs)) old
      else c # str_remove cs old)"
  by pat_completeness auto
termination
  by (relation "measure (\<lambda>(s, old). length s)") auto

text \<open>\<open>s.replace(ch, " ")\<close> for a single character \<open>ch\<close>.\<close>

definition replace_char :: "char \<Rightarrow> string \<Rightarrow> string" where
  "replace_char ch s = map (\<lambda>c. if c = ch then CHR '' '' else c) s"

text \<open>\<open>s.split()\<close>: the maximal runs of non-whitespace characters.\<close>

fun split_acc :: "string \<Rightarrow> string \<Rightarrow> string list" where
  "split_acc w [] = (if w = [] then [] else [rev w])"
| "split_acc w (c # cs) =
     (if isspace c then (if w = [] then split_acc [] cs else rev w # split_acc [] cs)
      else split_acc (c # w) cs)"

definition py_split :: "string \<Rightarrow> string list" where
  "py_split s = split_acc [] s"

text \<open>\<open>s.split(sep)\<close> for a single character \<open>sep\<close>: empty fields are kept.\<close>

fun split_on :: "char \<Rightarrow> string \<Rightarrow> string list" where
  "split_on sep [] = [[]]"
| "split_on sep (c # cs) =
     (if c = sep then [] # split_on sep cs
      else (case split_on sep cs of [] \<Rightarrow> [[c]] | w # ws \<Rightarrow> (c # w) # ws))"

text \<open>
  \<open>int(s)\<close> on a string: surrounding whitespace, an optional sign, then decimal digits
  that single underscores may separate. The whitespace \<open>int\<close> skips is narrower than
  that of \<open>str.strip\<close>: the separators 28 to 31 are not part of it, and make
  \<open>int\<close> raise.
\<close>

definition int_space :: "char \<Rightarrow> bool" where
  "int_space c = (of_char c \<in> {9, 10, 11, 12, 13, 32, 133, 160 :: nat})"

definition decimal :: "string \<Rightarrow> int" where
  "decimal ds = foldl (\<lambda>n c. 10 * n + (int (of_char c) - 48)) 0 ds"

fun underscores_ok :: "string \<Rightarrow> bool" where
  "underscores_ok [] = True"
| "underscores_ok [c] = isdigit c"
| "underscores_ok (c # d # cs) =
     (if isdigit c then underscores_ok (d # cs)
      else c = CHR ''_'' \<and> isdigit d \<and> underscores_ok (d # cs))"

definition py_int :: "string \<Rightarrow> error + int" where
  "py_int s =
     (let t = rev (dropWhile int_space (rev (dropWhile int_space s)));
          neg = (t \<noteq> [] \<and> hd t = CHR ''-'');
          d = (if t \<noteq> [] \<and> (hd t = CHR ''-'' \<or> hd t = CHR ''+'') then tl t else t)
      in if d \<noteq> [] \<and> isdigit (hd d) \<and> underscores_ok d
         then Inr ((if neg then - 1 else 1) * decimal (filter isdigit d))
         else Inl ValueError)"

subsection \<open>Paths and the file system\<close>

text \<open>
  \<open>fnmatch\<close> on a POSIX system, for patterns whose only special character is \<open>*\<close>
  (the three patterns of the repository, \<open>*.png\<close>, \<open>*.wav\<close> and \<open>*.txt\<close>, are such).
\<close>

fun fnmatch :: "string \<Rightarrow> string \<Rightarrow> bool" where
  "fnmatch [] [] = True"
| "fnmatch (c # cs) [] = False"
| "fnmatch [] (p # ps) = (p = CHR ''*'' \<and> fnmatch [] ps)"
| "fnmatch (c # cs) (p # ps) =
     (if p = CHR ''*'' then fnmatch (c # cs) ps \<or> fnmatch cs (p # ps)
      else p = c \<and> fnmatch cs ps)"

definition fnmatch_filter :: "string list \<Rightarrow> string \<Rightarrow> string list" where
  "fnmatch_filter names pattern = filter (\<lambda>name. fnmatch name pattern) names"

definition os_path_join :: "string \<Rightarrow> string \<Rightarrow> string" where
  "os_path_join a b =
     (if b \<noteq> [] \<and> hd b = CHR ''/'' then b
      else if a = [] \<or> last a = CHR ''/'' then a @ b
      else a @ ''/'' @ b)"

text \<open>
  What the code reads from the disk, as the libraries deliver it: \<open>os.walk\<close> lists a
  directory tree as triples (root, directory names, file names); \<open>io.imread\<close> with
  \<open>pilmode="RGBA"\<close> gives 8-bit channel values (kept here as one flat list);
  \<open>sf.read\<close> gives a one-channel signal and its sampling frequency; \<open>list(open(f))\<close>
  gives the lines of a text file.
\<close>

record filesystem =
  os_walk :: "string \<Rightarrow> (string \<times> string list \<times> string list) list"
  imread :: "string \<Rightarrow> error + 8 word list"
  sf_read :: "string \<Rightarrow> error + (rat list \<times> nat)"
  open_lines :: "string \<Rightarrow> error + string list"

text \<open>
  The three classes share \<open>_find_files\<close> word for word, up to the default pattern:
  a recursive walk, the matching file names of each directory joined to its root.
\<close>

definition find_files :: "filesystem \<Rightarrow> string \<Rightarrow> string \<Rightarrow> string list" where
  "find_files fs directory pattern =
     concat (map (\<lambda>(root, dirnames, filenames).
                    map (os_path_join root) (fnmatch_filter filenames pattern))
                 (os_walk fs directory))"

section \<open>The Dataset classes\<close>

subsection \<open>ImageDataset\<close>

record ImageDataset =
  image_dir :: string
  image_path_list :: "string list"

definition ImageDataset_init :: "filesystem \<Rightarrow> string \<Rightarrow> ImageDataset" where
  "ImageDataset_init fs dir =
     \<lparr>image_dir = dir, image_path_list = sort (find_files fs dir ''*.png'')\<rparr>"

definition ImageDataset_len :: "ImageDataset \<Rightarrow> nat" where
  "ImageDataset_len self = length (image_path_list self)"

definition ImageDataset_getitem ::
  "filesystem \<Rightarrow> ImageDataset \<Rightarrow> int \<Rightarrow> error + (rat list \<times> string)" where
  "ImageDataset_getitem fs self index =
     (case py_getitem (image_path_list self) index of
        Inl e \<Rightarrow> Inl e
      | Inr image_path \<Rightarrow>
          (let name = str_remove (str_remove image_path (image_dir self)) ''.png'' in
           case imread fs image_path of
             Inl e \<Rightarrow> Inl e
           | Inr x \<Rightarrow> Inr (map (\<lambda>v. rat_of_nat (unat v) / 255) x, name)))"

subsection \<open>SpeechDataset\<close>

record SpeechDataset =
  audio_dir :: string
  max_dur :: rat
  audio_path_list :: "string list"

definition SpeechDataset_init :: "filesystem \<Rightarrow> string \<Rightarrow> rat \<Rightarrow> SpeechDataset" where
  "SpeechDataset_init fs dir dur =
     \<lparr>audio_dir = dir, max_dur = dur, audio_path_list = sort (find_files fs dir ''*.wav'')\<rparr>"

definition SpeechDataset_len :: "SpeechDataset \<Rightarrow> nat" where
  "SpeechDataset_len self = length (audio_path_list self)"

text \<open>
  \<open>_set_duration\<close>: the length is \<open>int(max_dur * sampling_frequency)\<close>, the product
  of the float \<open>max_dur\<close> by an int. An int too large for a float cannot be
  multiplied; an infinite product cannot be made an int, nor can the product of an
  infinite \<open>max_dur\<close> by 0, which is not a number.
\<close>

definition set_duration :: "rat list \<Rightarrow> rat \<Rightarrow> nat \<Rightarrow> error + rat list" where
  "set_duration y dur sampling_frequency =
     (if is_inf (round_double (rat_of_nat sampling_frequency)) then Inl OverflowError
      else if is_inf (round_double dur) \<and> sampling_frequency = 0 then Inl ValueError
      else if is_inf (round_double dur) \<or> is_inf (float_mul dur (rat_of_nat sampling_frequency))
      then Inl OverflowError
      else
        (let max_len = py_int_of_float (float_mul dur (rat_of_nat sampling_frequency)) in
         if int (length y) > max_len then Inr (py_slice_to y max_len)
         else Inr (y @ replicate (nat (max_len - int (length y))) 0)))"

definition SpeechDataset_getitem ::
  "filesystem \<Rightarrow> SpeechDataset \<Rightarrow> int \<Rightarrow> error + (rat list \<times> nat \<times> string)" where
  "SpeechDataset_getitem fs self index =
     (case py_getitem (audio_path_list self) index of
        Inl e \<Rightarrow> Inl e
      | Inr audio_path \<Rightarrow>
          (case sf_read fs audio_path of
             Inl e \<Rightarrow> Inl e
           | Inr (x, sampling_frequency) \<Rightarrow>
               (case set_duration x (max_dur self) sampling_frequency of
                  Inl e \<Rightarrow> Inl e
                | Inr y \<Rightarrow>
                    (let name = str_remove (str_remove audio_path (audio_dir self)) ''.wav''
                     in Inr (y, sampling_frequency, name)))))"

subsection \<open>TextDataset\<close>

record TextDataset =
  text_dir :: string
  max_seq_len :: int
  text_files :: "string list"
  labels :: "int list"
  vocab :: "string list"
  word_to_index :: "string \<rightharpoonup> int"

text \<open>\<open>list(open(filepath, "r"))[0]\<close>: the first line; an empty file has none.\<close>

definition first_line :: "filesystem \<Rightarrow> string \<Rightarrow> error + string" where
  "first_line fs filepath =
     (case open_lines fs filepath of Inl e \<Rightarrow> Inl e | Inr ls \<Rightarrow> py_getitem ls 0)"

text \<open>
  The cleaning both \<open>_create_vocabulary\<close> and \<open>_tokenize_text\<close> apply: every
  character of the text that is neither a lower-case letter nor a space is collected
  (a Python set, here the list of the distinct ones) and replaced by a space, one
  character after the other.
\<close>

definition not_letters :: "string \<Rightarrow> string" where
  "not_letters text =
     remdups (filter (\<lambda>c. c \<notin> set ascii_lowercase \<and> c \<noteq> CHR '' '') text)"

definition replace_not_letters :: "string \<Rightarrow> string" where
  "replace_not_letters text = fold replace_char (not_letters text) text"

definition get_labels :: "filesystem \<Rightarrow> string list \<Rightarrow> error + int list" where
  "get_labels fs files =
     sequence_result (map (\<lambda>filepath.
        (case first_line fs filepath of
           Inl e \<Rightarrow> Inl e
         | Inr l \<Rightarrow>
             (case split_on (CHR 0x09) l of
                [text, label] \<Rightarrow> py_int label
              | _ \<Rightarrow> Inl ValueError))) files)"

text \<open>\<open>" ".join(all_texts)\<close>\<close>

fun join_spaces :: "string list \<Rightarrow> string" where
  "join_spaces [] = []"
| "join_spaces [t] = t"
| "join_spaces (t # u # ts) = t @ '' '' @ join_spaces (u # ts)"

definition create_vocabulary :: "filesystem \<Rightarrow> string list \<Rightarrow> error + string list" where
  "create_vocabulary fs files =
     (case sequence_result (map (\<lambda>filepath.
              (case first_line fs filepath of
                 Inl e \<Rightarrow> Inl e
               | Inr l \<Rightarrow> Inr (py_lower (py_strip l)))) files) of
        Inl e \<Rightarrow> Inl e
      | Inr all_texts \<Rightarrow>
          Inr (remdups (py_split (replace_not_letters (join_spaces all_texts)))))"

definition tokenize_text :: "filesystem \<Rightarrow> int \<Rightarrow> string \<Rightarrow> error + string list" where
  "tokenize_text fs max_len text_file =
     (case first_line fs text_file of
        Inl e \<Rightarrow> Inl e
      | Inr l \<Rightarrow>
          (let tokens = py_split (replace_not_letters (py_lower (py_strip l)))
           in Inr (tokens @ replicate (nat (max_len - int (length tokens))) ''[PAD]'')))"

definition TextDataset_init :: "filesystem \<Rightarrow> string \<Rightarrow> int \<Rightarrow> error + TextDataset" where
  "TextDataset_init fs dir max_seq_length =
     (let files = sort (find_files fs dir ''*.txt'') in
      case get_labels fs files of
        Inl e \<Rightarrow> Inl e
      | Inr ls \<Rightarrow>
          (case create_vocabulary fs files of
             Inl e \<Rightarrow> Inl e
           | Inr words \<Rightarrow>
               (let v = sort words in
                Inr \<lparr>text_dir = dir, max_seq_len = max_seq_length, text_files = files,
                     labels = ls, vocab = v,
                     word_to_index =
                       (map_of (zip (sort v) (map int [0..<length v])))(''[PAD]'' \<mapsto> - 1)\<rparr>)))"

definition TextDataset_len :: "TextDataset \<Rightarrow> nat" where
  "TextDataset_len self = length (text_files self)"

text \<open>
  \<open>__getitem__\<close> returns the dictionary \<open>{"token_ids": x, "labels": y}\<close>, here the
  pair \<open>(x, y)\<close>; \<open>y\<close> is the one-element tensor of the label.
\<close>

definition TextDataset_getitem ::
  "filesystem \<Rightarrow> TextDataset \<Rightarrow> int \<Rightarrow> error + (int list \<times> rat list)" where
  "TextDataset_getitem fs self index =
     (case py_getitem (text_files self) index of
        Inl e \<Rightarrow> Inl e
      | Inr text_file \<Rightarrow>
          (case tokenize_text fs (max_seq_len self) text_file of
             Inl e \<Rightarrow> Inl e
           | Inr tokens \<Rightarrow>
               (case sequence_result (map (\<lambda>word.
                        (case word_to_index self word of
                           None \<Rightarrow> Inl KeyError
                         | Some i \<Rightarrow> Inr i)) tokens) of
                  Inl e \<Rightarrow> Inl e
                | Inr x \<Rightarrow>
                    (case py_getitem (labels self) index of
                       Inl e \<Rightarrow> Inl e
                     | Inr l \<Rightarrow> Inr (x, [rat_of_int l])))))"

subsection \<open>What the claims about the Dataset classes speak of\<close>

text \<open>
  The number of files under a directory that match a pattern: every directory of the walk
  contributes its matching file names.
\<close>

definition count_matching :: "filesystem \<Rightarrow> string \<Rightarrow> string \<Rightarrow> nat" where
  "count_matching fs directory pattern =
     sum_list (map (\<lambda>(root, dirnames, filenames).
                      length (filter (\<lambda>name. fnmatch name pattern) filenames))
                   (os_walk fs directory))"

text \<open>A tensor is normalized when every entry lies in the closed interval from 0 to 1.\<close>

definition normalized :: "rat list \<Rightarrow> bool" where
  "normalized x = list_all (\<lambda>v. 0 \<le> v \<and> v \<le> 1) x"

subsection \<open>A small corpus on disk\<close>

text \<open>
  One directory \<open>d/\<close> with two reviews, an image and a recording, and a subdirectory
  with a third review and a file no pattern matches. The review \<open>d/a.txt\<close> has four
  words; the text dataset is built with \<open>max_seq_length = 3\<close>.
\<close>

definition corpus :: filesystem where
  "corpus =
     \<lparr>os_walk = (\<lambda>d. [(d, [''sub''], [''b.txt'', ''a.txt'', ''c.png'', ''s.wav'']),
                       (d @ ''sub'', [], [''z.txt'', ''notes.md''])]),
      imread = (\<lambda>p. Inr [0, 255, 51]),
      sf_read = (\<lambda>p. Inr ([1 / 2, - 1 / 4, 3 / 4], 2)),
      open_lines = (\<lambda>p. if p = ''d/a.txt''
                         then Inr [''Good movie, really good!'' @ [CHR 0x09] @ ''1'' @ [CHR 0x0A]]
                         else Inr [''bad'' @ [CHR 0x09] @ ''0''])\<rparr>"

definition corpus_text_dataset :: TextDataset where
  "corpus_text_dataset =
     \<lparr>text_dir = ''d/'', max_seq_len = 3,
      text_files = [''d/a.txt'', ''d/b.txt'', ''d/sub/z.txt''],
      labels = [1, 0, 0],
      vocab = [''bad'', ''good'', ''movie'', ''really''],
      word_to_index =
        (map_of [(''bad'', 0), (''good'', 1), (''movie'', 2), (''really'', 3)])
          (''[PAD]'' \<mapsto> - 1)\<rparr>"

section \<open>The MLP classifier\<close>

text \<open>
  A batch is a two-dimensional tensor: a list of rows. \<open>nn.Linear\<close> holds a weight
  matrix (one row per output feature) and a bias; applied to a batch it maps each row
  \<open>r\<close> to \<open>W r + b\<close>, and raises when the rows do not have \<open>in_features\<close> entries.
  The constructor draws the initial parameters at random; here they are an argument.
\<close>

type_synonym tensor = "rat list list"

record Linear =
  in_features :: nat
  out_features :: nat
  weight :: "rat list list"
  bias :: "rat list"

definition nn_Linear :: "nat \<Rightarrow> nat \<Rightarrow> rat list list \<times> rat list \<Rightarrow> Linear" where
  "nn_Linear n_in n_out p =
     \<lparr>in_features = n_in, out_features = n_out, weight = fst p, bias = snd p\<rparr>"

definition affine :: "rat list list \<Rightarrow> rat list \<Rightarrow> tensor \<Rightarrow> tensor" where
  "affine W b x =
     map (\<lambda>row. map (\<lambda>(w, c). sum_list (map (\<lambda>(u, v). u * v) (zip w row)) + c) (zip W b)) x"

definition Linear_forward :: "Linear \<Rightarrow> tensor \<Rightarrow> error + tensor" where
  "Linear_forward l x =
     (if list_all (\<lambda>row. length row = in_features l) x
      then Inr (affine (weight l) (bias l) x)
      else Inl RuntimeError)"

text \<open>
  \<open>nn.Sequential\<close> applies its modules one after the other. A module is a linear
  layer or an activation function (\<open>act_fn\<close>, any map on tensors).
\<close>

datatype layer = LinearLayer Linear | Activation "tensor \<Rightarrow> tensor"

fun layer_forward :: "layer \<Rightarrow> tensor \<Rightarrow> error + tensor" where
  "layer_forward (LinearLayer l) x = Linear_forward l x"
| "layer_forward (Activation f) x = Inr (f x)"

fun Sequential_forward :: "layer list \<Rightarrow> tensor \<Rightarrow> error + tensor" where
  "Sequential_forward [] x = Inr x"
| "Sequential_forward (m # ms) x =
     (case layer_forward m x of Inl e \<Rightarrow> Inl e | Inr y \<Rightarrow> Sequential_forward ms y)"

definition ReLU :: "tensor \<Rightarrow> tensor" where
  "ReLU x = map (map (max 0)) x"

record MLPClassif =
  input_layer :: "layer list"
  hidden_layer :: "layer list"
  output_layer :: Linear

text \<open>The class of the third lab takes the activation function as an argument.\<close>

definition MLPClassif_init ::
  "nat \<Rightarrow> nat \<Rightarrow> nat \<Rightarrow> (tensor \<Rightarrow> tensor) \<Rightarrow>
   rat list list \<times> rat list \<Rightarrow> rat list list \<times> rat list \<Rightarrow> rat list list \<times> rat list \<Rightarrow>
   MLPClassif" where
  "MLPClassif_init input_size hidden_size output_size act_fn p1 p2 p3 =
     \<lparr>input_layer = [LinearLayer (nn_Linear input_size hidden_size p1), Activation act_fn],
      hidden_layer = [LinearLayer (nn_Linear hidden_size hidden_size p2), Activation act_fn],
      output_layer = nn_Linear hidden_size output_size p3\<rparr>"

text \<open>The class of the later labs fixes the activation to \<open>nn.ReLU()\<close>.\<close>

definition MLPClassif_relu_init ::
  "nat \<Rightarrow> nat \<Rightarrow> nat \<Rightarrow>
   rat list list \<times> rat list \<Rightarrow> rat list list \<times> rat list \<Rightarrow> rat list list \<times> rat list \<Rightarrow>
   MLPClassif" where
  "MLPClassif_relu_init input_size hidden_size output_size p1 p2 p3 =
     \<lparr>input_layer = [LinearLayer (nn_Linear input_size hidden_size p1), Activation ReLU],
      hidden_layer = [LinearLayer (nn_Linear hidden_size hidden_size p2), Activation ReLU],
      output_layer = nn_Linear hidden_size output_size p3\<rparr>"

definition MLPClassif_forward :: "MLPClassif \<Rightarrow> tensor \<Rightarrow> error + tensor" where
  "MLPClassif_forward self x =
     (case Sequential_forward (input_layer self) x of
        Inl e \<Rightarrow> Inl e
      | Inr y \<Rightarrow>
          (case Sequential_forward (hidden_layer self) y of
             Inl e \<Rightarrow> Inl e
           | Inr z \<Rightarrow> Linear_forward (output_layer self) z))"

text \<open>
  The shapes: a tensor of shape \<open>[n, k]\<close> has \<open>n\<close> rows of \<open>k\<close> entries; the
  parameters of a linear layer from \<open>k\<close> to \<open>j\<close> features are \<open>j\<close> weight rows of
  \<open>k\<close> entries and \<open>j\<close> biases.
\<close>

definition has_shape :: "tensor \<Rightarrow> nat \<Rightarrow> nat \<Rightarrow> bool" where
  "has_shape x n k = (length x = n \<and> list_all (\<lambda>row. length row = k) x)"

definition linear_params :: "rat list list \<times> rat list \<Rightarrow> nat \<Rightarrow> nat \<Rightarrow> bool" where
  "linear_params p k j = (has_shape (fst p) j k \<and> length (snd p) = j)"

definition keeps_shape :: "(tensor \<Rightarrow> tensor) \<Rightarrow> bool" where
  "keeps_shape f = (\<forall>x. map length (f x) = map length x)"

text \<open>A network with two inputs, one hidden unit and two outputs.\<close>

definition example_mlp :: MLPClassif where
  "example_mlp = MLPClassif_init 2 1 2 ReLU ([[1, - 1]], [0]) ([[2]], [1]) ([[1], [- 1]], [0, 3])"

section \<open>The framework the loops call\<close>

text \<open>
  PyTorch is not part of the repository. The loops use it through a handful of calls,
  which the model takes as given:
  \<^item> a model is an object on the heap, with its parameters (type \<open>'p\<close>), the gradients
    stored with them (\<open>None\<close> after \<open>zero_grad\<close>) and its training flag;
  \<open>copy.deepcopy\<close> allocates a new object;
  \<^item> calling the model (\<open>fw_forward\<close>) may raise, and depends on the training flag
    (batch normalization does);
  \<^item> \<open>loss.backward()\<close> adds to the stored gradients the gradient of the loss with
    respect to the parameters (\<open>fw_autograd\<close>, \<open>fw_add\<close>);
  \<^item> an optimizer (\<open>fw_SGD\<close>, \<open>fw_Adam\<close>, each from a learning rate) has a state
    of its own (type \<open>'o\<close>) and an update of the parameters from their gradients.
  The type \<open>'y\<close> is the type of the targets of a batch.
\<close>

record 'p module =
  parameters :: 'p
  grad :: "'p option"
  training :: bool

record ('p, 'o) optimizer =
  opt_init :: 'o
  opt_update :: "'o \<Rightarrow> 'p \<Rightarrow> 'p \<Rightarrow> 'p \<times> 'o"

record ('p, 'o, 'y) framework =
  fw_forward :: "'p \<Rightarrow> bool \<Rightarrow> tensor \<Rightarrow> error + tensor"
  fw_autograd :: "(tensor \<Rightarrow> 'y \<Rightarrow> error + rat) \<Rightarrow> 'p \<Rightarrow> bool \<Rightarrow> tensor \<Rightarrow> 'y \<Rightarrow> 'p"
  fw_add :: "'p \<Rightarrow> 'p \<Rightarrow> 'p"
  fw_SGD :: "rat \<Rightarrow> ('p, 'o) optimizer"
  fw_Adam :: "rat \<Rightarrow> ('p, 'o) optimizer"

text \<open>
  The steps of a training iteration, as the loops run them, are written to a trace:
  the forward pass with the tensor given to the model, the loss computation, the zeroing
  of the gradients, the backward pass, the optimizer step, and the recording of the
  loss of the batch (added to \<open>tr_loss\<close> in the training functions, printed or
  appended to \<open>loss_records\<close> in the regression loops).
\<close>

datatype step = Forward tensor | LossComputation | ZeroGrad | Backward | OptimizerStep
  | RecordLoss

record 'p machine =
  heap :: "nat \<Rightarrow> 'p module"
  next_ref :: nat
  trace :: "step list"
  stdout :: "rat list"

definition record_step :: "step \<Rightarrow> 'p machine \<Rightarrow> 'p machine" where
  "record_step s st = st\<lparr>trace := trace st @ [s]\<rparr>"

definition print :: "rat \<Rightarrow> 'p machine \<Rightarrow> 'p machine" where
  "print v st = st\<lparr>stdout := stdout st @ [v]\<rparr>"

definition update_module :: "nat \<Rightarrow> ('p module \<Rightarrow> 'p module) \<Rightarrow> 'p machine \<Rightarrow> 'p machine" where
  "update_module r f st = (let m = f (heap st r) in st\<lparr>heap := (heap st)(r := m)\<rparr>)"

text \<open>
  \<open>copy.deepcopy(model)\<close>: a new object with the parameters and the mode of the
  model. The gradients are not copied: the copy of a \<open>Parameter\<close> is made from its
  data alone, and its \<open>grad\<close> is \<open>None\<close>.
\<close>

definition deepcopy :: "nat \<Rightarrow> 'p machine \<Rightarrow> nat \<times> 'p machine" where
  "deepcopy r st =
     (let m = (heap st r)\<lparr>grad := None\<rparr>
      in (next_ref st,
          st\<lparr>heap := (heap st)(next_ref st := m), next_ref := Suc (next_ref st)\<rparr>))"

text \<open>\<open>model.train()\<close> and \<open>model.eval()\<close>\<close>

definition model_train :: "nat \<Rightarrow> 'p machine \<Rightarrow> 'p machine" where
  "model_train r st = update_module r (\<lambda>m. m\<lparr>training := True\<rparr>) st"

definition model_eval :: "nat \<Rightarrow> 'p machine \<Rightarrow> 'p machine" where
  "model_eval r st = update_module r (\<lambda>m. m\<lparr>training := False\<rparr>) st"

text \<open>\<open>model(x)\<close>\<close>

definition model_call ::
  "('p, 'o, 'y) framework \<Rightarrow> nat \<Rightarrow> tensor \<Rightarrow> 'p machine \<Rightarrow> error + tensor" where
  "model_call fw r x st = fw_forward fw (parameters (heap st r)) (training (heap st r)) x"

text \<open>
  The loss tensor: its value (\<open>loss.item()\<close>) and the gradient its \<open>backward()\<close>
  will deliver, for the parameters and the mode the prediction was computed with.
\<close>

record 'p loss =
  item :: rat
  grad_fn :: 'p

definition loss_call ::
  "('p, 'o, 'y) framework \<Rightarrow> (tensor \<Rightarrow> 'y \<Rightarrow> error + rat) \<Rightarrow> nat \<Rightarrow> tensor \<Rightarrow>
   tensor \<Rightarrow> 'y \<Rightarrow> 'p machine \<Rightarrow> error + 'p loss" where
  "loss_call fw loss_fn r x y_pred y st =
     (case loss_fn y_pred y of
        Inl e \<Rightarrow> Inl e
      | Inr v \<Rightarrow>
          Inr \<lparr>item = v,
               grad_fn = fw_autograd fw loss_fn (parameters (heap st r))
                           (training (heap st r)) x y\<rparr>)"

text \<open>\<open>optimizer.zero_grad()\<close>, \<open>loss.backward()\<close>, \<open>optimizer.step()\<close>\<close>

definition optimizer_zero_grad :: "nat \<Rightarrow> 'p machine \<Rightarrow> 'p machine" where
  "optimizer_zero_grad r st = update_module r (\<lambda>m. m\<lparr>grad := None\<rparr>) st"

definition loss_backward ::
  "('p, 'o, 'y) framework \<Rightarrow> nat \<Rightarrow> 'p loss \<Rightarrow> 'p machine \<Rightarrow> 'p machine" where
  "loss_backward fw r l st =
     update_module r
       (\<lambda>m. m\<lparr>grad := Some (case grad m of None \<Rightarrow> grad_fn l
                                | Some g \<Rightarrow> fw_add fw g (grad_fn l))\<rparr>) st"

text \<open>An optimizer leaves alone the parameters that have no gradient.\<close>

definition optimizer_step ::
  "('p, 'o) optimizer \<Rightarrow> nat \<Rightarrow> 'o \<Rightarrow> 'p machine \<Rightarrow> 'p machine \<times> 'o" where
  "optimizer_step opt r os st =
     (case grad (heap st r) of
        None \<Rightarrow> (st, os)
      | Some g \<Rightarrow>
          (let (p, os') = opt_update opt os (parameters (heap st r)) g
           in (update_module r (\<lambda>m. m\<lparr>parameters := p\<rparr>) st, os')))"

text \<open>A \<open>for\<close> loop whose body may raise: the first exception ends it.\<close>

fun for_loop :: "('a \<Rightarrow> 's \<Rightarrow> error + 's) \<Rightarrow> 'a list \<Rightarrow> 's \<Rightarrow> error + 's" where
  "for_loop body [] s = Inr s"
| "for_loop body (x # xs) s =
     (case body x s of Inl e \<Rightarrow> Inl e | Inr s' \<Rightarrow> for_loop body xs s')"

subsection \<open>Tensors of a batch\<close>

text \<open>
  A batch of images is kept as one row of values per image. \<open>t.view(n, k)\<close> reads the
  values in order into \<open>n\<close> rows of \<open>k\<close>, and raises unless there are \<open>n * k\<close> of
  them; \<open>t.view(n, -1)\<close> infers \<open>k\<close> as the number of values divided by
  \<open>n\<close> (0 for a tensor without values), and raises when \<open>n\<close> is 0 or does not
  divide that number.
\<close>

definition reshape :: "nat \<Rightarrow> nat \<Rightarrow> rat list \<Rightarrow> tensor" where
  "reshape n k flat = map (\<lambda>i. take k (drop (i * k) flat)) [0..<n]"

definition view :: "nat \<Rightarrow> nat \<Rightarrow> tensor \<Rightarrow> error + tensor" where
  "view n k t =
     (if length (concat t) = n * k then Inr (reshape n k (concat t)) else Inl RuntimeError)"

definition view_infer :: "nat \<Rightarrow> tensor \<Rightarrow> error + tensor" where
  "view_infer n t =
     (let numel = length (concat t) in
      if n = 0 \<or> numel mod n \<noteq> 0 then Inl RuntimeError
      else Inr (reshape n (numel div n) (concat t)))"

text \<open>
  \<open>torch.max(y, 1)\<close>: for every row the index of its largest entry (the first one);
  a row with no entry raises \<open>IndexError\<close>.
\<close>

fun argmax_from :: "rat \<Rightarrow> nat \<Rightarrow> nat \<Rightarrow> rat list \<Rightarrow> nat" where
  "argmax_from best pos i [] = pos"
| "argmax_from best pos i (v # vs) =
     (if v > best then argmax_from v i (Suc i) vs else argmax_from best pos (Suc i) vs)"

definition torch_max_indices :: "tensor \<Rightarrow> error + nat list" where
  "torch_max_indices y =
     (if list_all (\<lambda>row. row \<noteq> []) y
      then Inr (map (\<lambda>row. argmax_from (hd row) 0 1 (tl row)) y)
      else Inl IndexError)"

text \<open>
  \<open>(a == b).sum().item()\<close> on two one-dimensional tensors: entry by entry when the
  lengths agree; a tensor of one entry is compared with every entry of the other
  (broadcasting); any other pair of lengths raises.
\<close>

definition eq_sum :: "nat list \<Rightarrow> nat list \<Rightarrow> error + nat" where
  "eq_sum a b =
     (if length a = length b then Inr (length (filter (\<lambda>(u, v). u = v) (zip a b)))
      else if length b = 1 then Inr (length (filter (\<lambda>u. u = hd b) a))
      else if length a = 1 then Inr (length (filter (\<lambda>v. hd a = v) b))
      else Inl RuntimeError)"

subsection \<open>DataLoader\<close>

text \<open>
  \<open>torch.utils.data.DataLoader\<close> over a dataset of (image, label) pairs, with the
  options the notebooks set. One iteration takes the samples in the order of the
  sampler (a fresh random permutation of the indices when \<open>shuffle=True\<close>, here
  \<open>dl_sampler\<close> at the number of the iteration; the indices in order otherwise), cuts
  them into batches of \<open>batch_size\<close>, and with \<open>drop_last=True\<close> leaves out a last
  batch that is not full. The constructor refuses a batch size that is not positive.
\<close>

record 'a DataLoader =
  dl_dataset :: "'a list"
  dl_batch_size :: nat
  dl_shuffle :: bool
  dl_drop_last :: bool
  dl_sampler :: "nat \<Rightarrow> nat list"

function chunks :: "nat \<Rightarrow> 'a list \<Rightarrow> 'a list list" where
  "chunks n xs = (if n = 0 \<or> xs = [] then [] else take n xs # chunks n (drop n xs))"
  by pat_completeness auto
termination
  by (relation "measure (\<lambda>(n, xs). length xs)") auto

declare chunks.simps [simp del]

definition DataLoader_order :: "'a DataLoader \<Rightarrow> nat \<Rightarrow> 'a list" where
  "DataLoader_order dl k =
     (if dl_shuffle dl then map (\<lambda>i. dl_dataset dl ! i) (dl_sampler dl k)
      else dl_dataset dl)"

definition DataLoader_iter :: "'a DataLoader \<Rightarrow> nat \<Rightarrow> 'a list list" where
  "DataLoader_iter dl k =
     (let bs = chunks (dl_batch_size dl) (DataLoader_order dl k)
      in if dl_drop_last dl then filter (\<lambda>b. length b = dl_batch_size dl) bs else bs)"

definition DataLoader_len :: "'a DataLoader \<Rightarrow> nat" where
  "DataLoader_len dl =
     (if dl_drop_last dl then length (dl_dataset dl) div dl_batch_size dl
      else (length (dl_dataset dl) + dl_batch_size dl - 1) div dl_batch_size dl)"

text \<open>The default collation: the images of a batch and its labels.\<close>

definition collate :: "(rat list \<times> 'l) list \<Rightarrow> tensor \<times> 'l list" where
  "collate b = (map fst b, map snd b)"

definition batches :: "(rat list \<times> 'l) DataLoader \<Rightarrow> nat \<Rightarrow> (tensor \<times> 'l list) list" where
  "batches dl k = map collate (DataLoader_iter dl k)"

section \<open>Evaluation\<close>

text \<open>
  \<open>eval_mlp_classifier(model, eval_dataloader)\<close>, the same in the two notebooks that
  define it. It reshapes every batch with the notebook's global \<open>batch_size\<close>, here the
  second argument. \<open>k\<close> numbers the iteration of the loader. The function leaves the
  model in evaluation mode.
\<close>

definition eval_mlp_classifier_batch ::
  "('p, 'o, nat list) framework \<Rightarrow> nat \<Rightarrow> nat \<Rightarrow> 'p machine \<Rightarrow>
   tensor \<times> nat list \<Rightarrow> nat \<times> nat \<Rightarrow> error + nat \<times> nat" where
  "eval_mlp_classifier_batch fw batch_size model st =
     (\<lambda>(images, targets) (correct_labels, total_labels).
        case view_infer batch_size images of
          Inl e \<Rightarrow> Inl e
        | Inr images \<Rightarrow>
        (case model_call fw model images st of
          Inl e \<Rightarrow> Inl e
        | Inr y_predicted \<Rightarrow>
        (case torch_max_indices y_predicted of
          Inl e \<Rightarrow> Inl e
        | Inr labels_predicted \<Rightarrow>
        (let total_labels = total_labels + length targets in
         case eq_sum labels_predicted targets of
          Inl e \<Rightarrow> Inl e
        | Inr c \<Rightarrow> Inr (correct_labels + c, total_labels)))))"

definition eval_mlp_classifier ::
  "('p, 'o, nat list) framework \<Rightarrow> nat \<Rightarrow> nat \<Rightarrow> (rat list \<times> nat) DataLoader \<Rightarrow> nat \<Rightarrow>
   'p machine \<Rightarrow> error + rat \<times> 'p machine" where
  "eval_mlp_classifier fw batch_size model eval_dataloader k st =
     (let st = model_eval model st in
      case for_loop (eval_mlp_classifier_batch fw batch_size model st)
             (batches eval_dataloader k) (0, 0) of
        Inl e \<Rightarrow> Inl e
      | Inr (correct_labels, total_labels) \<Rightarrow>
          if total_labels = 0 then Inl ZeroDivisionError
          else Inr (100 * rat_of_nat correct_labels / rat_of_nat total_labels, st))"

text \<open>
  \<open>eval_cnn_classifier(model, eval_dataloader, device)\<close>: the images go to the model as
  they are. Moving tensors to the device changes no value and is left out.
\<close>

definition eval_cnn_classifier_batch ::
  "('p, 'o, nat list) framework \<Rightarrow> nat \<Rightarrow> 'p machine \<Rightarrow>
   tensor \<times> nat list \<Rightarrow> nat \<times> nat \<Rightarrow> error + nat \<times> nat" where
  "eval_cnn_classifier_batch fw model st =
     (\<lambda>(images, targets) (correct, total').
        case model_call fw model images st of
          Inl e \<Rightarrow> Inl e
        | Inr y_predicted \<Rightarrow>
        (case torch_max_indices y_predicted of
          Inl e \<Rightarrow> Inl e
        | Inr label_predicted \<Rightarrow>
        (let total' = total' + length targets in
         case eq_sum label_predicted targets of
          Inl e \<Rightarrow> Inl e
        | Inr c \<Rightarrow> Inr (correct + c, total'))))"

definition eval_cnn_classifier ::
  "('p, 'o, nat list) framework \<Rightarrow> nat \<Rightarrow> (rat list \<times> nat) DataLoader \<Rightarrow> nat \<Rightarrow>
   'p machine \<Rightarrow> error + rat \<times> 'p machine" where
  "eval_cnn_classifier fw model eval_dataloader k st =
     (let st = model_eval model st in
      case for_loop (eval_cnn_classifier_batch fw model st) (batches eval_dataloader k) (0, 0) of
        Inl e \<Rightarrow> Inl e
      | Inr (correct, total') \<Rightarrow>
          if total' = 0 then Inl ZeroDivisionError
          else Inr (100 * rat_of_nat correct / rat_of_nat total', st))"

section \<open>The training loops\<close>

subsection \<open>The regression loops\<close>

text \<open>
  The two loops of the regression notebook run on the whole data \<open>x\<close>, \<open>y\<close> at every
  epoch, 10 and 50 times, with a model and an optimizer made in earlier cells. The first
  prints the loss of the epoch; the second prints it and appends it to \<open>loss_records\<close>.
\<close>

definition linear_regression_epoch ::
  "('p, 'o, 'y) framework \<Rightarrow> (tensor \<Rightarrow> 'y \<Rightarrow> error + rat) \<Rightarrow> ('p, 'o) optimizer \<Rightarrow> nat \<Rightarrow>
   tensor \<Rightarrow> 'y \<Rightarrow> nat \<Rightarrow> 'p machine \<times> 'o \<Rightarrow> error + 'p machine \<times> 'o" where
  "linear_regression_epoch fw loss_fn optimizer lin_reg_model x y =
     (\<lambda>epoch (st, os).
        case model_call fw lin_reg_model x st of
          Inl e \<Rightarrow> Inl e
        | Inr y_pred \<Rightarrow>
        (let st = record_step (Forward x) st in
         case loss_call fw loss_fn lin_reg_model x y_pred y st of
          Inl e \<Rightarrow> Inl e
        | Inr l \<Rightarrow>
        (let st = record_step LossComputation st;
             st = record_step ZeroGrad (optimizer_zero_grad lin_reg_model st);
             st = record_step Backward (loss_backward fw lin_reg_model l st);
             (st, os) = optimizer_step optimizer lin_reg_model os st;
             st = record_step OptimizerStep st;
             st = record_step RecordLoss (print (item l) st)
         in Inr (st, os))))"

definition linear_regression_loop ::
  "('p, 'o, 'y) framework \<Rightarrow> (tensor \<Rightarrow> 'y \<Rightarrow> error + rat) \<Rightarrow> ('p, 'o) optimizer \<Rightarrow> nat \<Rightarrow>
   tensor \<Rightarrow> 'y \<Rightarrow> nat \<Rightarrow> 'p machine \<times> 'o \<Rightarrow> error + 'p machine \<times> 'o" where
  "linear_regression_loop fw loss_fn optimizer lin_reg_model x y n =
     for_loop (linear_regression_epoch fw loss_fn optimizer lin_reg_model x y) [0..<n]"

definition nonlinear_regression_epoch ::
  "('p, 'o, 'y) framework \<Rightarrow> (tensor \<Rightarrow> 'y \<Rightarrow> error + rat) \<Rightarrow> ('p, 'o) optimizer \<Rightarrow> nat \<Rightarrow>
   tensor \<Rightarrow> 'y \<Rightarrow> nat \<Rightarrow> 'p machine \<times> 'o \<times> rat list \<Rightarrow>
   error + 'p machine \<times> 'o \<times> rat list" where
  "nonlinear_regression_epoch fw loss_fn optimizer nonlin_reg_model x y =
     (\<lambda>epoch (st, os, loss_records).
        case model_call fw nonlin_reg_model x st of
          Inl e \<Rightarrow> Inl e
        | Inr y_pred \<Rightarrow>
        (let st = record_step (Forward x) st in
         case loss_call fw loss_fn nonlin_reg_model x y_pred y st of
          Inl e \<Rightarrow> Inl e
        | Inr l \<Rightarrow>
        (let st = record_step LossComputation st;
             st = record_step ZeroGrad (optimizer_zero_grad nonlin_reg_model st);
             st = record_step Backward (loss_backward fw nonlin_reg_model l st);
             (st, os) = optimizer_step optimizer nonlin_reg_model os st;
             st = record_step OptimizerStep st;
             st = print (item l) st;
             loss_records = loss_records @ [item l];
             st = record_step RecordLoss st
         in Inr (st, os, loss_records))))"

definition nonlinear_regression_loop ::
  "('p, 'o, 'y) framework \<Rightarrow> (tensor \<Rightarrow> 'y \<Rightarrow> error + rat) \<Rightarrow> ('p, 'o) optimizer \<Rightarrow> nat \<Rightarrow>
   tensor \<Rightarrow> 'y \<Rightarrow> nat \<Rightarrow> 'p machine \<times> 'o \<times> rat list \<Rightarrow>
   error + 'p machine \<times> 'o \<times> rat list" where
  "nonlinear_regression_loop fw loss_fn optimizer nonlin_reg_model x y n =
     for_loop (nonlinear_regression_epoch fw loss_fn optimizer nonlin_reg_model x y) [0..<n]"

subsection \<open>training_mlp_classifier\<close>

text \<open>
  The notebook's global \<open>batch_size\<close> is the second argument. The loop over the
  batches carries the machine, the state of the optimizer and \<open>tr_loss\<close>; the loop over
  the epochs carries \<open>train_losses\<close> instead. With \<open>verbose\<close> the losses are printed
  (their formatting is left out).
\<close>

definition training_mlp_classifier_batch ::
  "('p, 'o, 'y) framework \<Rightarrow> nat \<Rightarrow> (tensor \<Rightarrow> 'y \<Rightarrow> error + rat) \<Rightarrow> ('p, 'o) optimizer \<Rightarrow>
   nat \<Rightarrow> tensor \<times> 'y \<Rightarrow> 'p machine \<times> 'o \<times> rat \<Rightarrow> error + 'p machine \<times> 'o \<times> rat" where
  "training_mlp_classifier_batch fw batch_size loss_fn optimizer model_tr =
     (\<lambda>(images, targets) (st, os, tr_loss).
        case view_infer batch_size images of
          Inl e \<Rightarrow> Inl e
        | Inr images \<Rightarrow>
        (case model_call fw model_tr images st of
          Inl e \<Rightarrow> Inl e
        | Inr labels_pred \<Rightarrow>
        (let st = record_step (Forward images) st in
         case loss_call fw loss_fn model_tr images labels_pred targets st of
          Inl e \<Rightarrow> Inl e
        | Inr l \<Rightarrow>
        (let st = record_step LossComputation st;
             st = record_step ZeroGrad (optimizer_zero_grad model_tr st);
             st = record_step Backward (loss_backward fw model_tr l st);
             (st, os) = optimizer_step optimizer model_tr os st;
             st = record_step OptimizerStep st;
             tr_loss = tr_loss + item l * rat_of_nat batch_size;
             st = record_step RecordLoss st
         in Inr (st, os, tr_loss)))))"

definition training_mlp_classifier_epoch ::
  "('p, 'o, 'l list) framework \<Rightarrow> nat \<Rightarrow> (tensor \<Rightarrow> 'l list \<Rightarrow> error + rat) \<Rightarrow>
   ('p, 'o) optimizer \<Rightarrow> nat \<Rightarrow> (rat list \<times> 'l) DataLoader \<Rightarrow> bool \<Rightarrow>
   nat \<Rightarrow> 'p machine \<times> 'o \<times> rat list \<Rightarrow> error + 'p machine \<times> 'o \<times> rat list" where
  "training_mlp_classifier_epoch fw batch_size loss_fn optimizer model_tr train_dataloader
       verbose =
     (\<lambda>epoch (st, os, train_losses).
        case for_loop (training_mlp_classifier_batch fw batch_size loss_fn optimizer model_tr)
               (batches train_dataloader epoch) (st, os, 0) of
          Inl e \<Rightarrow> Inl e
        | Inr (st, os, tr_loss) \<Rightarrow>
            if DataLoader_len train_dataloader * batch_size = 0 then Inl ZeroDivisionError
            else
              (let tr_loss = tr_loss / rat_of_nat (DataLoader_len train_dataloader * batch_size);
                   train_losses = train_losses @ [tr_loss];
                   st = (if verbose then print tr_loss st else st)
               in Inr (st, os, train_losses)))"

text \<open>The state of the loop after its first \<open>n\<close> epochs.\<close>

definition training_mlp_classifier_loop ::
  "('p, 'o, 'l list) framework \<Rightarrow> nat \<Rightarrow> nat \<Rightarrow> (rat list \<times> 'l) DataLoader \<Rightarrow>
   (tensor \<Rightarrow> 'l list \<Rightarrow> error + rat) \<Rightarrow> rat \<Rightarrow> bool \<Rightarrow> 'p machine \<Rightarrow> nat \<Rightarrow>
   error + 'p machine \<times> 'o \<times> rat list" where
  "training_mlp_classifier_loop fw batch_size model train_dataloader loss_fn learning_rate
       verbose st n =
     (let (model_tr, st) = deepcopy model st;
          st = model_train model_tr st;
          optimizer = fw_SGD fw learning_rate
      in for_loop
           (training_mlp_classifier_epoch fw batch_size loss_fn optimizer model_tr
              train_dataloader verbose)
           [0..<n] (st, opt_init optimizer, []))"

definition training_mlp_classifier ::
  "('p, 'o, 'l list) framework \<Rightarrow> nat \<Rightarrow> nat \<Rightarrow> (rat list \<times> 'l) DataLoader \<Rightarrow> nat \<Rightarrow>
   (tensor \<Rightarrow> 'l list \<Rightarrow> error + rat) \<Rightarrow> rat \<Rightarrow> bool \<Rightarrow> 'p machine \<Rightarrow>
   error + (nat \<times> rat list) \<times> 'p machine" where
  "training_mlp_classifier fw batch_size model train_dataloader num_epochs loss_fn
       learning_rate verbose st =
     (let model_tr = fst (deepcopy model st) in
      case training_mlp_classifier_loop fw batch_size model train_dataloader loss_fn
             learning_rate verbose st num_epochs of
        Inl e \<Rightarrow> Inl e
      | Inr (st, os, train_losses) \<Rightarrow> Inr ((model_tr, train_losses), st))"

subsection \<open>train_val_mlp_classifier\<close>

text \<open>
  The function has a \<open>batch_size\<close> argument of its own; the evaluation it calls still
  reads the global one (first among the arguments here).
\<close>

definition train_val_mlp_classifier_batch ::
  "('p, 'o, 'y) framework \<Rightarrow> nat \<Rightarrow> nat \<Rightarrow> (tensor \<Rightarrow> 'y \<Rightarrow> error + rat) \<Rightarrow>
   ('p, 'o) optimizer \<Rightarrow> nat \<Rightarrow> tensor \<times> 'y \<Rightarrow> 'p machine \<times> 'o \<times> rat \<Rightarrow>
   error + 'p machine \<times> 'o \<times> rat" where
  "train_val_mlp_classifier_batch fw input_size batch_size loss_fn optimizer model_tr =
     (\<lambda>(images, targets) (st, os, tr_loss).
        case view batch_size input_size images of
          Inl e \<Rightarrow> Inl e
        | Inr images \<Rightarrow>
        (case model_call fw model_tr images st of
          Inl e \<Rightarrow> Inl e
        | Inr labels_pred \<Rightarrow>
        (let st = record_step (Forward images) st in
         case loss_call fw loss_fn model_tr images labels_pred targets st of
          Inl e \<Rightarrow> Inl e
        | Inr l \<Rightarrow>
        (let st = record_step LossComputation st;
             st = record_step ZeroGrad (optimizer_zero_grad model_tr st);
             st = record_step Backward (loss_backward fw model_tr l st);
             (st, os) = optimizer_step optimizer model_tr os st;
             st = record_step OptimizerStep st;
             tr_loss = tr_loss + item l * rat_of_nat batch_size;
             st = record_step RecordLoss st
         in Inr (st, os, tr_loss)))))"

definition train_val_mlp_classifier_epoch ::
  "('p, 'o, nat list) framework \<Rightarrow> nat \<Rightarrow> nat \<Rightarrow> nat \<Rightarrow> (tensor \<Rightarrow> nat list \<Rightarrow> error + rat) \<Rightarrow>
   ('p, 'o) optimizer \<Rightarrow> nat \<Rightarrow> (rat list \<times> nat) DataLoader \<Rightarrow> (rat list \<times> nat) DataLoader \<Rightarrow>
   bool \<Rightarrow> nat \<Rightarrow> 'p machine \<times> 'o \<times> rat list \<times> rat list \<times> rat \<times> nat \<Rightarrow>
   error + 'p machine \<times> 'o \<times> rat list \<times> rat list \<times> rat \<times> nat" where
  "train_val_mlp_classifier_epoch fw global_batch_size input_size batch_size loss_fn optimizer
       model_tr train_dataloader valid_dataloader verbose =
     (\<lambda>epoch (st, os, train_losses, val_accuracies, accuracy_max, model_opt).
        case for_loop
               (train_val_mlp_classifier_batch fw input_size batch_size loss_fn optimizer
                  model_tr)
               (batches train_dataloader epoch) (st, os, 0) of
          Inl e \<Rightarrow> Inl e
        | Inr (st, os, tr_loss) \<Rightarrow>
            if DataLoader_len train_dataloader * batch_size = 0 then Inl ZeroDivisionError
            else
              (let tr_loss = tr_loss / rat_of_nat (DataLoader_len train_dataloader * batch_size);
                   train_losses = train_losses @ [tr_loss];
                   st = (if verbose then print tr_loss st else st)
               in case eval_mlp_classifier fw global_batch_size model_tr valid_dataloader
                         epoch st of
                    Inl e \<Rightarrow> Inl e
                  | Inr (accuracy, st) \<Rightarrow>
                      (let val_accuracies = val_accuracies @ [accuracy];
                           (accuracy_max, model_opt, st) =
                             (if accuracy > accuracy_max
                              then (let (r, st) = deepcopy model_tr st in (accuracy, r, st))
                              else (accuracy_max, model_opt, st));
                           st = (if verbose then print accuracy st else st)
                       in Inr (st, os, train_losses, val_accuracies, accuracy_max,
                               model_opt))))"

text \<open>The state of the loop after its first \<open>n\<close> epochs.\<close>

definition train_val_mlp_classifier_loop ::
  "('p, 'o, nat list) framework \<Rightarrow> nat \<Rightarrow> nat \<Rightarrow> (rat list \<times> nat) DataLoader \<Rightarrow>
   (rat list \<times> nat) DataLoader \<Rightarrow> nat \<Rightarrow> nat \<Rightarrow> (tensor \<Rightarrow> nat list \<Rightarrow> error + rat) \<Rightarrow>
   rat \<Rightarrow> bool \<Rightarrow> 'p machine \<Rightarrow> nat \<Rightarrow>
   error + 'p machine \<times> 'o \<times> rat list \<times> rat list \<times> rat \<times> nat" where
  "train_val_mlp_classifier_loop fw global_batch_size model train_dataloader valid_dataloader
       input_size batch_size loss_fn learning_rate verbose st n =
     (let (model_tr, st) = deepcopy model st;
          st = model_train model_tr st;
          optimizer = fw_Adam fw learning_rate;
          (model_opt, st) = deepcopy model_tr st
      in for_loop
           (train_val_mlp_classifier_epoch fw global_batch_size input_size batch_size loss_fn
              optimizer model_tr train_dataloader valid_dataloader verbose)
           [0..<n] (st, opt_init optimizer, [], [], 0, model_opt))"

definition train_val_mlp_classifier ::
  "('p, 'o, nat list) framework \<Rightarrow> nat \<Rightarrow> nat \<Rightarrow> (rat list \<times> nat) DataLoader \<Rightarrow>
   (rat list \<times> nat) DataLoader \<Rightarrow> nat \<Rightarrow> nat \<Rightarrow> nat \<Rightarrow> (tensor \<Rightarrow> nat list \<Rightarrow> error + rat) \<Rightarrow>
   rat \<Rightarrow> bool \<Rightarrow> 'p machine \<Rightarrow> error + (nat \<times> rat list \<times> rat list) \<times> 'p machine" where
  "train_val_mlp_classifier fw global_batch_size model train_dataloader valid_dataloader
       input_size batch_size num_epochs loss_fn learning_rate verbose st =
     (case train_val_mlp_classifier_loop fw global_batch_size model train_dataloader
             valid_dataloader input_size batch_size loss_fn learning_rate verbose st
             num_epochs of
        Inl e \<Rightarrow> Inl e
      | Inr (st, os, train_losses, val_accuracies, accuracy_max, model_opt) \<Rightarrow>
          Inr ((model_opt, train_losses, val_accuracies), st))"

subsection \<open>training_val_cnn_classifier\<close>

text \<open>
  Here \<open>model_opt\<close> is first assigned inside the loop, when a validation accuracy exceeds
  \<open>val_acc_opt\<close>: until then the variable has no value (\<open>None\<close> in the model), and
  returning it raises.
\<close>

definition training_val_cnn_classifier_batch ::
  "('p, 'o, 'y) framework \<Rightarrow> (tensor \<Rightarrow> 'y \<Rightarrow> error + rat) \<Rightarrow> ('p, 'o) optimizer \<Rightarrow> nat \<Rightarrow>
   tensor \<times> 'y \<Rightarrow> 'p machine \<times> 'o \<times> rat \<Rightarrow> error + 'p machine \<times> 'o \<times> rat" where
  "training_val_cnn_classifier_batch fw loss_fn optimizer model_tr =
     (\<lambda>(images, targets) (st, os, tr_loss).
        case model_call fw model_tr images st of
          Inl e \<Rightarrow> Inl e
        | Inr y_predicted \<Rightarrow>
        (let st = record_step (Forward images) st in
         case loss_call fw loss_fn model_tr images y_predicted targets st of
          Inl e \<Rightarrow> Inl e
        | Inr l \<Rightarrow>
        (let st = record_step LossComputation st;
             st = record_step ZeroGrad (optimizer_zero_grad model_tr st);
             st = record_step Backward (loss_backward fw model_tr l st);
             (st, os) = optimizer_step optimizer model_tr os st;
             st = record_step OptimizerStep st;
             tr_loss = tr_loss + item l * rat_of_nat (length images);
             st = record_step RecordLoss st
         in Inr (st, os, tr_loss))))"

definition training_val_cnn_classifier_epoch ::
  "('p, 'o, nat list) framework \<Rightarrow> (tensor \<Rightarrow> nat list \<Rightarrow> error + rat) \<Rightarrow>
   ('p, 'o) optimizer \<Rightarrow> nat \<Rightarrow> (rat list \<times> nat) DataLoader \<Rightarrow> (rat list \<times> nat) DataLoader \<Rightarrow>
   bool \<Rightarrow> nat \<Rightarrow> 'p machine \<times> 'o \<times> rat list \<times> rat list \<times> rat \<times> nat option \<Rightarrow>
   error + 'p machine \<times> 'o \<times> rat list \<times> rat list \<times> rat \<times> nat option" where
  "training_val_cnn_classifier_epoch fw loss_fn optimizer model_tr train_dataloader
       valid_dataloader verbose =
     (\<lambda>epoch (st, os, train_losses, val_accuracies, val_acc_opt, model_opt).
        case for_loop (training_val_cnn_classifier_batch fw loss_fn optimizer model_tr)
               (batches train_dataloader epoch) (st, os, 0) of
          Inl e \<Rightarrow> Inl e
        | Inr (st, os, tr_loss) \<Rightarrow>
            if length (dl_dataset train_dataloader) = 0 then Inl ZeroDivisionError
            else
              (let tr_loss = tr_loss / rat_of_nat (length (dl_dataset train_dataloader));
                   train_losses = train_losses @ [tr_loss]
               in case eval_cnn_classifier fw model_tr valid_dataloader epoch st of
                    Inl e \<Rightarrow> Inl e
                  | Inr (val_acc, st) \<Rightarrow>
                      (let val_accuracies = val_accuracies @ [val_acc];
                           st = (if verbose then print val_acc (print tr_loss st) else st);
                           (model_opt, val_acc_opt, st) =
                             (if val_acc > val_acc_opt
                              then (let (r, st) = deepcopy model_tr st in (Some r, val_acc, st))
                              else (model_opt, val_acc_opt, st))
                       in Inr (st, os, train_losses, val_accuracies, val_acc_opt,
                               model_opt))))"

definition training_val_cnn_classifier_loop ::
  "('p, 'o, nat list) framework \<Rightarrow> nat \<Rightarrow> (rat list \<times> nat) DataLoader \<Rightarrow>
   (rat list \<times> nat) DataLoader \<Rightarrow> (tensor \<Rightarrow> nat list \<Rightarrow> error + rat) \<Rightarrow> rat \<Rightarrow> bool \<Rightarrow>
   'p machine \<Rightarrow> nat \<Rightarrow>
   error + 'p machine \<times> 'o \<times> rat list \<times> rat list \<times> rat \<times> nat option" where
  "training_val_cnn_classifier_loop fw model train_dataloader valid_dataloader loss_fn
       learning_rate verbose st n =
     (let (model_tr, st) = deepcopy model st;
          st = model_train model_tr st;
          optimizer = fw_Adam fw learning_rate
      in for_loop
           (training_val_cnn_classifier_epoch fw loss_fn optimizer model_tr train_dataloader
              valid_dataloader verbose)
           [0..<n] (st, opt_init optimizer, [], [], 0, None))"

definition training_val_cnn_classifier ::
  "('p, 'o, nat list) framework \<Rightarrow> nat \<Rightarrow> (rat list \<times> nat) DataLoader \<Rightarrow>
   (rat list \<times> nat) DataLoader \<Rightarrow> nat \<Rightarrow> (tensor \<Rightarrow> nat list \<Rightarrow> error + rat) \<Rightarrow> rat \<Rightarrow>
   bool \<Rightarrow> 'p machine \<Rightarrow> error + (nat \<times> rat list \<times> rat list) \<times> 'p machine" where
  "training_val_cnn_classifier fw model train_dataloader valid_dataloader num_epochs loss_fn
       learning_rate verbose st =
     (case training_val_cnn_classifier_loop fw model train_dataloader valid_dataloader
             loss_fn learning_rate verbose st num_epochs of
        Inl e \<Rightarrow> Inl e
      | Inr (st, os, train_losses, val_accuracies, val_acc_opt, model_opt) \<Rightarrow>
          (case model_opt of
             None \<Rightarrow> Inl UnboundLocalError
           | Some r \<Rightarrow> Inr ((r, train_losses, val_accuracies), st)))"

section \<open>A framework small enough to run\<close>

text \<open>
  For the examples: a model with one weight \<open>w\<close>, which scores an image with the two
  values \<open>w * (sum of its pixels)\<close> and 1, and raises on an image without pixels; a
  gradient of \<open>g\<close> per image of the batch, whatever the loss; an SGD that subtracts the
  learning rate times the gradient and an Adam-like optimizer that moves by the learning
  rate against the sign of the gradient, both counting their steps in their state.
\<close>

definition toy :: "rat \<Rightarrow> (rat, nat, 'y) framework" where
  "toy g =
     \<lparr>fw_forward = (\<lambda>w tr x. if list_all (\<lambda>row. row \<noteq> []) x
                              then Inr (map (\<lambda>row. [w * sum_list row, 1]) x)
                              else Inl RuntimeError),
      fw_autograd = (\<lambda>loss_fn w tr x y. g * rat_of_nat (length x)),
      fw_add = (\<lambda>a b. a + b),
      fw_SGD = (\<lambda>lr. \<lparr>opt_init = 0, opt_update = (\<lambda>os w gr. (w - lr * gr, Suc os))\<rparr>),
      fw_Adam = (\<lambda>lr. \<lparr>opt_init = 0,
                         opt_update = (\<lambda>os w gr. (w - lr * sgn gr, Suc os))\<rparr>)\<rparr>"

definition toy_loss :: "tensor \<Rightarrow> 'y \<Rightarrow> error + rat" where
  "toy_loss y_pred y = Inr (sum_list (map sum_list y_pred))"

text \<open>One model on the heap, at address 0, with weight 1/2.\<close>

definition machine0 :: "rat machine" where
  "machine0 =
     \<lparr>heap = (\<lambda>r. \<lparr>parameters = 1 / 2, grad = None, training = True\<rparr>),
      next_ref = 1, trace = [], stdout = []\<rparr>"

text \<open>Two validation samples in one batch.\<close>

definition valid_loader :: "(rat list \<times> nat) DataLoader" where
  "valid_loader =
     \<lparr>dl_dataset = [([1], 1), ([5], 1)], dl_batch_size = 2,
      dl_shuffle = False, dl_drop_last = False, dl_sampler = (\<lambda>k. [])\<rparr>"

subsection \<open>What the claims about the loops speak of\<close>

text \<open>
  The model answers a batch when, after the preparation \<open>prep\<close> of the images (the
  reshaping of \<open>eval_mlp_classifier\<close>, nothing for \<open>eval_cnn_classifier\<close>), its call
  in evaluation mode returns one row of scores, not empty, for every label of the batch.
\<close>

definition answers ::
  "('p, 'o, 'y) framework \<Rightarrow> 'p \<Rightarrow> (tensor \<Rightarrow> error + tensor) \<Rightarrow> tensor \<times> nat list \<Rightarrow> bool" where
  "answers fw p prep b =
     (case prep (fst b) of
        Inl e \<Rightarrow> False
      | Inr x \<Rightarrow>
          (case fw_forward fw p False x of
             Inl e \<Rightarrow> False
           | Inr y \<Rightarrow> length y = length (snd b) \<and> list_all (\<lambda>row. row \<noteq> []) y))"

text \<open>Three validation samples in batches of two: the last batch has one image.\<close>

definition partial_loader :: "(rat list \<times> nat) DataLoader" where
  "partial_loader =
     \<lparr>dl_dataset = [([1], 0), ([5], 1), ([2], 1)], dl_batch_size = 2,
      dl_shuffle = False, dl_drop_last = False, dl_sampler = (\<lambda>k. [])\<rparr>"

text \<open>
  The steps of one training iteration on the tensor \<open>x\<close> given to the model, and the
  tensor the two MLP training functions give to the model for a batch of images.
\<close>

definition iteration :: "tensor \<Rightarrow> step list" where
  "iteration x = [Forward x, LossComputation, ZeroGrad, Backward, OptimizerStep, RecordLoss]"

definition mlp_input :: "nat \<Rightarrow> tensor \<Rightarrow> tensor" where
  "mlp_input batch_size images =
     reshape batch_size (length (concat images) div batch_size) (concat images)"


text \<open>
  A piece of code modifies only the object \<open>m\<close> when every other object that existed
  before it is the same after it; objects may have been created.
\<close>

definition modifies_only :: "nat \<Rightarrow> 'p machine \<Rightarrow> 'p machine \<Rightarrow> bool" where
  "modifies_only m st st' =
     (next_ref st \<le> next_ref st' \<and> (\<forall>r. r < next_ref st \<and> r \<noteq> m \<longrightarrow> heap st' r = heap st r))"

subsection \<open>More loaders\<close>

text \<open>
  Two samples in one batch, the same at every epoch; three samples in batches of two, the
  last batch dropped; two validation samples of which the model, as it is trained, gets
  the second wrong from the second epoch on; and two images without pixels, which the
  model refuses.
\<close>

definition one_batch_loader :: "(rat list \<times> nat) DataLoader" where
  "one_batch_loader =
     \<lparr>dl_dataset = [([3], 0), ([1], 0)], dl_batch_size = 2,
      dl_shuffle = True, dl_drop_last = True, dl_sampler = (\<lambda>k. [1, 0])\<rparr>"

definition dropping_loader :: "(rat list \<times> nat) DataLoader" where
  "dropping_loader =
     \<lparr>dl_dataset = [([1], 0), ([2], 1), ([3], 0)], dl_batch_size = 2,
      dl_shuffle = True, dl_drop_last = True, dl_sampler = (\<lambda>k. [2, 0, 1])\<rparr>"

definition first_best_loader :: "(rat list \<times> nat) DataLoader" where
  "first_best_loader =
     \<lparr>dl_dataset = [([1], 1), ([5], 0)], dl_batch_size = 2,
      dl_shuffle = False, dl_drop_last = False, dl_sampler = (\<lambda>k. [])\<rparr>"

definition empty_rows_loader :: "(rat list \<times> nat) DataLoader" where
  "empty_rows_loader =
     \<lparr>dl_dataset = [([], 0), ([], 0)], dl_batch_size = 2,
      dl_shuffle = False, dl_drop_last = True, dl_sampler = (\<lambda>k. [])\<rparr>"

subsection \<open>What an iteration does\<close>

text \<open>
  One training iteration in the words of the specification, on the tensor \<open>x\<close> and
  the targets \<open>y\<close>: the forward pass with the parameters and the mode of the model,
  the loss between the predictions and the targets, the gradient of that loss in the
  place of whatever gradient was stored (the zeroing, then the backward pass), and the
  step of the optimizer with that gradient. It gives the model after the iteration, the
  state of the optimizer and the value of the loss. It is written with the functions of
  the framework alone, not with the calls the loops are made of.
\<close>

definition training_step ::
  "('p, 'o, 'y) framework \<Rightarrow> (tensor \<Rightarrow> 'y \<Rightarrow> error + rat) \<Rightarrow> ('p, 'o) optimizer \<Rightarrow>
   tensor \<Rightarrow> 'y \<Rightarrow> 'p module \<times> 'o \<Rightarrow> error + 'p module \<times> 'o \<times> rat" where
  "training_step fw loss_fn opt x y =
     (\<lambda>(m, os).
        case fw_forward fw (parameters m) (training m) x of
          Inl e \<Rightarrow> Inl e
        | Inr y_pred \<Rightarrow>
            (case loss_fn y_pred y of
               Inl e \<Rightarrow> Inl e
             | Inr v \<Rightarrow>
                 (let g = fw_autograd fw loss_fn (parameters m) (training m) x y;
                      (p, os') = opt_update opt os (parameters m) g
                  in Inr (m\<lparr>parameters := p, grad := Some g\<rparr>, os', v))))"


text \<open>
  An optimizer that counts, in its own state, how many times its update is applied, and
  the framework whose optimizers count.
\<close>

definition counting :: "('p, 'o) optimizer \<Rightarrow> ('p, 'o \<times> nat) optimizer" where
  "counting opt =
     \<lparr>opt_init = (opt_init opt, 0),
      opt_update = (\<lambda>(os, n) p g. let (p', os') = opt_update opt os p g in (p', (os', Suc n)))\<rparr>"

definition counting_steps :: "('p, 'o, 'y) framework \<Rightarrow> ('p, 'o \<times> nat, 'y) framework" where
  "counting_steps fw =
     \<lparr>fw_forward = fw_forward fw, fw_autograd = fw_autograd fw, fw_add = fw_add fw,
      fw_SGD = (\<lambda>lr. counting (fw_SGD fw lr)), fw_Adam = (\<lambda>lr. counting (fw_Adam fw lr))\<rparr>"



section \<open>Properties of the Dataset classes\<close>

lemma length_find_files: "length (find_files fs d pat) = count_matching fs d pat"
  unfolding find_files_def count_matching_def fnmatch_filter_def
  by (induction "os_walk fs d") (auto simp: length_concat comp_def split_def)

lemma length_crop_or_pad:
  "0 \<le> m \<Longrightarrow>
   int (length (if int (length y) > m then py_slice_to y m
                else y @ replicate (nat (m - int (length y))) (0::rat))) = m"
  by (auto simp: py_slice_to_def)

lemma pow2_pos: "0 < pow2 e"
  by (simp add: pow2_def)

lemma round_half_even_nonneg: "0 \<le> q \<Longrightarrow> 0 \<le> round_half_even q"
  by (simp add: round_half_even_def Let_def)

lemma round_double_nonneg:
  assumes "0 \<le> r"
  shows "0 \<le> round_double r"
proof (cases "r = 0")
  case True
  then show ?thesis by (simp add: round_double_def)
next
  case False
  with assms have r: "0 < r" by simp
  let ?e = "max (floor_log2 \<bar>r\<bar> - 52) (- 1074)"
  have "0 \<le> \<bar>r\<bar> / pow2 ?e"
    using pow2_pos [of ?e] by simp
  then have "0 \<le> round_half_even (\<bar>r\<bar> / pow2 ?e)"
    by (rule round_half_even_nonneg)
  then have "0 \<le> rat_of_int (round_half_even (\<bar>r\<bar> / pow2 ?e)) * pow2 ?e"
    using pow2_pos [of ?e] by simp
  then show ?thesis
    using r False by (simp add: round_double_def Let_def)
qed

lemma float_mul_nonneg: "0 \<le> a \<Longrightarrow> 0 \<le> b \<Longrightarrow> 0 \<le> float_mul a b"
  unfolding float_mul_def by (intro round_double_nonneg mult_nonneg_nonneg)

lemma length_set_duration:
  assumes "set_duration y dur sf = Inr z" and "0 \<le> dur"
  shows "int (length z) = py_int_of_float (float_mul dur (rat_of_nat sf))"
proof -
  have "0 \<le> float_mul dur (rat_of_nat sf)"
    using assms(2) by (intro float_mul_nonneg) simp_all
  then have "0 \<le> py_int_of_float (float_mul dur (rat_of_nat sf))"
    by (simp add: py_int_of_float_def)
  from length_crop_or_pad [OF this, of y] assms(1) show ?thesis
    by (auto simp: set_duration_def Let_def split: if_splits)
qed


lemma py_getitem_in_range:
  "0 \<le> i \<Longrightarrow> i < int (length xs) \<Longrightarrow> py_getitem xs i = Inr (xs ! nat i)"
  by (simp add: py_getitem_def)

lemma corpus_txt:
  "sort (find_files corpus ''d/'' ''*.txt'') = [''d/a.txt'', ''d/b.txt'', ''d/sub/z.txt'']"
  by code_simp

lemma corpus_labels:
  "get_labels corpus [''d/a.txt'', ''d/b.txt'', ''d/sub/z.txt''] = Inr [1, 0, 0]"
  by code_simp

lemma corpus_vocab:
  "map_sum id sort (create_vocabulary corpus [''d/a.txt'', ''d/b.txt'', ''d/sub/z.txt''])
     = Inr [''bad'', ''good'', ''movie'', ''really'']"
  by code_simp

lemma corpus_init: "TextDataset_init corpus ''d/'' 3 = Inr corpus_text_dataset"
proof -
  obtain ws where ws: "create_vocabulary corpus [''d/a.txt'', ''d/b.txt'', ''d/sub/z.txt''] = Inr ws"
    and sws: "sort ws = [''bad'', ''good'', ''movie'', ''really'']"
    using corpus_vocab by (cases "create_vocabulary corpus [''d/a.txt'', ''d/b.txt'', ''d/sub/z.txt'']") auto
  have ss: "sort [''bad'', ''good'', ''movie'', ''really''] = [''bad'', ''good'', ''movie'', ''really'']"
    by code_simp
  have up: "[0..<4] = [0, 1, 2, 3]" by code_simp
  show ?thesis
    unfolding TextDataset_init_def corpus_txt Let_def corpus_labels ws corpus_text_dataset_def
    by (simp add: sws ss up)
qed

text \<open>
  Claim C6. Each Dataset class is a file-reading adapter: its length is the number of
  files under its directory that match its pattern (\<open>*.png\<close>, \<open>*.wav\<close>, \<open>*.txt\<close>),
  its path list is the sorted list of those files, and \<open>__getitem__(index)\<close>, for a
  position \<open>index\<close> of that list, reads the file at that position: what it returns is
  computed from the contents of that file. (The text dataset exists once \<open>__init__\<close>
  has read every file without an exception.)
\<close>

theorem C6_datasets_are_file_adapters:
  assumes "TextDataset_init fs tdir m = Inr tds"
  shows
    "ImageDataset_len (ImageDataset_init fs idir) = count_matching fs idir ''*.png''
   \<and> SpeechDataset_len (SpeechDataset_init fs adir dur) = count_matching fs adir ''*.wav''
   \<and> TextDataset_len tds = count_matching fs tdir ''*.txt''
   \<and> image_path_list (ImageDataset_init fs idir) = sort (find_files fs idir ''*.png'')
   \<and> audio_path_list (SpeechDataset_init fs adir dur) = sort (find_files fs adir ''*.wav'')
   \<and> text_files tds = sort (find_files fs tdir ''*.txt'')
   \<and> (0 \<le> index \<and> index < int (count_matching fs idir ''*.png'') \<longrightarrow>
        ImageDataset_getitem fs (ImageDataset_init fs idir) index =
          (case imread fs (sort (find_files fs idir ''*.png'') ! nat index) of
             Inl e \<Rightarrow> Inl e
           | Inr x \<Rightarrow>
               Inr (map (\<lambda>v. rat_of_nat (unat v) / 255) x,
                    str_remove (str_remove (sort (find_files fs idir ''*.png'') ! nat index)
                                  idir) ''.png'')))
   \<and> (0 \<le> index \<and> index < int (count_matching fs adir ''*.wav'') \<longrightarrow>
        SpeechDataset_getitem fs (SpeechDataset_init fs adir dur) index =
          (case sf_read fs (sort (find_files fs adir ''*.wav'') ! nat index) of
             Inl e \<Rightarrow> Inl e
           | Inr (x, sampling_frequency) \<Rightarrow>
               (case set_duration x dur sampling_frequency of
                  Inl e \<Rightarrow> Inl e
                | Inr y \<Rightarrow>
                    Inr (y, sampling_frequency,
                         str_remove (str_remove (sort (find_files fs adir ''*.wav'') ! nat index)
                                       adir) ''.wav''))))
   \<and> (0 \<le> index \<and> index < int (count_matching fs tdir ''*.txt'') \<longrightarrow>
        TextDataset_getitem fs tds index =
          (case tokenize_text fs m (sort (find_files fs tdir ''*.txt'') ! nat index) of
             Inl e \<Rightarrow> Inl e
           | Inr tokens \<Rightarrow>
               (case sequence_result (map (\<lambda>word.
                        (case word_to_index tds word of
                           None \<Rightarrow> Inl KeyError
                         | Some i \<Rightarrow> Inr i)) tokens) of
                  Inl e \<Rightarrow> Inl e
                | Inr x \<Rightarrow>
                    (case py_getitem (labels tds) index of
                       Inl e \<Rightarrow> Inl e
                     | Inr l \<Rightarrow> Inr (x, [rat_of_int l])))))"
proof -
  have tf: "text_files tds = sort (find_files fs tdir ''*.txt'')"
    and ml: "max_seq_len tds = m"
    using assms unfolding TextDataset_init_def Let_def
    by (auto split: sum.splits)
  have li: "ImageDataset_len (ImageDataset_init fs idir) = count_matching fs idir ''*.png''"
    by (simp add: ImageDataset_len_def ImageDataset_init_def length_find_files)
  have ls: "SpeechDataset_len (SpeechDataset_init fs adir dur) = count_matching fs adir ''*.wav''"
    by (simp add: SpeechDataset_len_def SpeechDataset_init_def length_find_files)
  have lt: "TextDataset_len tds = count_matching fs tdir ''*.txt''"
    by (simp add: TextDataset_len_def tf length_find_files)
  have gi: "0 \<le> index \<and> index < int (count_matching fs idir ''*.png'') \<longrightarrow>
        ImageDataset_getitem fs (ImageDataset_init fs idir) index =
          (case imread fs (sort (find_files fs idir ''*.png'') ! nat index) of
             Inl e \<Rightarrow> Inl e
           | Inr x \<Rightarrow>
               Inr (map (\<lambda>v. rat_of_nat (unat v) / 255) x,
                    str_remove (str_remove (sort (find_files fs idir ''*.png'') ! nat index)
                                  idir) ''.png''))"
    by (simp add: ImageDataset_getitem_def ImageDataset_init_def py_getitem_in_range
        length_find_files)
  have gs: "0 \<le> index \<and> index < int (count_matching fs adir ''*.wav'') \<longrightarrow>
        SpeechDataset_getitem fs (SpeechDataset_init fs adir dur) index =
          (case sf_read fs (sort (find_files fs adir ''*.wav'') ! nat index) of
             Inl e \<Rightarrow> Inl e
           | Inr (x, sampling_frequency) \<Rightarrow>
               (case set_duration x dur sampling_frequency of
                  Inl e \<Rightarrow> Inl e
                | Inr y \<Rightarrow>
                    Inr (y, sampling_frequency,
                         str_remove (str_remove (sort (find_files fs adir ''*.wav'') ! nat index)
                                       adir) ''.wav'')))"
    by (auto simp: SpeechDataset_getitem_def SpeechDataset_init_def py_getitem_in_range
        length_find_files Let_def split: sum.splits)
  have gt: "0 \<le> index \<and> index < int (count_matching fs tdir ''*.txt'') \<longrightarrow>
        TextDataset_getitem fs tds index =
          (case tokenize_text fs m (sort (find_files fs tdir ''*.txt'') ! nat index) of
             Inl e \<Rightarrow> Inl e
           | Inr tokens \<Rightarrow>
               (case sequence_result (map (\<lambda>word.
                        (case word_to_index tds word of
                           None \<Rightarrow> Inl KeyError
                         | Some i \<Rightarrow> Inr i)) tokens) of
                  Inl e \<Rightarrow> Inl e
                | Inr x \<Rightarrow>
                    (case py_getitem (labels tds) index of
                       Inl e \<Rightarrow> Inl e
                     | Inr l \<Rightarrow> Inr (x, [rat_of_int l]))))"
    by (simp add: TextDataset_getitem_def tf ml py_getitem_in_range length_find_files)
  show ?thesis
    using li ls lt gi gs gt tf
    by (simp only: ImageDataset_init_def SpeechDataset_init_def ImageDataset.simps
        SpeechDataset.simps simp_thms)
qed

lemma corpus_counts:
  "count_matching corpus ''d/'' ''*.png'' = 1"
  "count_matching corpus ''d/'' ''*.wav'' = 1"
  "count_matching corpus ''d/'' ''*.txt'' = 3"
  by code_simp+

theorem C6_witness:
  "TextDataset_init corpus ''d/'' 3 = Inr corpus_text_dataset
   \<and> ImageDataset_len (ImageDataset_init corpus ''d/'') = 1
   \<and> SpeechDataset_len (SpeechDataset_init corpus ''d/'' 2) = 1
   \<and> TextDataset_len corpus_text_dataset = 3
   \<and> text_files corpus_text_dataset = [''d/a.txt'', ''d/b.txt'', ''d/sub/z.txt'']
   \<and> ImageDataset_getitem corpus (ImageDataset_init corpus ''d/'') 0
        = Inr ([0, 1, 1 / 5], ''c'')
   \<and> SpeechDataset_getitem corpus (SpeechDataset_init corpus ''d/'' 2) 0
        = Inr ([1 / 2, - 1 / 4, 3 / 4, 0], 2, ''s'')
   \<and> TextDataset_getitem corpus corpus_text_dataset 0 = Inr ([1, 2, 3, 1], [1])"
proof -
  note t = C6_datasets_are_file_adapters [OF corpus_init, of "''d/''" "''d/''" 2 0]
  have ptxt: "sort (find_files corpus ''d/'' ''*.txt'') ! nat 0 = ''d/a.txt''"
    and png: "sort (find_files corpus ''d/'' ''*.png'') ! nat 0 = ''d/c.png''"
    and wav: "sort (find_files corpus ''d/'' ''*.wav'') ! nat 0 = ''d/s.wav''"
    by code_simp+
  have img: "(case imread corpus ''d/c.png'' of Inl e \<Rightarrow> Inl e
       | Inr x \<Rightarrow> Inr (map (\<lambda>v. rat_of_nat (unat v) / 255) x,
                        str_remove (str_remove ''d/c.png'' ''d/'') ''.png''))
     = Inr ([0, 1, 1 / 5], ''c'')"
    by code_simp
  have sp: "(case sf_read corpus ''d/s.wav'' of Inl e \<Rightarrow> Inl e
       | Inr (x, sampling_frequency) \<Rightarrow>
           (case set_duration x 2 sampling_frequency of
              Inl e \<Rightarrow> Inl e
            | Inr y \<Rightarrow>
                Inr (y, sampling_frequency,
                     str_remove (str_remove ''d/s.wav'' ''d/'') ''.wav'')))
     = Inr ([1 / 2, - 1 / 4, 3 / 4, 0], 2, ''s'')"
    by code_simp
  have tx: "(case tokenize_text corpus 3 ''d/a.txt'' of Inl e \<Rightarrow> Inl e
       | Inr tokens \<Rightarrow>
           (case sequence_result (map (\<lambda>word.
                    (case word_to_index corpus_text_dataset word of
                       None \<Rightarrow> Inl KeyError
                     | Some i \<Rightarrow> Inr i)) tokens) of
              Inl e \<Rightarrow> Inl e
            | Inr x \<Rightarrow>
                (case py_getitem (labels corpus_text_dataset) 0 of
                   Inl e \<Rightarrow> Inl e
                 | Inr l \<Rightarrow> Inr (x, [rat_of_int l]))))
     = Inr ([1, 2, 3, 1], [1])"
    by code_simp
  from t [unfolded corpus_counts ptxt png wav img sp tx] show ?thesis
    by (simp add: corpus_init corpus_txt)
qed

subsection \<open>Sample lengths\<close>

lemma sequence_result_length:
  "sequence_result rs = Inr vs \<Longrightarrow> length vs = length rs"
  by (induction rs arbitrary: vs) (auto split: sum.splits)

lemma sequence_result_set:
  "sequence_result (map f xs) = Inr vs \<Longrightarrow> v \<in> set vs \<Longrightarrow> \<exists>x \<in> set xs. f x = Inr v"
  by (induction xs arbitrary: vs) (auto split: sum.splits)

lemma length_tokenize_text:
  assumes "tokenize_text fs m f = Inr tokens"
  shows "\<exists>l. first_line fs f = Inr l \<and>
     int (length tokens) =
       max m (int (length (py_split (replace_not_letters (py_lower (py_strip l))))))"
  using assms unfolding tokenize_text_def Let_def
  by (auto split: sum.splits)

text \<open>
  The product is that of the machine: \<open>int(2.01 * 44100)\<close> is 88640, one less than
  the exact product of 2.01 by 44100, and \<open>int(0.6 * 5)\<close> is 3. And \<open>int\<close>
  accepts a line feed after the digits, not a separator.
\<close>

lemma float_mul_examples:
  "py_int_of_float (float_mul (201 / 100) 44100) = 88640"
  "py_int_of_float (float_mul (3 / 5) 5) = 3"
  "round_double (1 / 10) = 3602879701896397 / 36028797018963968"
  "set_duration [1, 2, 3] (3 / 5) 5 = Inr [1, 2, 3]"
  by code_simp+

lemma py_int_examples:
  "py_int [CHR ''1'', CHR 0x0A] = Inr 1"
  "py_int [CHR ''1'', CHR 0x1C] = Inl ValueError"
  by code_simp+

lemma SpeechDataset_getitem_length:
  assumes "SpeechDataset_getitem fs self index = Inr (y, sampling_frequency, name)"
    and "0 \<le> max_dur self"
  shows "int (length y) = py_int_of_float (float_mul (max_dur self) (rat_of_nat sampling_frequency))"
  using assms unfolding SpeechDataset_getitem_def Let_def
  by (auto split: sum.splits simp: length_set_duration)

lemma TextDataset_getitem_length:
  assumes "TextDataset_getitem fs self index = Inr (x, y)"
  shows "\<exists>text_file l. py_getitem (text_files self) index = Inr text_file
     \<and> first_line fs text_file = Inr l
     \<and> int (length x) =
         max (max_seq_len self)
           (int (length (py_split (replace_not_letters (py_lower (py_strip l))))))"
  using assms unfolding TextDataset_getitem_def
  by (auto split: sum.splits dest!: length_tokenize_text sequence_result_length)

text \<open>
  Claim C2. Every Dataset class pads or truncates each sample to a fixed length: a speech
  sample has exactly \<open>int(max_dur * sampling_frequency)\<close> entries and a text sample
  exactly \<open>max_seq_len\<close> token ids. The speech half holds for every duration that is
  not negative, the product being the product of floats
  (\<open>SpeechDataset_getitem_length\<close>). The text half does not:
  \<open>_tokenize_text\<close> appends \<open>[PAD]\<close> while the text is shorter than \<open>max_seq_len\<close>
  and never shortens a longer one, so a sample has the larger of \<open>max_seq_len\<close> and
  the number of words (\<open>TextDataset_getitem_length\<close>). The theorem runs the code on the
  four-word review of the corpus with \<open>max_seq_length = 3\<close>: the sample has four ids.
\<close>

theorem C2_text_sample_exceeds_max_seq_len:
  "TextDataset_init corpus ''d/'' 3 = Inr corpus_text_dataset
   \<and> max_seq_len corpus_text_dataset = 3
   \<and> TextDataset_getitem corpus corpus_text_dataset 0 = Inr ([1, 2, 3, 1], [1])
   \<and> length [1, 2, 3, 1 :: int] = 4"
proof -
  have "TextDataset_getitem corpus corpus_text_dataset 0 = Inr ([1, 2, 3, 1], [1])"
    by code_simp
  then show ?thesis
    by (simp add: corpus_init corpus_text_dataset_def)
qed

subsection \<open>Sample values\<close>

lemma set_duration_nth:
  "set_duration s dur sf = Inr z \<Longrightarrow> k < length z \<Longrightarrow>
   z ! k = (if k < length s then s ! k else 0)"
  unfolding set_duration_def Let_def py_slice_to_def
  by (auto simp: nth_append split: if_splits)

lemma word_to_index_range:
  assumes "TextDataset_init fs d m = Inr tds" and "word_to_index tds w = Some i"
  shows "i = - 1 \<or> (0 \<le> i \<and> i < int (length (vocab tds)))"
proof -
  obtain ws where v: "vocab tds = sort ws"
    and w: "word_to_index tds =
      (map_of (zip (sort (sort ws)) (map int [0..<length (sort ws)])))(''[PAD]'' \<mapsto> - 1)"
    using assms(1) unfolding TextDataset_init_def Let_def
    by (auto split: sum.splits)
  show ?thesis
  proof (cases "w = ''[PAD]''")
    case True
    then show ?thesis using assms(2) w by simp
  next
    case False
    then have "map_of (zip (sort (sort ws)) (map int [0..<length (sort ws)])) w = Some i"
      using assms(2) w by simp
    then have "i \<in> set (map int [0..<length (sort ws)])"
      by (meson map_of_SomeD set_zip_rightD)
    then show ?thesis using v by auto
  qed
qed

text \<open>
  Claim C3, as stated: the samples of all three classes are normalized. The text dataset
  refutes it: the second review of the corpus has one word and two \<open>[PAD]\<close> tokens,
  whose id is \<open>-1\<close>.
\<close>

theorem C3_text_samples_not_normalized:
  "\<not> (\<forall>fs d m tds i x y.
        TextDataset_init fs d m = Inr tds \<longrightarrow>
        TextDataset_getitem fs tds i = Inr (x, y) \<longrightarrow>
        normalized (map rat_of_int x))"
proof
  assume a: "\<forall>fs d m tds i x y.
        TextDataset_init fs d m = Inr tds \<longrightarrow>
        TextDataset_getitem fs tds i = Inr (x, y) \<longrightarrow>
        normalized (map rat_of_int x)"
  have g: "TextDataset_getitem corpus corpus_text_dataset 1 = Inr ([0, - 1, - 1], [0])"
    by code_simp
  from a corpus_init g have "normalized (map rat_of_int [0, - 1, - 1])"
    by blast
  then show False
    by (simp add: normalized_def)
qed

text \<open>
  Claim C3, amended. An image sample is the 8-bit channel values of the file divided by
  255, so every entry lies between 0 and 1. A speech sample is the signal as \<open>sf.read\<close>
  delivered it, cut or followed by zeros: no value is rescaled. A text sample is the list
  of the ids of its tokens: \<open>-1\<close> for \<open>[PAD]\<close>, the position in the sorted
  vocabulary for a word.
\<close>

theorem C3_images_normalized_speech_and_text_as_read:
  "(ImageDataset_getitem fs ids i = Inr (x, name) \<longrightarrow>
      normalized x \<and>
      (\<exists>path px. py_getitem (image_path_list ids) i = Inr path \<and> imread fs path = Inr px
         \<and> x = map (\<lambda>v. rat_of_nat (unat v) / 255) px))
   \<and> (SpeechDataset_getitem fs sds i = Inr (y, sampling_frequency, name') \<longrightarrow>
      (\<exists>path s. py_getitem (audio_path_list sds) i = Inr path
         \<and> sf_read fs path = Inr (s, sampling_frequency)
         \<and> (\<forall>k < length y. y ! k = (if k < length s then s ! k else 0))))
   \<and> (TextDataset_init fs d m = Inr tds \<and> TextDataset_getitem fs tds i = Inr (t, l) \<longrightarrow>
      (\<exists>path tokens. py_getitem (text_files tds) i = Inr path
         \<and> tokenize_text fs m path = Inr tokens
         \<and> map Some t = map (word_to_index tds) tokens
         \<and> (\<forall>v \<in> set t. v = - 1 \<or> (0 \<le> v \<and> v < int (length (vocab tds))))))"
proof (intro conjI impI)
  assume a: "ImageDataset_getitem fs ids i = Inr (x, name)"
  then obtain path px where p: "py_getitem (image_path_list ids) i = Inr path"
    "imread fs path = Inr px" "x = map (\<lambda>v. rat_of_nat (unat v) / 255) px"
    unfolding ImageDataset_getitem_def Let_def by (auto split: sum.splits)
  have b: "rat_of_nat (unat v) \<le> 255" for v :: "8 word"
  proof -
    have "unat v \<le> 255"
      using unsigned_less [of v, where ?'a = nat] by simp
    then have "rat_of_nat (unat v) \<le> rat_of_nat 255"
      by (simp only: of_nat_le_iff)
    then show ?thesis by simp
  qed
  have c: "0 \<le> rat_of_nat (unat v)" for v :: "8 word"
    by (rule of_nat_0_le_iff)
  have "normalized x"
    unfolding normalized_def p(3) using b c by (simp add: list_all_iff)
  then show "normalized x" .
  from p show "\<exists>path px. py_getitem (image_path_list ids) i = Inr path \<and> imread fs path = Inr px
         \<and> x = map (\<lambda>v. rat_of_nat (unat v) / 255) px" by blast
next
  assume "SpeechDataset_getitem fs sds i = Inr (y, sampling_frequency, name')"
  then show "\<exists>path s. py_getitem (audio_path_list sds) i = Inr path
         \<and> sf_read fs path = Inr (s, sampling_frequency)
         \<and> (\<forall>k < length y. y ! k = (if k < length s then s ! k else 0))"
    unfolding SpeechDataset_getitem_def Let_def
    by (auto split: sum.splits simp: set_duration_nth)
next
  assume a: "TextDataset_init fs d m = Inr tds \<and> TextDataset_getitem fs tds i = Inr (t, l)"
  have ml: "max_seq_len tds = m"
    using a unfolding TextDataset_init_def Let_def by (auto split: sum.splits)
  from a obtain path tokens where p: "py_getitem (text_files tds) i = Inr path"
    "tokenize_text fs m path = Inr tokens"
    "sequence_result (map (\<lambda>word. (case word_to_index tds word of
                           None \<Rightarrow> Inl KeyError | Some i \<Rightarrow> Inr i)) tokens) = Inr t"
    unfolding TextDataset_getitem_def ml by (auto split: sum.splits)
  have r: "\<forall>v \<in> set t. v = - 1 \<or> (0 \<le> v \<and> v < int (length (vocab tds)))"
  proof
    fix v assume "v \<in> set t"
    from sequence_result_set [OF p(3) this] obtain w where "word_to_index tds w = Some v"
      by (auto split: option.splits)
    with a show "v = - 1 \<or> (0 \<le> v \<and> v < int (length (vocab tds)))"
      using word_to_index_range by blast
  qed
  have e: "map Some t = map (word_to_index tds) tokens"
    using p(3) by (induction tokens arbitrary: t) (auto split: sum.splits option.splits)
  from p r e show "\<exists>path tokens. py_getitem (text_files tds) i = Inr path
         \<and> tokenize_text fs m path = Inr tokens
         \<and> map Some t = map (word_to_index tds) tokens
         \<and> (\<forall>v \<in> set t. v = - 1 \<or> (0 \<le> v \<and> v < int (length (vocab tds))))"
    by blast
qed


theorem C3_witness:
  "ImageDataset_getitem corpus (ImageDataset_init corpus ''d/'') 0 = Inr ([0, 1, 1 / 5], ''c'')
   \<and> normalized [0, 1, 1 / 5]
   \<and> SpeechDataset_getitem corpus (SpeechDataset_init corpus ''d/'' 2) 0
        = Inr ([1 / 2, - 1 / 4, 3 / 4, 0], 2, ''s'')
   \<and> TextDataset_init corpus ''d/'' 3 = Inr corpus_text_dataset
   \<and> TextDataset_getitem corpus corpus_text_dataset 0 = Inr ([1, 2, 3, 1], [1])
   \<and> list_all (\<lambda>v. v = - 1 \<or> (0 \<le> v \<and> v < int (length (vocab corpus_text_dataset))))
        [1, 2, 3, 1]"
proof -
  have h1: "ImageDataset_getitem corpus (ImageDataset_init corpus ''d/'') 0
              = Inr ([0, 1, 1 / 5], ''c'')"
    by code_simp
  have h2: "SpeechDataset_getitem corpus (SpeechDataset_init corpus ''d/'' 2) 0
              = Inr ([1 / 2, - 1 / 4, 3 / 4, 0], 2, ''s'')"
    by code_simp
  have h3: "TextDataset_getitem corpus corpus_text_dataset 0 = Inr ([1, 2, 3, 1], [1])"
    by code_simp
  note t = C3_images_normalized_speech_and_text_as_read
    [where fs = corpus and ids = "ImageDataset_init corpus ''d/''" and i = 0
       and x = "[0, 1, 1 / 5]" and name = "''c''"
       and sds = "SpeechDataset_init corpus ''d/'' 2" and y = "[1 / 2, - 1 / 4, 3 / 4, 0]"
       and sampling_frequency = 2 and name' = "''s''"
       and d = "''d/''" and m = 3 and tds = corpus_text_dataset
       and t = "[1, 2, 3, 1]" and l = "[1]"]
  from t h1 have a: "normalized [0, 1, 1 / 5]"
    by blast
  from t corpus_init h3
  have b: "\<forall>v \<in> set [1, 2, 3, 1].
             v = - 1 \<or> (0 \<le> v \<and> v < int (length (vocab corpus_text_dataset)))"
    by blast
  from a b h1 h2 h3 corpus_init show ?thesis
    by (simp add: list_all_iff)
qed


section \<open>Properties of the MLP classifier\<close>

lemma has_shape_affine:
  "has_shape x n k \<Longrightarrow> linear_params p k j \<Longrightarrow> has_shape (affine (fst p) (snd p) x) n j"
  by (auto simp: has_shape_def linear_params_def affine_def list_all_iff)

lemma has_shape_keeps:
  "keeps_shape f \<Longrightarrow> has_shape x n k \<Longrightarrow> has_shape (f x) n k"
  unfolding keeps_shape_def has_shape_def list_all_iff
  by (metis length_map in_set_conv_nth nth_map)

lemma Linear_forward_shape:
  "has_shape x n k \<Longrightarrow> Linear_forward (nn_Linear k j p) x = Inr (affine (fst p) (snd p) x)"
  by (simp add: Linear_forward_def nn_Linear_def has_shape_def)

lemma keeps_shape_ReLU: "keeps_shape ReLU"
  by (simp add: keeps_shape_def ReLU_def comp_def)

text \<open>
  Claim C7. \<open>MLPClassif.forward(x)\<close> is \<open>output_layer(hidden_layer(input_layer(x)))\<close>:
  the sequence linear, activation, linear, activation, linear, with no activation after
  the output layer, for the class with an \<open>act_fn\<close> argument and for the one with
  \<open>nn.ReLU()\<close>. For an input of shape \<open>[batch_size, input_size]\<close>, parameters of the
  shapes the constructor gives them and an activation that keeps shapes, no layer raises
  and the result, of shape \<open>[batch_size, output_size]\<close>, is the composition of the three
  affine maps with the activation between them.
\<close>

theorem C7_forward_is_the_composition:
  "MLPClassif_forward (MLPClassif_init input_size hidden_size output_size act_fn p1 p2 p3) x
     = Sequential_forward
         [LinearLayer (nn_Linear input_size hidden_size p1), Activation act_fn,
          LinearLayer (nn_Linear hidden_size hidden_size p2), Activation act_fn,
          LinearLayer (nn_Linear hidden_size output_size p3)] x
   \<and> MLPClassif_forward (MLPClassif_relu_init input_size hidden_size output_size p1 p2 p3) x
     = Sequential_forward
         [LinearLayer (nn_Linear input_size hidden_size p1), Activation ReLU,
          LinearLayer (nn_Linear hidden_size hidden_size p2), Activation ReLU,
          LinearLayer (nn_Linear hidden_size output_size p3)] x
   \<and> (has_shape x batch_size input_size \<and> keeps_shape act_fn
        \<and> linear_params p1 input_size hidden_size \<and> linear_params p2 hidden_size hidden_size
        \<and> linear_params p3 hidden_size output_size \<longrightarrow>
      MLPClassif_forward
          (MLPClassif_init input_size hidden_size output_size act_fn p1 p2 p3) x
        = Inr (affine (fst p3) (snd p3)
                (act_fn (affine (fst p2) (snd p2) (act_fn (affine (fst p1) (snd p1) x)))))
      \<and> has_shape
           (affine (fst p3) (snd p3)
                (act_fn (affine (fst p2) (snd p2) (act_fn (affine (fst p1) (snd p1) x)))))
           batch_size output_size)"
proof -
  have seq: "MLPClassif_forward (MLPClassif_init input_size hidden_size output_size f p1 p2 p3) x
     = Sequential_forward
         [LinearLayer (nn_Linear input_size hidden_size p1), Activation f,
          LinearLayer (nn_Linear hidden_size hidden_size p2), Activation f,
          LinearLayer (nn_Linear hidden_size output_size p3)] x" for f
    by (simp add: MLPClassif_forward_def MLPClassif_init_def split: sum.splits)
  have relu: "MLPClassif_relu_init input_size hidden_size output_size p1 p2 p3
     = MLPClassif_init input_size hidden_size output_size ReLU p1 p2 p3"
    by (simp add: MLPClassif_relu_init_def MLPClassif_init_def)
  have shaped: "MLPClassif_forward
          (MLPClassif_init input_size hidden_size output_size act_fn p1 p2 p3) x
        = Inr (affine (fst p3) (snd p3)
                (act_fn (affine (fst p2) (snd p2) (act_fn (affine (fst p1) (snd p1) x)))))
      \<and> has_shape
           (affine (fst p3) (snd p3)
                (act_fn (affine (fst p2) (snd p2) (act_fn (affine (fst p1) (snd p1) x)))))
           batch_size output_size"
    if h: "has_shape x batch_size input_size" "keeps_shape act_fn"
      "linear_params p1 input_size hidden_size" "linear_params p2 hidden_size hidden_size"
      "linear_params p3 hidden_size output_size"
  proof -
    let ?y = "act_fn (affine (fst p1) (snd p1) x)"
    let ?z = "act_fn (affine (fst p2) (snd p2) ?y)"
    have y: "has_shape ?y batch_size hidden_size"
      by (rule has_shape_keeps [OF h(2) has_shape_affine [OF h(1) h(3)]])
    have z: "has_shape ?z batch_size hidden_size"
      by (rule has_shape_keeps [OF h(2) has_shape_affine [OF y h(4)]])
    have out: "has_shape (affine (fst p3) (snd p3) ?z) batch_size output_size"
      by (rule has_shape_affine [OF z h(5)])
    show ?thesis
      using out
      by (simp add: seq Linear_forward_shape [OF h(1)] Linear_forward_shape [OF y]
          Linear_forward_shape [OF z])
  qed
  show ?thesis
    using seq [of act_fn] seq [of ReLU] relu shaped by simp
qed

theorem C7_witness:
  "has_shape [[3, 1], [1, 3]] 2 2 \<and> keeps_shape ReLU
   \<and> linear_params ([[1, - 1]], [0]) 2 1 \<and> linear_params ([[2]], [1]) 1 1
   \<and> linear_params ([[1], [- 1]], [0, 3]) 1 2
   \<and> MLPClassif_forward example_mlp [[3, 1], [1, 3]] = Inr [[5, - 2], [1, 2]]"
proof -
  have h: "has_shape [[3, 1], [1, 3]] 2 2" "linear_params ([[1, - 1]], [0]) 2 1"
    "linear_params ([[2]], [1]) 1 1" "linear_params ([[1], [- 1]], [0, 3]) 1 2"
    by (simp_all add: has_shape_def linear_params_def)
  have v: "affine (fst ([[1], [- 1]], [0, 3])) (snd ([[1], [- 1]], [0, 3]))
             (ReLU (affine (fst ([[2]], [1])) (snd ([[2]], [1]))
               (ReLU (affine (fst ([[1, - 1]], [0])) (snd ([[1, - 1]], [0])) [[3, 1], [1, 3]]))))
           = [[5, - 2], [1, 2]]"
    by code_simp
  note t = C7_forward_is_the_composition
    [of 2 1 2 ReLU "([[1, - 1]], [0])" "([[2]], [1])" "([[1], [- 1]], [0, 3])"
        "[[3, 1], [1, 3]]" 2]
  from t h keeps_shape_ReLU
  have "MLPClassif_forward example_mlp [[3, 1], [1, 3]] = Inr [[5, - 2], [1, 2]]"
    unfolding v example_mlp_def by blast
  with h keeps_shape_ReLU show ?thesis
    by simp
qed



section \<open>Properties of the evaluation functions\<close>

lemma eq_sum_same_length:
  "length a = length b \<Longrightarrow> \<exists>c. eq_sum a b = Inr c \<and> c \<le> length b"
proof -
  assume l: "length a = length b"
  have "length (filter (\<lambda>(u, v). u = v) (zip a b)) \<le> length (zip a b)"
    by (rule length_filter_le)
  with l show ?thesis by (simp add: eq_sum_def)
qed

lemma torch_max_indices_rows:
  "list_all (\<lambda>row. row \<noteq> []) y \<Longrightarrow> \<exists>ls. torch_max_indices y = Inr ls \<and> length ls = length y"
  by (simp add: torch_max_indices_def)

lemma model_call_eval:
  "model_call fw r x (model_eval r st) = fw_forward fw (parameters (heap st r)) False x"
  by (simp add: model_call_def model_eval_def update_module_def Let_def)

lemma eval_mlp_batch_answers:
  assumes "answers fw (parameters (heap st model)) (view_infer batch_size) b"
  shows "\<exists>c. eval_mlp_classifier_batch fw batch_size model (model_eval model st) b (n, m)
            = Inr (n + c, m + length (snd b)) \<and> c \<le> length (snd b)"
proof -
  obtain images targets where b: "b = (images, targets)" by (cases b)
  from assms b obtain x y where x: "view_infer batch_size images = Inr x"
    and y: "fw_forward fw (parameters (heap st model)) False x = Inr y"
    and ly: "length y = length targets" and ne: "list_all (\<lambda>row. row \<noteq> []) y"
    by (auto simp: answers_def split: sum.splits)
  from torch_max_indices_rows [OF ne] obtain ls where
    ls: "torch_max_indices y = Inr ls" "length ls = length y" by blast
  from eq_sum_same_length [of ls targets] ls ly obtain c where
    c: "eq_sum ls targets = Inr c" "c \<le> length targets" by auto
  show ?thesis
    by (simp add: eval_mlp_classifier_batch_def b x model_call_eval y ls c Let_def)
qed

lemma eval_cnn_batch_answers:
  assumes "answers fw (parameters (heap st model)) Inr b"
  shows "\<exists>c. eval_cnn_classifier_batch fw model (model_eval model st) b (n, m)
            = Inr (n + c, m + length (snd b)) \<and> c \<le> length (snd b)"
proof -
  obtain images targets where b: "b = (images, targets)" by (cases b)
  from assms b obtain y where
    y: "fw_forward fw (parameters (heap st model)) False images = Inr y"
    and ly: "length y = length targets" and ne: "list_all (\<lambda>row. row \<noteq> []) y"
    by (auto simp: answers_def split: sum.splits)
  from torch_max_indices_rows [OF ne] obtain ls where
    ls: "torch_max_indices y = Inr ls" "length ls = length y" by blast
  from eq_sum_same_length [of ls targets] ls ly obtain c where
    c: "eq_sum ls targets = Inr c" "c \<le> length targets" by auto
  show ?thesis
    by (simp add: eval_cnn_classifier_batch_def b model_call_eval y ls c Let_def)
qed

text \<open>The counting loop: the correct labels never outnumber the labels seen.\<close>

lemma counting_loop:
  assumes "\<And>b n m. b \<in> set bs \<Longrightarrow>
             \<exists>c. body b (n, m) = Inr (n + c, m + length (snd b)) \<and> c \<le> length (snd b)"
    and "n \<le> m"
  shows "\<exists>n'. for_loop body bs (n, m) = Inr (n', m + length (concat (map snd bs))) \<and>
           n' \<le> m + length (concat (map snd bs))"
  using assms
proof (induction bs arbitrary: n m)
  case Nil
  then show ?case by simp
next
  case (Cons b bs)
  from Cons.prems(1) [of b n m] obtain c where
    c: "body b (n, m) = Inr (n + c, m + length (snd b))" "c \<le> length (snd b)" by auto
  have le: "n + c \<le> m + length (snd b)" using c(2) Cons.prems(2) by simp
  from Cons.IH [OF _ le] Cons.prems(1) obtain n' where
    "for_loop body bs (n + c, m + length (snd b))
       = Inr (n', m + length (snd b) + length (concat (map snd bs)))"
    "n' \<le> m + length (snd b) + length (concat (map snd bs))"
    by auto
  then show ?case by (simp add: c add.assoc)
qed

lemma accuracy_range:
  "n \<le> m \<Longrightarrow> 0 < m \<Longrightarrow>
   0 \<le> 100 * rat_of_nat n / rat_of_nat m \<and> 100 * rat_of_nat n / rat_of_nat m \<le> 100"
proof -
  assume a: "n \<le> m" "0 < m"
  then have "rat_of_nat n \<le> rat_of_nat m" by simp
  moreover have "0 < rat_of_nat m" using a by simp
  ultimately have "rat_of_nat n / rat_of_nat m \<le> 1" by (simp add: divide_le_eq)
  then show ?thesis by simp
qed

lemma reshape_rows:
  "list_all (\<lambda>row. length row = k) t \<Longrightarrow> reshape (length t) k (concat t) = t"
proof (induction t)
  case Nil
  then show ?case by (simp add: reshape_def)
next
  case (Cons r t)
  then have r: "length r = k" and t: "list_all (\<lambda>row. length row = k) t" by simp_all
  have "map (\<lambda>i. take k (drop (i * k) (r @ concat t))) [0..<Suc (length t)]
          = take k (r @ concat t) # map (\<lambda>i. take k (drop (Suc i * k) (r @ concat t))) [0..<length t]"
    by (simp add: upt_conv_Cons map_Suc_upt [symmetric] del: upt_Suc)
  also have "\<dots> = r # map (\<lambda>i. take k (drop (i * k) (concat t))) [0..<length t]"
    using r by simp
  finally show ?case
    using Cons.IH [OF t] by (simp add: reshape_def)
qed

lemma view_infer_full_batch:
  assumes "length images = batch_size" and "0 < batch_size" and "0 < k"
    and "list_all (\<lambda>row. length row = k) images"
  shows "view_infer batch_size images = Inr images"
proof -
  have "length (concat images) = batch_size * k"
    using assms(1,4) by (induction images arbitrary: batch_size) auto
  then show ?thesis
    using assms reshape_rows [OF assms(4)]
    by (simp add: view_infer_def Let_def)
qed

text \<open>
  With a batch of one image of two values and a global batch size of 2, the reshaping
  makes two rows, the comparison of the two predictions with the one label broadcasts,
  and the accuracy is 200.
\<close>

lemma empty_rows:
  "view_infer 2 [[], []] = Inr [[], []]"
  "view_infer 0 [[1]] = Inl RuntimeError"
  "torch_max_indices [[], []] = Inl IndexError"
  by code_simp+

lemma eval_mlp_classifier_above_100:
  "map_sum id fst
     (eval_mlp_classifier (toy 1 :: (rat, nat, nat list) framework) 2 0
        (valid_loader\<lparr>dl_dataset := [([1 / 4, 1 / 4], 1)]\<rparr>) 0 machine0) = Inr 200"
  by code_simp

text \<open>
  Claim C10, as stated: for every evaluation dataloader that yields at least one label,
  \<open>eval_mlp_classifier\<close> returns an accuracy between 0 and 100. It does not when a
  batch is not of the global batch size: with three samples in batches of two, the last
  batch has one image of one value, \<open>images.view(batch_size, -1)\<close> cannot make two
  rows of it, and the function raises.
\<close>

theorem C10_partial_batch_raises:
  "\<not> (\<forall>(fw :: (rat, nat, nat list) framework) batch_size model dl k st.
        concat (map snd (batches dl k)) \<noteq> [] \<longrightarrow>
        (\<exists>acc st'. eval_mlp_classifier fw batch_size model dl k st = Inr (acc, st')
           \<and> 0 \<le> acc \<and> acc \<le> 100))"
proof
  assume a: "\<forall>(fw :: (rat, nat, nat list) framework) batch_size model dl k st.
        concat (map snd (batches dl k)) \<noteq> [] \<longrightarrow>
        (\<exists>acc st'. eval_mlp_classifier fw batch_size model dl k st = Inr (acc, st')
           \<and> 0 \<le> acc \<and> acc \<le> 100)"
  have y: "concat (map snd (batches partial_loader 0)) \<noteq> []"
    by code_simp
  have r: "map_sum id fst (eval_mlp_classifier (toy 1 :: (rat, nat, nat list) framework)
             2 0 partial_loader 0 machine0) = Inl RuntimeError"
    by code_simp
  from a y obtain acc st' where
    "eval_mlp_classifier (toy 1 :: (rat, nat, nat list) framework) 2 0 partial_loader 0 machine0
       = Inr (acc, st')"
    by blast
  with r show False by simp
qed

text \<open>
  Claim C10, amended. When the model answers every batch of the loader (for
  \<open>eval_mlp_classifier\<close> after the reshaping to the global batch size, which a batch
  of exactly that many images passes unchanged, \<open>view_infer_full_batch\<close>) and the loader
  yields at least one label, both functions return an accuracy between 0 and 100 and
  leave the model in evaluation mode. When the loader yields nothing, both raise
  \<open>ZeroDivisionError\<close>.
\<close>

theorem C10_accuracy_range_and_division_by_zero:
  "(list_all (answers fw (parameters (heap st model)) (view_infer batch_size)) (batches dl k)
      \<and> concat (map snd (batches dl k)) \<noteq> [] \<longrightarrow>
      (\<exists>acc. eval_mlp_classifier fw batch_size model dl k st = Inr (acc, model_eval model st)
         \<and> 0 \<le> acc \<and> acc \<le> 100))
   \<and> (list_all (answers fw (parameters (heap st model)) Inr) (batches dl k)
      \<and> concat (map snd (batches dl k)) \<noteq> [] \<longrightarrow>
      (\<exists>acc. eval_cnn_classifier fw model dl k st = Inr (acc, model_eval model st)
         \<and> 0 \<le> acc \<and> acc \<le> 100))
   \<and> (batches dl k = [] \<longrightarrow>
        eval_mlp_classifier fw batch_size model dl k st = Inl ZeroDivisionError
      \<and> eval_cnn_classifier fw model dl k st = Inl ZeroDivisionError)"
proof (intro conjI impI)
  assume a: "list_all (answers fw (parameters (heap st model)) (view_infer batch_size))
               (batches dl k) \<and> concat (map snd (batches dl k)) \<noteq> []"
  let ?bs = "batches dl k"
  let ?t = "length (concat (map snd ?bs))"
  from a have "\<And>b n m. b \<in> set ?bs \<Longrightarrow>
      \<exists>c. eval_mlp_classifier_batch fw batch_size model (model_eval model st) b (n, m)
            = Inr (n + c, m + length (snd b)) \<and> c \<le> length (snd b)"
    by (intro eval_mlp_batch_answers) (simp add: list_all_iff)
  from counting_loop [OF this, of ?bs 0 0] obtain n' where
    n: "for_loop (eval_mlp_classifier_batch fw batch_size model (model_eval model st)) ?bs (0, 0)
          = Inr (n', ?t)" "n' \<le> ?t"
    by auto
  have pos: "0 < ?t" using a by simp
  show "\<exists>acc. eval_mlp_classifier fw batch_size model dl k st = Inr (acc, model_eval model st)
         \<and> 0 \<le> acc \<and> acc \<le> 100"
    using accuracy_range [OF n(2) pos] pos
    by (simp add: eval_mlp_classifier_def Let_def n(1))
next
  assume a: "list_all (answers fw (parameters (heap st model)) Inr) (batches dl k)
               \<and> concat (map snd (batches dl k)) \<noteq> []"
  let ?bs = "batches dl k"
  let ?t = "length (concat (map snd ?bs))"
  from a have "\<And>b n m. b \<in> set ?bs \<Longrightarrow>
      \<exists>c. eval_cnn_classifier_batch fw model (model_eval model st) b (n, m)
            = Inr (n + c, m + length (snd b)) \<and> c \<le> length (snd b)"
    by (intro eval_cnn_batch_answers) (simp add: list_all_iff)
  from counting_loop [OF this, of ?bs 0 0] obtain n' where
    n: "for_loop (eval_cnn_classifier_batch fw model (model_eval model st)) ?bs (0, 0)
          = Inr (n', ?t)" "n' \<le> ?t"
    by auto
  have pos: "0 < ?t" using a by simp
  show "\<exists>acc. eval_cnn_classifier fw model dl k st = Inr (acc, model_eval model st)
         \<and> 0 \<le> acc \<and> acc \<le> 100"
    using accuracy_range [OF n(2) pos] pos
    by (simp add: eval_cnn_classifier_def Let_def n(1))
next
  assume "batches dl k = []"
  then show "eval_mlp_classifier fw batch_size model dl k st = Inl ZeroDivisionError"
    by (simp add: eval_mlp_classifier_def Let_def)
next
  assume "batches dl k = []"
  then show "eval_cnn_classifier fw model dl k st = Inl ZeroDivisionError"
    by (simp add: eval_cnn_classifier_def Let_def)
qed

theorem C10_witness:
  "list_all (answers (toy 1 :: (rat, nat, nat list) framework) (parameters (heap machine0 0))
       (view_infer 2)) (batches valid_loader 0)
   \<and> list_all (answers (toy 1 :: (rat, nat, nat list) framework) (parameters (heap machine0 0))
       Inr) (batches valid_loader 0)
   \<and> concat (map snd (batches valid_loader 0)) \<noteq> []
   \<and> eval_mlp_classifier (toy 1 :: (rat, nat, nat list) framework) 2 0 valid_loader 0 machine0
       = Inr (50, model_eval 0 machine0)
   \<and> eval_cnn_classifier (toy 1 :: (rat, nat, nat list) framework) 0 valid_loader 0 machine0
       = Inr (50, model_eval 0 machine0)
   \<and> batches (valid_loader\<lparr>dl_dataset := []\<rparr>) 0 = []
   \<and> eval_mlp_classifier (toy 1 :: (rat, nat, nat list) framework) 2 0
        (valid_loader\<lparr>dl_dataset := []\<rparr>) 0 machine0 = Inl ZeroDivisionError
   \<and> eval_cnn_classifier (toy 1 :: (rat, nat, nat list) framework) 0
        (valid_loader\<lparr>dl_dataset := []\<rparr>) 0 machine0 = Inl ZeroDivisionError"
proof -
  have h1: "list_all (answers (toy 1 :: (rat, nat, nat list) framework)
       (parameters (heap machine0 0)) (view_infer 2)) (batches valid_loader 0)"
    by code_simp
  have h2: "list_all (answers (toy 1 :: (rat, nat, nat list) framework)
       (parameters (heap machine0 0)) Inr) (batches valid_loader 0)"
    by code_simp
  have h3: "concat (map snd (batches valid_loader 0)) \<noteq> []"
    by code_simp
  have h4: "batches (valid_loader\<lparr>dl_dataset := []\<rparr>) 0 = []"
    by code_simp
  have v1: "map_sum id fst (eval_mlp_classifier (toy 1 :: (rat, nat, nat list) framework)
       2 0 valid_loader 0 machine0) = Inr 50"
    by code_simp
  have v2: "map_sum id fst (eval_cnn_classifier (toy 1 :: (rat, nat, nat list) framework)
       0 valid_loader 0 machine0) = Inr 50"
    by code_simp
  note t = C10_accuracy_range_and_division_by_zero
    [where fw = "toy 1 :: (rat, nat, nat list) framework" and st = machine0 and model = 0
       and batch_size = 2 and k = 0]
  from t [of valid_loader] h1 h3 v1
  have a: "eval_mlp_classifier (toy 1 :: (rat, nat, nat list) framework) 2 0 valid_loader 0
             machine0 = Inr (50, model_eval 0 machine0)"
    by auto
  from t [of valid_loader] h2 h3 v2
  have b: "eval_cnn_classifier (toy 1 :: (rat, nat, nat list) framework) 0 valid_loader 0
             machine0 = Inr (50, model_eval 0 machine0)"
    by auto
  from t [of "valid_loader\<lparr>dl_dataset := []\<rparr>"] h4
  have c: "eval_mlp_classifier (toy 1 :: (rat, nat, nat list) framework) 2 0
        (valid_loader\<lparr>dl_dataset := []\<rparr>) 0 machine0 = Inl ZeroDivisionError
      \<and> eval_cnn_classifier (toy 1 :: (rat, nat, nat list) framework) 0
        (valid_loader\<lparr>dl_dataset := []\<rparr>) 0 machine0 = Inl ZeroDivisionError"
    by blast
  from h1 h2 h3 h4 a b c show ?thesis by blast
qed



section \<open>Properties of the training loops\<close>

subsection \<open>The calls of the framework\<close>

lemma record_step_simps [simp]:
  "trace (record_step s st) = trace st @ [s]"
  "heap (record_step s st) = heap st"
  "next_ref (record_step s st) = next_ref st"
  by (simp_all add: record_step_def)

lemma print_simps [simp]:
  "trace (print v st) = trace st"
  "heap (print v st) = heap st"
  "next_ref (print v st) = next_ref st"
  by (simp_all add: print_def)

lemma update_module_simps [simp]:
  "trace (update_module r f st) = trace st"
  "next_ref (update_module r f st) = next_ref st"
  "heap (update_module r f st) = (heap st)(r := f (heap st r))"
  by (simp_all add: update_module_def Let_def)

lemma module_calls_simps [simp]:
  "trace (optimizer_zero_grad r st) = trace st"
  "next_ref (optimizer_zero_grad r st) = next_ref st"
  "r' \<noteq> r \<Longrightarrow> heap (optimizer_zero_grad r st) r' = heap st r'"
  "trace (loss_backward fw r l st) = trace st"
  "next_ref (loss_backward fw r l st) = next_ref st"
  "r' \<noteq> r \<Longrightarrow> heap (loss_backward fw r l st) r' = heap st r'"
  "trace (model_train r st) = trace st"
  "next_ref (model_train r st) = next_ref st"
  "r' \<noteq> r \<Longrightarrow> heap (model_train r st) r' = heap st r'"
  "trace (model_eval r st) = trace st"
  "next_ref (model_eval r st) = next_ref st"
  "r' \<noteq> r \<Longrightarrow> heap (model_eval r st) r' = heap st r'"
  by (simp_all add: optimizer_zero_grad_def loss_backward_def model_train_def model_eval_def)

lemma optimizer_step_simps [simp]:
  "trace (fst (optimizer_step opt r os st)) = trace st"
  "next_ref (fst (optimizer_step opt r os st)) = next_ref st"
  "r' \<noteq> r \<Longrightarrow> heap (fst (optimizer_step opt r os st)) r' = heap st r'"
  by (simp_all add: optimizer_step_def split: option.splits prod.splits)

lemma deepcopy_simps [simp]:
  "fst (deepcopy r st) = next_ref st"
  "trace (snd (deepcopy r st)) = trace st"
  "next_ref (snd (deepcopy r st)) = Suc (next_ref st)"
  "heap (snd (deepcopy r st)) = (heap st)(next_ref st := (heap st r)\<lparr>grad := None\<rparr>)"
  by (simp_all add: deepcopy_def Let_def)

lemma modifies_only_refl [simp]: "modifies_only m st st"
  by (simp add: modifies_only_def)

lemma modifies_only_trans:
  "modifies_only m st st' \<Longrightarrow> modifies_only m st' st'' \<Longrightarrow> modifies_only m st st''"
  by (auto simp: modifies_only_def)

subsection \<open>Loops\<close>

lemma for_loop_append:
  "for_loop body (xs @ ys) s =
     (case for_loop body xs s of Inl e \<Rightarrow> Inl e | Inr s' \<Rightarrow> for_loop body ys s')"
  by (induction xs arbitrary: s) (auto split: sum.splits)

lemma for_loop_Suc:
  "for_loop body [0..<Suc n] s =
     (case for_loop body [0..<n] s of Inl e \<Rightarrow> Inl e | Inr s' \<Rightarrow> body n s')"
  by (simp add: for_loop_append split: sum.splits)

lemma for_loop_trace:
  assumes "for_loop body xs s = Inr s'"
    and "\<And>x s s'. x \<in> set xs \<Longrightarrow> body x s = Inr s' \<Longrightarrow> tr s' = tr s @ ev x"
  shows "tr s' = tr s @ concat (map ev xs)"
  using assms
proof (induction xs arbitrary: s)
  case Nil
  then show ?case by simp
next
  case (Cons x xs)
  from Cons.prems(1) obtain s1 where s1: "body x s = Inr s1" "for_loop body xs s1 = Inr s'"
    by (auto split: sum.splits)
  have "tr s1 = tr s @ ev x" using Cons.prems(2) s1(1) by simp
  moreover have "tr s' = tr s1 @ concat (map ev xs)"
    using Cons.IH [OF s1(2)] Cons.prems(2) by simp
  ultimately show ?case by simp
qed

lemma for_loop_preorder:
  assumes "for_loop body xs s = Inr s'"
    and "\<And>x s s'. x \<in> set xs \<Longrightarrow> body x s = Inr s' \<Longrightarrow> R s s'"
    and "\<And>s. R s s" and "\<And>s s' s''. R s s' \<Longrightarrow> R s' s'' \<Longrightarrow> R s s''"
  shows "R s s'"
  using assms(1,2)
proof (induction xs arbitrary: s)
  case Nil
  then show ?case using assms(3) by simp
next
  case (Cons x xs)
  from Cons.prems(1) obtain s1 where s1: "body x s = Inr s1" "for_loop body xs s1 = Inr s'"
    by (auto split: sum.splits)
  have "R s s1" by (rule Cons.prems(2) [OF _ s1(1)]) simp
  moreover have "R s1 s'"
  proof (rule Cons.IH [OF s1(2)])
    fix y t t' assume "y \<in> set xs" "body y t = Inr t'"
    then show "R t t'" using Cons.prems(2) [of y t t'] by simp
  qed
  ultimately show ?case using assms(4) by blast
qed

subsection \<open>One batch\<close>

lemma view_infer_input:
  "view_infer batch_size images = Inr x \<Longrightarrow> x = mlp_input batch_size images"
  by (auto simp: view_infer_def mlp_input_def Let_def split: if_splits)

lemma view_input:
  "view batch_size input_size images = Inr x \<Longrightarrow> x = reshape batch_size input_size (concat images)"
  by (auto simp: view_def split: if_splits)

lemma training_mlp_classifier_batch_effect:
  assumes "training_mlp_classifier_batch fw batch_size loss_fn optimizer model_tr b (st, os, tr)
             = Inr (st', os', tr')"
  shows "trace st' = trace st @ iteration (mlp_input batch_size (fst b))
       \<and> modifies_only model_tr st st' \<and> next_ref st' = next_ref st"
proof -
  obtain images targets where b: "b = (images, targets)" by (cases b)
  show ?thesis
    using assms unfolding b training_mlp_classifier_batch_def
    by (auto simp: iteration_def modifies_only_def Let_def split_beta
        dest!: view_infer_input split: sum.splits)
qed

lemma train_val_mlp_classifier_batch_effect:
  assumes "train_val_mlp_classifier_batch fw input_size batch_size loss_fn optimizer model_tr b
             (st, os, tr) = Inr (st', os', tr')"
  shows "trace st' = trace st @ iteration (reshape batch_size input_size (concat (fst b)))
       \<and> modifies_only model_tr st st' \<and> next_ref st' = next_ref st"
proof -
  obtain images targets where b: "b = (images, targets)" by (cases b)
  show ?thesis
    using assms unfolding b train_val_mlp_classifier_batch_def
    by (auto simp: iteration_def modifies_only_def Let_def split_beta
        dest!: view_input split: sum.splits)
qed

lemma training_val_cnn_classifier_batch_effect:
  assumes "training_val_cnn_classifier_batch fw loss_fn optimizer model_tr b (st, os, tr)
             = Inr (st', os', tr')"
  shows "trace st' = trace st @ iteration (fst b) \<and> modifies_only model_tr st st'
       \<and> next_ref st' = next_ref st"
proof -
  obtain images targets where b: "b = (images, targets)" by (cases b)
  show ?thesis
    using assms unfolding b training_val_cnn_classifier_batch_def
    by (auto simp: iteration_def modifies_only_def Let_def split_beta split: sum.splits)
qed

lemma linear_regression_epoch_effect:
  assumes "linear_regression_epoch fw loss_fn optimizer m x y epoch (st, os) = Inr (st', os')"
  shows "trace st' = trace st @ iteration x \<and> modifies_only m st st'
       \<and> next_ref st' = next_ref st"
  using assms unfolding linear_regression_epoch_def
  by (auto simp: iteration_def modifies_only_def Let_def split_beta split: sum.splits)

lemma nonlinear_regression_epoch_effect:
  assumes "nonlinear_regression_epoch fw loss_fn optimizer m x y epoch (st, os, rs)
             = Inr (st', os', rs')"
  shows "trace st' = trace st @ iteration x \<and> modifies_only m st st'
       \<and> next_ref st' = next_ref st"
  using assms unfolding nonlinear_regression_epoch_def
  by (auto simp: iteration_def modifies_only_def Let_def split_beta split: sum.splits)

subsection \<open>One epoch\<close>

lemma batches_loop_effect:
  assumes "for_loop body bs (st, os, tr) = Inr (st', os', tr')"
    and "\<And>b st os tr st' os' tr'. body b (st, os, tr) = Inr (st', os', tr') \<Longrightarrow>
           trace st' = trace st @ iteration (inp b) \<and> modifies_only m st st'
           \<and> next_ref st' = next_ref st"
  shows "trace st' = trace st @ concat (map (\<lambda>b. iteration (inp b)) bs)
       \<and> modifies_only m st st' \<and> next_ref st' = next_ref st"
proof -
  have "trace (fst (st', os', tr')) =
          trace (fst (st, os, tr)) @ concat (map (\<lambda>b. iteration (inp b)) bs)"
    by (rule for_loop_trace [OF assms(1)]) (use assms(2) in auto)
  moreover have "modifies_only m (fst (st, os, tr)) (fst (st', os', tr'))
       \<and> next_ref (fst (st', os', tr')) = next_ref (fst (st, os, tr))"
    by (rule for_loop_preorder [OF assms(1),
          where R = "\<lambda>s s'. modifies_only m (fst s) (fst s') \<and> next_ref (fst s') = next_ref (fst s)"])
      (use assms(2) modifies_only_trans in auto)
  ultimately show ?thesis by simp
qed

lemma eval_mlp_classifier_machine:
  "eval_mlp_classifier fw batch_size model dl k st = Inr (acc, st') \<Longrightarrow> st' = model_eval model st"
  by (auto simp: eval_mlp_classifier_def Let_def split: sum.splits if_splits)

lemma eval_cnn_classifier_machine:
  "eval_cnn_classifier fw model dl k st = Inr (acc, st') \<Longrightarrow> st' = model_eval model st"
  by (auto simp: eval_cnn_classifier_def Let_def split: sum.splits if_splits)

lemma modifies_only_model_eval [simp]: "modifies_only m st (model_eval m st)"
  by (simp add: modifies_only_def)

lemma modifies_only_print [simp]: "modifies_only m st (print v st)"
  by (simp add: modifies_only_def)

lemma modifies_only_deepcopy [simp]: "modifies_only m st (snd (deepcopy r st))"
  by (simp add: modifies_only_def)

lemma training_mlp_classifier_epoch_effect:
  assumes "training_mlp_classifier_epoch fw batch_size loss_fn optimizer model_tr dl verbose
             epoch (st, os, ls) = Inr (st', os', ls')"
  shows "trace st' = trace st @
           concat (map (\<lambda>b. iteration (mlp_input batch_size (fst b))) (batches dl epoch))
       \<and> modifies_only model_tr st st' \<and> next_ref st' = next_ref st"
proof -
  from assms obtain st1 os1 tr1 where
    l: "for_loop (training_mlp_classifier_batch fw batch_size loss_fn optimizer model_tr)
          (batches dl epoch) (st, os, 0) = Inr (st1, os1, tr1)"
    and r: "st' = (if verbose
                   then print (tr1 / rat_of_nat (DataLoader_len dl * batch_size)) st1 else st1)"
    unfolding training_mlp_classifier_epoch_def
    by (auto simp: Let_def split: sum.splits if_splits)
  have "trace st1 = trace st @
           concat (map (\<lambda>b. iteration (mlp_input batch_size (fst b))) (batches dl epoch))
       \<and> modifies_only model_tr st st1 \<and> next_ref st1 = next_ref st"
    by (rule batches_loop_effect
          [OF l, where inp = "\<lambda>b. mlp_input batch_size (fst b)" and m = model_tr])
       (rule training_mlp_classifier_batch_effect)
  then show ?thesis
    using r modifies_only_trans [of model_tr st st1 st'] by (auto split: if_splits)
qed

text \<open>
  An epoch with validation: besides training, it appends one accuracy, and when that
  accuracy exceeds the best so far it becomes the best and \<open>model_opt\<close> a new copy of
  the model as it is at the end of the epoch.
\<close>

lemma train_val_mlp_classifier_epoch_effect:
  assumes "train_val_mlp_classifier_epoch fw gbs input_size batch_size loss_fn optimizer
             model_tr dl vdl verbose epoch (st, os, ls, accs, amax, mopt)
           = Inr (st', os', ls', accs', amax', mopt')"
  shows "trace st' = trace st @
           concat (map (\<lambda>b. iteration (reshape batch_size input_size (concat (fst b))))
                    (batches dl epoch))
       \<and> modifies_only model_tr st st'
       \<and> (\<exists>acc. accs' = accs @ [acc] \<and>
            (if acc > amax
             then amax' = acc \<and> mopt' = next_ref st \<and> next_ref st' = Suc (next_ref st)
                  \<and> (model_tr < next_ref st \<longrightarrow>
                       heap st' (next_ref st) = (heap st' model_tr)\<lparr>grad := None\<rparr>)
             else amax' = amax \<and> mopt' = mopt \<and> next_ref st' = next_ref st))"
proof -
  from assms obtain st1 os1 tr1 acc st2 where
    l: "for_loop (train_val_mlp_classifier_batch fw input_size batch_size loss_fn optimizer
          model_tr) (batches dl epoch) (st, os, 0) = Inr (st1, os1, tr1)"
    and e: "eval_mlp_classifier fw gbs model_tr vdl epoch
              (if verbose then print (tr1 / rat_of_nat (DataLoader_len dl * batch_size)) st1
               else st1) = Inr (acc, st2)"
    and a: "accs' = accs @ [acc]"
    and r: "(amax', mopt', st') =
              (let (am, mo, st3) =
                 (if acc > amax
                  then (let (r, st3) = deepcopy model_tr st2 in (acc, r, st3))
                  else (amax, mopt, st2))
               in (am, mo, if verbose then print acc st3 else st3))"
    unfolding train_val_mlp_classifier_epoch_def
    by (auto simp: Let_def split_beta split: sum.splits if_splits)
  have b: "trace st1 = trace st @
           concat (map (\<lambda>b. iteration (reshape batch_size input_size (concat (fst b))))
                    (batches dl epoch))
       \<and> modifies_only model_tr st st1 \<and> next_ref st1 = next_ref st"
    by (rule batches_loop_effect
          [OF l, where inp = "\<lambda>b. reshape batch_size input_size (concat (fst b))"
             and m = model_tr])
       (rule train_val_mlp_classifier_batch_effect)
  have st2: "st2 = model_eval model_tr
                (if verbose then print (tr1 / rat_of_nat (DataLoader_len dl * batch_size)) st1
                 else st1)"
    by (rule eval_mlp_classifier_machine [OF e])
  have c: "trace st2 = trace st1 \<and> next_ref st2 = next_ref st1 \<and> modifies_only model_tr st1 st2"
    unfolding st2 by (simp add: modifies_only_def)
  have m2: "modifies_only model_tr st st2"
    using b c modifies_only_trans by blast
  show ?thesis
  proof (cases "acc > amax")
    case True
    with r have "amax' = acc" "mopt' = next_ref st2"
      "st' = (if verbose then print acc (snd (deepcopy model_tr st2))
              else snd (deepcopy model_tr st2))"
      by (simp_all add: split_beta)
    then show ?thesis
      using a b c m2 True
      by (auto simp: modifies_only_def)
  next
    case False
    with r have "amax' = amax" "mopt' = mopt"
      "st' = (if verbose then print acc st2 else st2)"
      by simp_all
    then show ?thesis
      using a b c m2 False
      by (auto simp: modifies_only_def)
  qed
qed

lemma training_val_cnn_classifier_epoch_effect:
  assumes "training_val_cnn_classifier_epoch fw loss_fn optimizer model_tr dl vdl verbose epoch
             (st, os, ls, accs, amax, mopt) = Inr (st', os', ls', accs', amax', mopt')"
  shows "trace st' = trace st @ concat (map (\<lambda>b. iteration (fst b)) (batches dl epoch))
       \<and> modifies_only model_tr st st'
       \<and> (\<exists>acc. accs' = accs @ [acc] \<and>
            (if acc > amax
             then amax' = acc \<and> mopt' = Some (next_ref st) \<and> next_ref st' = Suc (next_ref st)
                  \<and> (model_tr < next_ref st \<longrightarrow>
                       heap st' (next_ref st) = (heap st' model_tr)\<lparr>grad := None\<rparr>)
             else amax' = amax \<and> mopt' = mopt \<and> next_ref st' = next_ref st))"
proof -
  from assms obtain st1 os1 tr1 acc st2 where
    l: "for_loop (training_val_cnn_classifier_batch fw loss_fn optimizer model_tr)
          (batches dl epoch) (st, os, 0) = Inr (st1, os1, tr1)"
    and e: "eval_cnn_classifier fw model_tr vdl epoch st1 = Inr (acc, st2)"
    and a: "accs' = accs @ [acc]"
    and r: "(mopt', amax', st') =
              (let st3 = (if verbose
                          then print acc (print (tr1 / rat_of_nat (length (dl_dataset dl))) st2)
                          else st2)
               in if acc > amax
                  then (let (r, st4) = deepcopy model_tr st3 in (Some r, acc, st4))
                  else (mopt, amax, st3))"
    unfolding training_val_cnn_classifier_epoch_def
    by (auto simp: Let_def split_beta split: sum.splits if_splits)
  have b: "trace st1 = trace st @ concat (map (\<lambda>b. iteration (fst b)) (batches dl epoch))
       \<and> modifies_only model_tr st st1 \<and> next_ref st1 = next_ref st"
    by (rule batches_loop_effect [OF l, where inp = fst and m = model_tr])
       (rule training_val_cnn_classifier_batch_effect)
  have st2: "st2 = model_eval model_tr st1"
    by (rule eval_cnn_classifier_machine [OF e])
  have c: "trace st2 = trace st1 \<and> next_ref st2 = next_ref st1 \<and> modifies_only model_tr st1 st2"
    unfolding st2 by (simp add: modifies_only_def)
  have m2: "modifies_only model_tr st st2"
    using b c modifies_only_trans by blast
  show ?thesis
  proof (cases "acc > amax")
    case True
    with r have "amax' = acc"
      "mopt' = Some (next_ref (if verbose
                          then print acc (print (tr1 / rat_of_nat (length (dl_dataset dl))) st2)
                          else st2))"
      "st' = snd (deepcopy model_tr (if verbose
                          then print acc (print (tr1 / rat_of_nat (length (dl_dataset dl))) st2)
                          else st2))"
      by (simp_all add: split_beta Let_def)
    then show ?thesis
      using a b c m2 True
      by (auto simp: modifies_only_def)
  next
    case False
    with r have "amax' = amax" "mopt' = mopt"
      "st' = (if verbose
              then print acc (print (tr1 / rat_of_nat (length (dl_dataset dl))) st2)
              else st2)"
      by (simp_all add: Let_def)
    then show ?thesis
      using a b c m2 False
      by (auto simp: modifies_only_def)
  qed
qed

subsection \<open>The choice of the best epoch\<close>

text \<open>
  The epoch \<open>j\<close> is the first to reach the maximum of the accuracies.
\<close>

lemma Max_insert_0_snoc:
  "Max (insert 0 (set (accs @ [acc]))) = max acc (Max (insert (0::rat) (set accs)))"
proof -
  have "insert 0 (set (accs @ [acc])) = insert acc (insert 0 (set accs))" by auto
  then show ?thesis by simp
qed

lemma selection_invariant:
  fixes body :: "nat \<Rightarrow> 's \<Rightarrow> error + 's" and mach :: "'s \<Rightarrow> 'p machine"
    and accs :: "'s \<Rightarrow> rat list" and amax :: "'s \<Rightarrow> rat" and mopt :: "'s \<Rightarrow> nat option"
  assumes epoch: "\<forall>k s s'. body k s = Inr s' \<longrightarrow> model_tr < next_ref (mach s) \<longrightarrow>
      modifies_only model_tr (mach s) (mach s')
      \<and> (\<exists>acc. accs s' = accs s @ [acc] \<and>
           (if acc > amax s
            then amax s' = acc \<and> mopt s' = Some (next_ref (mach s))
                 \<and> next_ref (mach s') = Suc (next_ref (mach s))
                 \<and> heap (mach s') (next_ref (mach s)) = (heap (mach s') model_tr)\<lparr>grad := None\<rparr>
            else amax s' = amax s \<and> mopt s' = mopt s))"
    and init: "accs s0 = []" "amax s0 = 0" "model_tr < next_ref (mach s0)"
    and run: "for_loop body [0..<n] s0 = Inr s"
  shows "length (accs s) = n \<and> amax s = Max (insert 0 (set (accs s)))
       \<and> model_tr < next_ref (mach s)
       \<and> (0 < amax s \<longrightarrow>
            (\<exists>j<n. \<exists>sj r. for_loop body [0..<Suc j] s0 = Inr sj
               \<and> accs s ! j = amax s \<and> (\<forall>i<j. accs s ! i < amax s)
               \<and> mopt s = Some r \<and> r \<noteq> model_tr \<and> r < next_ref (mach s)
               \<and> heap (mach s) r = (heap (mach sj) model_tr)\<lparr>grad := None\<rparr>))"
  using run
proof (induction n arbitrary: s)
  case 0
  then show ?case using init by simp
next
  case (Suc n)
  from Suc.prems obtain s1 where s1: "for_loop body [0..<n] s0 = Inr s1" "body n s1 = Inr s"
    by (auto simp: for_loop_Suc split: sum.splits simp del: upt_Suc)
  note ih = Suc.IH [OF s1(1)]
  from ih have len: "length (accs s1) = n" and mx: "amax s1 = Max (insert 0 (set (accs s1)))"
    and al: "model_tr < next_ref (mach s1)" by simp_all
  from epoch [rule_format, OF s1(2) al] obtain acc where
    mo: "modifies_only model_tr (mach s1) (mach s)"
    and ac: "accs s = accs s1 @ [acc]"
    and sel: "if acc > amax s1
            then amax s = acc \<and> mopt s = Some (next_ref (mach s1))
                 \<and> next_ref (mach s) = Suc (next_ref (mach s1))
                 \<and> heap (mach s) (next_ref (mach s1)) = (heap (mach s) model_tr)\<lparr>grad := None\<rparr>
            else amax s = amax s1 \<and> mopt s = mopt s1"
    by blast
  have nr: "next_ref (mach s1) \<le> next_ref (mach s)"
    using mo by (simp add: modifies_only_def)
  have old: "accs s ! i \<le> amax s1" if "i < n" for i
  proof -
    have "accs s1 ! i \<in> insert 0 (set (accs s1))" using that len by simp
    then have "accs s1 ! i \<le> Max (insert 0 (set (accs s1)))" by (intro Max_ge) simp_all
    then show ?thesis using that len ac mx by (simp add: nth_append)
  qed
  show ?case
  proof (cases "acc > amax s1")
    case True
    with sel have am: "amax s = acc" and mp: "mopt s = Some (next_ref (mach s1))"
      and nx: "next_ref (mach s) = Suc (next_ref (mach s1))"
      and hp: "heap (mach s) (next_ref (mach s1)) = (heap (mach s) model_tr)\<lparr>grad := None\<rparr>"
      by simp_all
    have "Max (insert 0 (set (accs s))) = max acc (Max (insert 0 (set (accs s1))))"
      unfolding ac by (rule Max_insert_0_snoc)
    also have "\<dots> = max acc (amax s1)" by (simp only: mx)
    also have "\<dots> = amax s" using True am by (simp add: max_def)
    finally have m: "amax s = Max (insert 0 (set (accs s)))" by simp
    have "\<exists>j<Suc n. \<exists>sj r. for_loop body [0..<Suc j] s0 = Inr sj
               \<and> accs s ! j = amax s \<and> (\<forall>i<j. accs s ! i < amax s)
               \<and> mopt s = Some r \<and> r \<noteq> model_tr \<and> r < next_ref (mach s)
               \<and> heap (mach s) r = (heap (mach sj) model_tr)\<lparr>grad := None\<rparr>"
    proof (intro exI conjI)
      show "n < Suc n" by simp
      show "for_loop body [0..<Suc n] s0 = Inr s" by (rule Suc.prems)
      show "accs s ! n = amax s" using ac len am by (simp add: nth_append)
      show "\<forall>i<n. accs s ! i < amax s" using old True am by fastforce
      show "mopt s = Some (next_ref (mach s1))" by (rule mp)
      show "next_ref (mach s1) \<noteq> model_tr" using al by simp
      show "next_ref (mach s1) < next_ref (mach s)" using nx by simp
      show "heap (mach s) (next_ref (mach s1)) = (heap (mach s) model_tr)\<lparr>grad := None\<rparr>" by (rule hp)
    qed
    moreover have "length (accs s) = Suc n" using ac len by simp
    moreover have "model_tr < next_ref (mach s)" using al nr by simp
    ultimately show ?thesis
      using m by blast
  next
    case False
    with sel have am: "amax s = amax s1" and mp: "mopt s = mopt s1" by simp_all
    have "Max (insert 0 (set (accs s))) = max acc (Max (insert 0 (set (accs s1))))"
      unfolding ac by (rule Max_insert_0_snoc)
    also have "\<dots> = max acc (amax s1)" by (simp only: mx)
    also have "\<dots> = amax s" using False am by (simp add: max_def)
    finally have m: "amax s = Max (insert 0 (set (accs s)))" by simp
    have ex: "\<exists>j<Suc n. \<exists>sj r. for_loop body [0..<Suc j] s0 = Inr sj
               \<and> accs s ! j = amax s \<and> (\<forall>i<j. accs s ! i < amax s)
               \<and> mopt s = Some r \<and> r \<noteq> model_tr \<and> r < next_ref (mach s)
               \<and> heap (mach s) r = (heap (mach sj) model_tr)\<lparr>grad := None\<rparr>" if pos: "0 < amax s"
    proof -
      from ih pos am obtain j sj r where j: "j < n"
        "for_loop body [0..<Suc j] s0 = Inr sj" "accs s1 ! j = amax s1"
        "\<forall>i<j. accs s1 ! i < amax s1" "mopt s1 = Some r" "r \<noteq> model_tr"
        "r < next_ref (mach s1)" "heap (mach s1) r = (heap (mach sj) model_tr)\<lparr>grad := None\<rparr>"
        by auto
      have "heap (mach s) r = heap (mach s1) r"
        using mo j(6,7) by (simp add: modifies_only_def)
      moreover have "accs s ! j = amax s" using j(1,3) len ac am by (simp add: nth_append)
      moreover have "\<forall>i<j. accs s ! i < amax s"
        using j(1,4) len ac am by (simp add: nth_append)
      ultimately show ?thesis
        using j mp nr by (intro exI [of _ j]) auto
    qed
    have "length (accs s) = Suc n" using ac len by simp
    moreover have "model_tr < next_ref (mach s)" using al nr by simp
    ultimately show ?thesis
      using m ex by blast
  qed
qed

subsection \<open>The whole loops\<close>

lemma modifies_only_fresh:
  assumes "modifies_only (next_ref st) st1 st'" and "next_ref st \<le> next_ref st1"
    and "\<forall>r<next_ref st. heap st1 r = heap st r"
  shows "\<forall>r<next_ref st. heap st' r = heap st r"
  using assms by (auto simp: modifies_only_def)

lemma regression_loops_effect:
  "linear_regression_loop fw loss_fn optimizer m x y n (st, os) = Inr (st', os') \<Longrightarrow>
     trace st' = trace st @ concat (map (\<lambda>epoch. iteration x) [0..<n])
     \<and> modifies_only m st st'"
  "nonlinear_regression_loop fw loss_fn optimizer m x y n (st, os, rs) = Inr (st', os', rs') \<Longrightarrow>
     trace st' = trace st @ concat (map (\<lambda>epoch. iteration x) [0..<n])
     \<and> modifies_only m st st'"
proof -
  assume a: "linear_regression_loop fw loss_fn optimizer m x y n (st, os) = Inr (st', os')"
  have "trace (fst (st', os')) = trace (fst (st, os)) @ concat (map (\<lambda>epoch. iteration x) [0..<n])"
    by (rule for_loop_trace [OF a [unfolded linear_regression_loop_def]])
       (use linear_regression_epoch_effect in fastforce)
  moreover have "modifies_only m (fst (st, os)) (fst (st', os'))"
    by (rule for_loop_preorder [OF a [unfolded linear_regression_loop_def],
          where R = "\<lambda>s s'. modifies_only m (fst s) (fst s')"])
       (use linear_regression_epoch_effect modifies_only_trans in fastforce)+
  ultimately show "trace st' = trace st @ concat (map (\<lambda>epoch. iteration x) [0..<n])
     \<and> modifies_only m st st'" by simp
next
  assume a: "nonlinear_regression_loop fw loss_fn optimizer m x y n (st, os, rs)
               = Inr (st', os', rs')"
  have "trace (fst (st', os', rs')) =
          trace (fst (st, os, rs)) @ concat (map (\<lambda>epoch. iteration x) [0..<n])"
    by (rule for_loop_trace [OF a [unfolded nonlinear_regression_loop_def]])
       (use nonlinear_regression_epoch_effect in fastforce)
  moreover have "modifies_only m (fst (st, os, rs)) (fst (st', os', rs'))"
    by (rule for_loop_preorder [OF a [unfolded nonlinear_regression_loop_def],
          where R = "\<lambda>s s'. modifies_only m (fst s) (fst s')"])
       (use nonlinear_regression_epoch_effect modifies_only_trans in fastforce)+
  ultimately show "trace st' = trace st @ concat (map (\<lambda>epoch. iteration x) [0..<n])
     \<and> modifies_only m st st'" by simp
qed

lemma training_mlp_classifier_loop_effect:
  assumes "training_mlp_classifier_loop fw batch_size model dl loss_fn lr verbose st n
             = Inr (st', os', ls')"
  shows "trace st' = trace st @
           concat (map (\<lambda>epoch. concat (map (\<lambda>b. iteration (mlp_input batch_size (fst b)))
                                          (batches dl epoch))) [0..<n])
       \<and> (\<forall>r<next_ref st. heap st' r = heap st r) \<and> next_ref st < next_ref st'"
proof -
  let ?st1 = "model_train (next_ref st) (snd (deepcopy model st))"
  let ?body = "training_mlp_classifier_epoch fw batch_size loss_fn (fw_SGD fw lr) (next_ref st)
                 dl verbose"
  from assms have l: "for_loop ?body [0..<n] (?st1, opt_init (fw_SGD fw lr), []) = Inr (st', os', ls')"
    by (simp add: training_mlp_classifier_loop_def Let_def split_beta)
  have t: "trace (fst (st', os', ls')) =
           trace (fst (?st1, opt_init (fw_SGD fw lr), [] :: rat list)) @
           concat (map (\<lambda>epoch. concat (map (\<lambda>b. iteration (mlp_input batch_size (fst b)))
                                          (batches dl epoch))) [0..<n])"
  proof (rule for_loop_trace [OF l, where tr = "\<lambda>s. trace (fst s)"])
    fix e s s'
    assume "?body e s = Inr s'"
    then show "trace (fst s') = trace (fst s) @
        concat (map (\<lambda>b. iteration (mlp_input batch_size (fst b))) (batches dl e))"
      using training_mlp_classifier_epoch_effect [of fw batch_size loss_fn "fw_SGD fw lr"
          "next_ref st" dl verbose e "fst s" "fst (snd s)" "snd (snd s)"
          "fst s'" "fst (snd s')" "snd (snd s')"]
      by simp
  qed
  have m: "modifies_only (next_ref st) (fst (?st1, opt_init (fw_SGD fw lr), [] :: rat list))
             (fst (st', os', ls'))"
    by (rule for_loop_preorder [OF l,
          where R = "\<lambda>s s'. modifies_only (next_ref st) (fst s) (fst s')"])
       (use training_mlp_classifier_epoch_effect modifies_only_trans in fastforce)+
  have "\<forall>r<next_ref st. heap st' r = heap st r"
    by (rule modifies_only_fresh [of st ?st1]) (use m in simp_all)
  moreover have "next_ref st < next_ref st'"
    using m by (simp add: modifies_only_def)
  ultimately show ?thesis using t by simp
qed

lemma train_val_mlp_classifier_loop_effect:
  assumes "train_val_mlp_classifier_loop fw gbs model dl vdl input_size batch_size loss_fn lr
             verbose st n = Inr (st', os', ls', accs', amax', mopt')"
  shows "trace st' = trace st @
           concat (map (\<lambda>epoch. concat
                     (map (\<lambda>b. iteration (reshape batch_size input_size (concat (fst b))))
                        (batches dl epoch))) [0..<n])"
    and "\<forall>r<next_ref st. heap st' r = heap st r"
    and "length accs' = n" and "amax' = Max (insert 0 (set accs'))"
    and "0 < amax' \<Longrightarrow>
           \<exists>j<n. \<exists>stj osj lsj accsj amaxj moptj.
             train_val_mlp_classifier_loop fw gbs model dl vdl input_size batch_size loss_fn lr
               verbose st (Suc j) = Inr (stj, osj, lsj, accsj, amaxj, moptj)
             \<and> accs' ! j = amax' \<and> (\<forall>i<j. accs' ! i < amax')
             \<and> mopt' \<noteq> next_ref st \<and> heap st' mopt' = (heap stj (next_ref st))\<lparr>grad := None\<rparr>"
proof -
  let ?m = "next_ref st"
  let ?st1 = "snd (deepcopy ?m (model_train ?m (snd (deepcopy model st))))"
  let ?body = "train_val_mlp_classifier_epoch fw gbs input_size batch_size loss_fn
                 (fw_Adam fw lr) ?m dl vdl verbose"
  let ?s0 = "(?st1, opt_init (fw_Adam fw lr), [] :: rat list, [] :: rat list, 0 :: rat,
              Suc ?m)"
  have loop: "train_val_mlp_classifier_loop fw gbs model dl vdl input_size batch_size loss_fn lr
               verbose st k = for_loop ?body [0..<k] ?s0" for k
    by (simp add: train_val_mlp_classifier_loop_def Let_def split_beta)
  from assms have l: "for_loop ?body [0..<n] ?s0 = Inr (st', os', ls', accs', amax', mopt')"
    by (simp only: loop)
  have t: "trace (fst (st', os', ls', accs', amax', mopt')) = trace (fst ?s0) @
           concat (map (\<lambda>epoch. concat
                     (map (\<lambda>b. iteration (reshape batch_size input_size (concat (fst b))))
                        (batches dl epoch))) [0..<n])"
  proof (rule for_loop_trace [OF l, where tr = "\<lambda>s. trace (fst s)"])
    fix e s s'
    assume a: "?body e s = Inr s'"
    obtain a1 a2 a3 a4 a5 a6 where s: "s = (a1, a2, a3, a4, a5, a6)" by (cases s)
    obtain b1 b2 b3 b4 b5 b6 where s': "s' = (b1, b2, b3, b4, b5, b6)" by (cases s')
    from train_val_mlp_classifier_epoch_effect [OF a [unfolded s s']]
    show "trace (fst s') = trace (fst s) @
        concat (map (\<lambda>b. iteration (reshape batch_size input_size (concat (fst b))))
                  (batches dl e))"
      by (simp add: s s')
  qed
  then show "trace st' = trace st @
           concat (map (\<lambda>epoch. concat
                     (map (\<lambda>b. iteration (reshape batch_size input_size (concat (fst b))))
                        (batches dl epoch))) [0..<n])"
    by simp
  have m: "modifies_only ?m (fst ?s0) (fst (st', os', ls', accs', amax', mopt'))"
  proof (rule for_loop_preorder [OF l, where R = "\<lambda>s s'. modifies_only ?m (fst s) (fst s')"])
    fix e s s'
    assume a: "?body e s = Inr s'"
    obtain a1 a2 a3 a4 a5 a6 where s: "s = (a1, a2, a3, a4, a5, a6)" by (cases s)
    obtain b1 b2 b3 b4 b5 b6 where s': "s' = (b1, b2, b3, b4, b5, b6)" by (cases s')
    from train_val_mlp_classifier_epoch_effect [OF a [unfolded s s']]
    show "modifies_only ?m (fst s) (fst s')" by (simp add: s s')
  qed (use modifies_only_trans in auto)
  show "\<forall>r<next_ref st. heap st' r = heap st r"
    by (rule modifies_only_fresh [of st ?st1]) (use m in simp_all)
  let ?accs = "\<lambda>(st :: 'a machine, os :: 'b, ls :: rat list, accs :: rat list, amax :: rat,
                   mopt :: nat). accs"
  let ?amax = "\<lambda>(st :: 'a machine, os :: 'b, ls :: rat list, accs :: rat list, amax :: rat,
                   mopt :: nat). amax"
  let ?mopt = "\<lambda>(st :: 'a machine, os :: 'b, ls :: rat list, accs :: rat list, amax :: rat,
                   mopt :: nat). Some mopt"
  have ep: "\<forall>e s s'. ?body e s = Inr s' \<longrightarrow> ?m < next_ref (fst s) \<longrightarrow>
      modifies_only ?m (fst s) (fst s')
      \<and> (\<exists>acc. ?accs s' = ?accs s @ [acc] \<and>
           (if acc > ?amax s
            then ?amax s' = acc \<and> ?mopt s' = Some (next_ref (fst s))
                 \<and> next_ref (fst s') = Suc (next_ref (fst s))
                 \<and> heap (fst s') (next_ref (fst s)) = (heap (fst s') ?m)\<lparr>grad := None\<rparr>
            else ?amax s' = ?amax s \<and> ?mopt s' = ?mopt s))"
  proof (intro allI impI)
    fix e s s'
    assume a: "?body e s = Inr s'" and al: "?m < next_ref (fst s)"
    obtain a1 a2 a3 a4 a5 a6 where s: "s = (a1, a2, a3, a4, a5, a6)" by (cases s)
    obtain b1 b2 b3 b4 b5 b6 where s': "s' = (b1, b2, b3, b4, b5, b6)" by (cases s')
    from train_val_mlp_classifier_epoch_effect [OF a [unfolded s s']] al
    show "modifies_only ?m (fst s) (fst s')
      \<and> (\<exists>acc. ?accs s' = ?accs s @ [acc] \<and>
           (if acc > ?amax s
            then ?amax s' = acc \<and> ?mopt s' = Some (next_ref (fst s))
                 \<and> next_ref (fst s') = Suc (next_ref (fst s))
                 \<and> heap (fst s') (next_ref (fst s)) = (heap (fst s') ?m)\<lparr>grad := None\<rparr>
            else ?amax s' = ?amax s \<and> ?mopt s' = ?mopt s))"
      by (auto simp: s s' split: if_splits)
  qed
  have i1: "?accs ?s0 = []" and i2: "?amax ?s0 = 0" and i3: "?m < next_ref (fst ?s0)"
    by simp_all
  note inv = selection_invariant [where body = ?body and mach = fst and accs = ?accs
      and amax = ?amax and mopt = ?mopt and model_tr = ?m, OF ep i1 i2 i3 l]
  from inv show "length accs' = n" "amax' = Max (insert 0 (set accs'))" by simp_all
  assume pos: "0 < amax'"
  with inv obtain j sj where j: "j < n" "for_loop ?body [0..<Suc j] ?s0 = Inr sj"
    "accs' ! j = amax'" "\<forall>i<j. accs' ! i < amax'" "mopt' \<noteq> ?m"
    "heap st' mopt' = (heap (fst sj) ?m)\<lparr>grad := None\<rparr>"
    by auto
  obtain b1 b2 b3 b4 b5 b6 where sj: "sj = (b1, b2, b3, b4, b5, b6)" by (cases sj)
  show "\<exists>j<n. \<exists>stj osj lsj accsj amaxj moptj.
             train_val_mlp_classifier_loop fw gbs model dl vdl input_size batch_size loss_fn lr
               verbose st (Suc j) = Inr (stj, osj, lsj, accsj, amaxj, moptj)
             \<and> accs' ! j = amax' \<and> (\<forall>i<j. accs' ! i < amax')
             \<and> mopt' \<noteq> next_ref st \<and> heap st' mopt' = (heap stj (next_ref st))\<lparr>grad := None\<rparr>"
    using j unfolding loop sj by (intro exI [of _ j]) auto
qed

lemma training_val_cnn_classifier_loop_effect:
  assumes "training_val_cnn_classifier_loop fw model dl vdl loss_fn lr verbose st n
             = Inr (st', os', ls', accs', amax', mopt')"
  shows "trace st' = trace st @
           concat (map (\<lambda>epoch. concat (map (\<lambda>b. iteration (fst b)) (batches dl epoch)))
                     [0..<n])"
    and "\<forall>r<next_ref st. heap st' r = heap st r"
    and "length accs' = n" and "amax' = Max (insert 0 (set accs'))"
    and "0 < amax' \<Longrightarrow>
           \<exists>j<n. \<exists>stj osj lsj accsj amaxj moptj.
             training_val_cnn_classifier_loop fw model dl vdl loss_fn lr verbose st (Suc j)
               = Inr (stj, osj, lsj, accsj, amaxj, moptj)
             \<and> accs' ! j = amax' \<and> (\<forall>i<j. accs' ! i < amax')
             \<and> (\<exists>r. mopt' = Some r \<and> r \<noteq> next_ref st
                    \<and> heap st' r = (heap stj (next_ref st))\<lparr>grad := None\<rparr>)"
proof -
  let ?m = "next_ref st"
  let ?st1 = "model_train ?m (snd (deepcopy model st))"
  let ?body = "training_val_cnn_classifier_epoch fw loss_fn (fw_Adam fw lr) ?m dl vdl verbose"
  let ?s0 = "(?st1, opt_init (fw_Adam fw lr), [] :: rat list, [] :: rat list, 0 :: rat,
              None :: nat option)"
  have loop: "training_val_cnn_classifier_loop fw model dl vdl loss_fn lr verbose st k
               = for_loop ?body [0..<k] ?s0" for k
    by (simp add: training_val_cnn_classifier_loop_def Let_def split_beta)
  from assms have l: "for_loop ?body [0..<n] ?s0 = Inr (st', os', ls', accs', amax', mopt')"
    by (simp only: loop)
  have t: "trace (fst (st', os', ls', accs', amax', mopt')) = trace (fst ?s0) @
           concat (map (\<lambda>epoch. concat (map (\<lambda>b. iteration (fst b)) (batches dl epoch)))
                     [0..<n])"
  proof (rule for_loop_trace [OF l, where tr = "\<lambda>s. trace (fst s)"])
    fix e s s'
    assume a: "?body e s = Inr s'"
    obtain a1 a2 a3 a4 a5 a6 where s: "s = (a1, a2, a3, a4, a5, a6)" by (cases s)
    obtain b1 b2 b3 b4 b5 b6 where s': "s' = (b1, b2, b3, b4, b5, b6)" by (cases s')
    from training_val_cnn_classifier_epoch_effect [OF a [unfolded s s']]
    show "trace (fst s') = trace (fst s) @
        concat (map (\<lambda>b. iteration (fst b)) (batches dl e))"
      by (simp add: s s')
  qed
  then show "trace st' = trace st @
           concat (map (\<lambda>epoch. concat (map (\<lambda>b. iteration (fst b)) (batches dl epoch)))
                     [0..<n])"
    by simp
  have m: "modifies_only ?m (fst ?s0) (fst (st', os', ls', accs', amax', mopt'))"
  proof (rule for_loop_preorder [OF l, where R = "\<lambda>s s'. modifies_only ?m (fst s) (fst s')"])
    fix e s s'
    assume a: "?body e s = Inr s'"
    obtain a1 a2 a3 a4 a5 a6 where s: "s = (a1, a2, a3, a4, a5, a6)" by (cases s)
    obtain b1 b2 b3 b4 b5 b6 where s': "s' = (b1, b2, b3, b4, b5, b6)" by (cases s')
    from training_val_cnn_classifier_epoch_effect [OF a [unfolded s s']]
    show "modifies_only ?m (fst s) (fst s')" by (simp add: s s')
  qed (use modifies_only_trans in auto)
  show "\<forall>r<next_ref st. heap st' r = heap st r"
    by (rule modifies_only_fresh [of st ?st1]) (use m in simp_all)
  let ?accs = "\<lambda>(st :: 'a machine, os :: 'b, ls :: rat list, accs :: rat list, amax :: rat,
                   mopt :: nat option). accs"
  let ?amax = "\<lambda>(st :: 'a machine, os :: 'b, ls :: rat list, accs :: rat list, amax :: rat,
                   mopt :: nat option). amax"
  let ?mopt = "\<lambda>(st :: 'a machine, os :: 'b, ls :: rat list, accs :: rat list, amax :: rat,
                   mopt :: nat option). mopt"
  have ep: "\<forall>e s s'. ?body e s = Inr s' \<longrightarrow> ?m < next_ref (fst s) \<longrightarrow>
      modifies_only ?m (fst s) (fst s')
      \<and> (\<exists>acc. ?accs s' = ?accs s @ [acc] \<and>
           (if acc > ?amax s
            then ?amax s' = acc \<and> ?mopt s' = Some (next_ref (fst s))
                 \<and> next_ref (fst s') = Suc (next_ref (fst s))
                 \<and> heap (fst s') (next_ref (fst s)) = (heap (fst s') ?m)\<lparr>grad := None\<rparr>
            else ?amax s' = ?amax s \<and> ?mopt s' = ?mopt s))"
  proof (intro allI impI)
    fix e s s'
    assume a: "?body e s = Inr s'" and al: "?m < next_ref (fst s)"
    obtain a1 a2 a3 a4 a5 a6 where s: "s = (a1, a2, a3, a4, a5, a6)" by (cases s)
    obtain b1 b2 b3 b4 b5 b6 where s': "s' = (b1, b2, b3, b4, b5, b6)" by (cases s')
    from training_val_cnn_classifier_epoch_effect [OF a [unfolded s s']] al
    show "modifies_only ?m (fst s) (fst s')
      \<and> (\<exists>acc. ?accs s' = ?accs s @ [acc] \<and>
           (if acc > ?amax s
            then ?amax s' = acc \<and> ?mopt s' = Some (next_ref (fst s))
                 \<and> next_ref (fst s') = Suc (next_ref (fst s))
                 \<and> heap (fst s') (next_ref (fst s)) = (heap (fst s') ?m)\<lparr>grad := None\<rparr>
            else ?amax s' = ?amax s \<and> ?mopt s' = ?mopt s))"
      by (auto simp: s s' split: if_splits)
  qed
  have i1: "?accs ?s0 = []" and i2: "?amax ?s0 = 0" and i3: "?m < next_ref (fst ?s0)"
    by simp_all
  note inv = selection_invariant [where body = ?body and mach = fst and accs = ?accs
      and amax = ?amax and mopt = ?mopt and model_tr = ?m, OF ep i1 i2 i3 l]
  from inv show "length accs' = n" "amax' = Max (insert 0 (set accs'))" by simp_all
  assume pos: "0 < amax'"
  with inv obtain j sj where j: "j < n" "for_loop ?body [0..<Suc j] ?s0 = Inr sj"
    "accs' ! j = amax'" "\<forall>i<j. accs' ! i < amax'"
    "\<exists>r. mopt' = Some r \<and> r \<noteq> ?m \<and> heap st' r = (heap (fst sj) ?m)\<lparr>grad := None\<rparr>"
    by auto
  obtain b1 b2 b3 b4 b5 b6 where sj: "sj = (b1, b2, b3, b4, b5, b6)" by (cases sj)
  show "\<exists>j<n. \<exists>stj osj lsj accsj amaxj moptj.
             training_val_cnn_classifier_loop fw model dl vdl loss_fn lr verbose st (Suc j)
               = Inr (stj, osj, lsj, accsj, amaxj, moptj)
             \<and> accs' ! j = amax' \<and> (\<forall>i<j. accs' ! i < amax')
             \<and> (\<exists>r. mopt' = Some r \<and> r \<noteq> next_ref st
                    \<and> heap st' r = (heap stj (next_ref st))\<lparr>grad := None\<rparr>)"
    using j unfolding loop sj by (intro exI [of _ j]) auto
qed

subsection \<open>Traces\<close>

lemma concat_map_const: "concat (map (\<lambda>epoch. xs) [0..<n]) = concat (replicate n xs)"
  by (simp add: map_replicate_const)

lemma case_prod_fst: "(\<lambda>(images, targets). f images) = (\<lambda>b. f (fst b))"
  by (rule ext) (simp add: split_beta)

lemma for_loop_raises:
  assumes "for_loop body [0..<k] s0 = Inr s" and "body k s = Inl e" and "k < n"
  shows "for_loop body [0..<n] s0 = Inl e"
proof -
  have "[0..<n] = [0..<k] @ [k..<n]"
    using assms(3) upt_add_eq_append [of 0 k "n - k"] by simp
  also have "[k..<n] = k # [Suc k..<n]"
    using assms(3) by (rule upt_conv_Cons)
  finally have "[0..<n] = [0..<k] @ k # [Suc k..<n]" .
  then show ?thesis
    using assms(1,2) by (simp add: for_loop_append)
qed

lemma Max_insert_0_positive:
  assumes "a \<in> set accs" and "(0::rat) < a"
  shows "Max (insert 0 (set accs)) = Max (set accs)" and "0 < Max (set accs)"
proof -
  have ne: "set accs \<noteq> {}" using assms(1) by auto
  have "a \<le> Max (set accs)" using assms(1) by simp
  then show "0 < Max (set accs)" using assms(2) by simp
  then show "Max (insert 0 (set accs)) = Max (set accs)"
    using ne by (simp add: max_def)
qed

subsection \<open>The batches of a loader\<close>

lemma chunks_Nil [simp]: "chunks n [] = []"
  by (simp add: chunks.simps)

lemma chunks_step:
  "0 < n \<Longrightarrow> xs \<noteq> [] \<Longrightarrow> chunks n xs = take n xs # chunks n (drop n xs)"
  by (subst chunks.simps) simp





subsection \<open>Runs on the toy framework\<close>

text \<open>
  The runs are evaluated by rewriting with the definitions; the congruence rules make
  the rewriting follow the order of the program. Two epochs on the one batch of
  \<open>one_batch_loader\<close>: the losses are 4 and 12/5 (16/5 with Adam), the validation
  accuracies 100 and 50, and the functions with validation return the copy made at the
  first epoch (object 3, or 2 where no copy is made on entry).
\<close>

lemmas toy_run =
  linear_regression_loop_def linear_regression_epoch_def
  nonlinear_regression_loop_def nonlinear_regression_epoch_def
  training_val_cnn_classifier_def training_val_cnn_classifier_loop_def
  training_val_cnn_classifier_epoch_def training_val_cnn_classifier_batch_def
  train_val_mlp_classifier_def train_val_mlp_classifier_loop_def
  train_val_mlp_classifier_epoch_def train_val_mlp_classifier_batch_def
  training_mlp_classifier_def training_mlp_classifier_loop_def
  training_mlp_classifier_epoch_def training_mlp_classifier_batch_def
  eval_cnn_classifier_def eval_cnn_classifier_batch_def
  eval_mlp_classifier_def eval_mlp_classifier_batch_def
  batches_def DataLoader_iter_def DataLoader_order_def DataLoader_len_def collate_def
  chunks_step chunks_Nil
  toy_def toy_loss_def machine0_def one_batch_loader_def first_best_loader_def
  empty_rows_loader_def partial_loader_def dropping_loader_def
  deepcopy_def update_module_def model_train_def model_eval_def model_call_def
  loss_call_def optimizer_zero_grad_def loss_backward_def optimizer_step_def
  record_step_def print_def torch_max_indices_def eq_sum_def view_def view_infer_def
  reshape_def Let_def upt_rec

lemma batches_one_batch_loader: "batches one_batch_loader k = [([[1], [3]], [0, 0])]"
  by (simp add: toy_run)

lemma linear_regression_run:
  "\<exists>st' os'. linear_regression_loop (toy 1 :: (rat, nat, nat list) framework) toy_loss
       (fw_SGD (toy 1 :: (rat, nat, nat list) framework) (1 / 5)) 0 [[1], [3]] [0, 0] 2
       (machine0, 0) = Inr (st', os')"
  by (simp add: toy_run cong: let_weak_cong if_weak_cong)

lemma nonlinear_regression_run:
  "\<exists>st' os'. nonlinear_regression_loop (toy 1 :: (rat, nat, nat list) framework) toy_loss
       (fw_SGD (toy 1 :: (rat, nat, nat list) framework) (1 / 5)) 0 [[1], [3]] [0, 0] 2
       (machine0, 0, []) = Inr (st', os', [4, 12 / 5])"
  by (simp add: toy_run cong: let_weak_cong if_weak_cong)

lemma training_mlp_classifier_run:
  "\<exists>model_tr st'. training_mlp_classifier (toy 1 :: (rat, nat, nat list) framework) 2 0
       one_batch_loader 2 toy_loss (1 / 5) True machine0
     = Inr ((model_tr, [4, 12 / 5]), st')"
  by (simp add: toy_run cong: let_weak_cong if_weak_cong)

lemma train_val_mlp_classifier_run:
  "\<exists>train_losses st'. train_val_mlp_classifier (toy 1 :: (rat, nat, nat list) framework) 2 0
       one_batch_loader first_best_loader 1 2 2 toy_loss (1 / 5) True machine0
     = Inr ((3, train_losses, [100, 50]), st')
     \<and> parameters (heap st' 3) = 3 / 10 \<and> grad (heap st' 3) = None
     \<and> parameters (heap st' 1) = 1 / 10"
  by (simp add: toy_run cong: let_weak_cong if_weak_cong)

lemma training_val_cnn_classifier_run:
  "\<exists>train_losses st'. training_val_cnn_classifier (toy 1 :: (rat, nat, nat list) framework) 0
       one_batch_loader first_best_loader 2 toy_loss (1 / 5) True machine0
     = Inr ((2, train_losses, [100, 50]), st')
     \<and> parameters (heap st' 2) = 3 / 10 \<and> grad (heap st' 2) = None
     \<and> parameters (heap st' 1) = 1 / 10"
  by (simp add: toy_run cong: let_weak_cong if_weak_cong)

text \<open>
  A partial batch makes the two MLP functions raise, images without pixels make the
  model raise: the first epoch fails.
\<close>

lemma failing_epochs:
  "\<exists>s1. training_mlp_classifier_loop (toy 1 :: (rat, nat, nat list) framework) 2 0
            partial_loader toy_loss (1 / 5) True machine0 0 = Inr s1
        \<and> training_mlp_classifier_epoch (toy 1 :: (rat, nat, nat list) framework) 2 toy_loss
            (fw_SGD (toy 1 :: (rat, nat, nat list) framework) (1 / 5)) (next_ref machine0)
            partial_loader True 0 s1 = Inl RuntimeError"
  "\<exists>s2. train_val_mlp_classifier_loop (toy 1 :: (rat, nat, nat list) framework) 2 0
            partial_loader first_best_loader 1 2 toy_loss (1 / 5) True machine0 0 = Inr s2
        \<and> train_val_mlp_classifier_epoch (toy 1 :: (rat, nat, nat list) framework) 2 1 2
            toy_loss (fw_Adam (toy 1 :: (rat, nat, nat list) framework) (1 / 5))
            (next_ref machine0) partial_loader first_best_loader True 0 s2 = Inl RuntimeError"
  "\<exists>s3. training_val_cnn_classifier_loop (toy 1 :: (rat, nat, nat list) framework) 0
            empty_rows_loader first_best_loader toy_loss (1 / 5) True machine0 0 = Inr s3
        \<and> training_val_cnn_classifier_epoch (toy 1 :: (rat, nat, nat list) framework) toy_loss
            (fw_Adam (toy 1 :: (rat, nat, nat list) framework) (1 / 5)) (next_ref machine0)
            empty_rows_loader first_best_loader True 0 s3 = Inl RuntimeError"
  by (simp_all add: toy_run cong: let_weak_cong if_weak_cong)

lemma first_best_index:
  assumes "j < (2::nat)" and "[100, 50 :: rat] ! j = Max (set [100, 50])"
  shows "j = 0"
proof -
  have "j = 0 \<or> j = 1" using assms(1) by arith
  then show ?thesis using assms(2) by auto
qed

subsection \<open>The argument model\<close>

text \<open>
  Claim C8. \<open>training_mlp_classifier\<close>, \<open>train_val_mlp_classifier\<close> and
  \<open>training_val_cnn_classifier\<close> work on a deep copy made on entry: when the call
  returns, the model given as argument (an object that exists at the call) has the
  parameters, the gradient and the mode it had before.
\<close>

theorem C8_argument_model_unchanged:
  "(training_mlp_classifier fw gbs model dl num_epochs loss_fn lr verbose st = Inr (res1, st1)
      \<and> model < next_ref st
      \<longrightarrow> heap st1 model = heap st model)
   \<and> (train_val_mlp_classifier fw gbs model dl vdl input_size bs num_epochs loss_fn lr verbose st
         = Inr (res2, st2)
      \<and> model < next_ref st
      \<longrightarrow> heap st2 model = heap st model)
   \<and> (training_val_cnn_classifier fw model dl vdl num_epochs loss_fn lr verbose st
         = Inr (res3, st3)
      \<and> model < next_ref st
      \<longrightarrow> heap st3 model = heap st model)"
proof (intro conjI impI)
  assume a: "training_mlp_classifier fw gbs model dl num_epochs loss_fn lr verbose st
            = Inr (res1, st1) \<and> model < next_ref st"
  then obtain os' ls' where
    "training_mlp_classifier_loop fw gbs model dl loss_fn lr verbose st num_epochs
       = Inr (st1, os', ls')"
    by (auto simp: training_mlp_classifier_def Let_def split: sum.splits)
  from training_mlp_classifier_loop_effect [OF this] a
  show "heap st1 model = heap st model" by simp
next
  assume a: "train_val_mlp_classifier fw gbs model dl vdl input_size bs num_epochs loss_fn lr
            verbose st = Inr (res2, st2) \<and> model < next_ref st"
  then obtain os' ls' accs' amax' mopt' where
    "train_val_mlp_classifier_loop fw gbs model dl vdl input_size bs loss_fn lr verbose st
       num_epochs = Inr (st2, os', ls', accs', amax', mopt')"
    by (auto simp: train_val_mlp_classifier_def split: sum.splits)
  from train_val_mlp_classifier_loop_effect(2) [OF this] a
  show "heap st2 model = heap st model" by simp
next
  assume a: "training_val_cnn_classifier fw model dl vdl num_epochs loss_fn lr verbose st
            = Inr (res3, st3) \<and> model < next_ref st"
  then obtain os' ls' accs' amax' mopt' where
    "training_val_cnn_classifier_loop fw model dl vdl loss_fn lr verbose st num_epochs
       = Inr (st3, os', ls', accs', amax', mopt')"
    by (auto simp: training_val_cnn_classifier_def split: sum.splits option.splits)
  from training_val_cnn_classifier_loop_effect(2) [OF this] a
  show "heap st3 model = heap st model" by simp
qed

theorem C8_witness:
  "(\<exists>res1 st1. training_mlp_classifier (toy 1 :: (rat, nat, nat list) framework) 2 0
       one_batch_loader 2 toy_loss (1 / 5) True machine0 = Inr (res1, st1)
      \<and> heap st1 0 = heap machine0 0)
   \<and> (\<exists>res2 st2. train_val_mlp_classifier (toy 1 :: (rat, nat, nat list) framework) 2 0
       one_batch_loader first_best_loader 1 2 2 toy_loss (1 / 5) True machine0
         = Inr (res2, st2)
      \<and> heap st2 0 = heap machine0 0)
   \<and> (\<exists>res3 st3. training_val_cnn_classifier (toy 1 :: (rat, nat, nat list) framework) 0
       one_batch_loader first_best_loader 2 toy_loss (1 / 5) True machine0 = Inr (res3, st3)
      \<and> heap st3 0 = heap machine0 0)"
proof -
  obtain res1 st1 where r1: "training_mlp_classifier (toy 1 :: (rat, nat, nat list) framework)
       2 0 one_batch_loader 2 toy_loss (1 / 5) True machine0 = Inr (res1, st1)"
    using training_mlp_classifier_run by blast
  obtain res2 st2 where r2: "train_val_mlp_classifier
       (toy 1 :: (rat, nat, nat list) framework) 2 0 one_batch_loader first_best_loader 1 2 2
       toy_loss (1 / 5) True machine0 = Inr (res2, st2)"
    using train_val_mlp_classifier_run by blast
  obtain res3 st3 where r3: "training_val_cnn_classifier
       (toy 1 :: (rat, nat, nat list) framework) 0 one_batch_loader first_best_loader 2
       toy_loss (1 / 5) True machine0 = Inr (res3, st3)"
    using training_val_cnn_classifier_run by blast
  note t = C8_argument_model_unchanged
  have n: "0 < next_ref machine0" by (simp add: machine0_def)
  from t [THEN conjunct1, rule_format, OF conjI [OF r1 n]]
  have "heap st1 0 = heap machine0 0" .
  moreover from t [THEN conjunct2, THEN conjunct1, rule_format, OF conjI [OF r2 n]]
  have "heap st2 0 = heap machine0 0" .
  moreover from t [THEN conjunct2, THEN conjunct2, rule_format, OF conjI [OF r3 n]]
  have "heap st3 0 = heap machine0 0" .
  ultimately show ?thesis
    using r1 r2 r3 by blast
qed

subsection \<open>The returned model\<close>

text \<open>
  Claim C9. When \<open>train_val_mlp_classifier\<close> or \<open>training_val_cnn_classifier\<close>
  returns and some validation accuracy is positive, there is an epoch \<open>j\<close> whose
  accuracy is the maximum of \<open>val_accuracies\<close>, no earlier epoch reaches it, and
  the returned model is an object of its own (not the model being trained, which is at
  \<open>next_ref st\<close>) with the parameters and the mode the trained model had at the end
  of epoch \<open>j\<close>; as a deep copy it holds no gradient.
\<close>

theorem C9_returned_model_is_first_best_epoch:
  "(train_val_mlp_classifier fw gbs model dl vdl input_size bs num_epochs loss_fn lr verbose st
         = Inr ((model_opt, train_losses, val_accuracies), st')
      \<and> (\<exists>a. a \<in> set val_accuracies \<and> 0 < a) \<longrightarrow>
      (\<exists>j<num_epochs. \<exists>stj osj lsj accsj amaxj moptj.
         train_val_mlp_classifier_loop fw gbs model dl vdl input_size bs loss_fn lr verbose st
           (Suc j) = Inr (stj, osj, lsj, accsj, amaxj, moptj)
         \<and> val_accuracies ! j = Max (set val_accuracies)
         \<and> (\<forall>i<j. val_accuracies ! i < Max (set val_accuracies))
         \<and> model_opt \<noteq> next_ref st
         \<and> parameters (heap st' model_opt) = parameters (heap stj (next_ref st))
         \<and> training (heap st' model_opt) = training (heap stj (next_ref st))
         \<and> grad (heap st' model_opt) = None))
   \<and> (training_val_cnn_classifier fw model dl vdl num_epochs loss_fn lr verbose st
         = Inr ((model_opt, train_losses, val_accuracies), st')
      \<and> (\<exists>a. a \<in> set val_accuracies \<and> 0 < a) \<longrightarrow>
      (\<exists>j<num_epochs. \<exists>stj osj lsj accsj amaxj moptj.
         training_val_cnn_classifier_loop fw model dl vdl loss_fn lr verbose st (Suc j)
           = Inr (stj, osj, lsj, accsj, amaxj, moptj)
         \<and> val_accuracies ! j = Max (set val_accuracies)
         \<and> (\<forall>i<j. val_accuracies ! i < Max (set val_accuracies))
         \<and> model_opt \<noteq> next_ref st
         \<and> parameters (heap st' model_opt) = parameters (heap stj (next_ref st))
         \<and> training (heap st' model_opt) = training (heap stj (next_ref st))
         \<and> grad (heap st' model_opt) = None))"
proof (intro conjI impI)
  assume a: "train_val_mlp_classifier fw gbs model dl vdl input_size bs num_epochs loss_fn lr
               verbose st = Inr ((model_opt, train_losses, val_accuracies), st')
             \<and> (\<exists>a. a \<in> set val_accuracies \<and> 0 < a)"
  then obtain os' amax' where
    l: "train_val_mlp_classifier_loop fw gbs model dl vdl input_size bs loss_fn lr verbose st
       num_epochs = Inr (st', os', train_losses, val_accuracies, amax', model_opt)"
    by (auto simp: train_val_mlp_classifier_def split: sum.splits)
  from a obtain v where v: "v \<in> set val_accuracies" "0 < v" by blast
  note mx = Max_insert_0_positive [OF v]
  note e = train_val_mlp_classifier_loop_effect [OF l]
  have am: "amax' = Max (set val_accuracies)" using e(4) mx(1) by simp
  then have "0 < amax'" using mx(2) by simp
  from e(5) [OF this] obtain j stj osj lsj accsj amaxj moptj where
    j: "j < num_epochs"
      "train_val_mlp_classifier_loop fw gbs model dl vdl input_size bs loss_fn lr verbose st
         (Suc j) = Inr (stj, osj, lsj, accsj, amaxj, moptj)"
      "val_accuracies ! j = Max (set val_accuracies)"
      "\<forall>i<j. val_accuracies ! i < Max (set val_accuracies)"
      "model_opt \<noteq> next_ref st"
      "heap st' model_opt = (heap stj (next_ref st))\<lparr>grad := None\<rparr>"
    unfolding am by blast
  from j(6) have "parameters (heap st' model_opt) = parameters (heap stj (next_ref st))
         \<and> training (heap st' model_opt) = training (heap stj (next_ref st))
         \<and> grad (heap st' model_opt) = None"
    by simp
  with j(1-5) show "\<exists>j<num_epochs. \<exists>stj osj lsj accsj amaxj moptj.
         train_val_mlp_classifier_loop fw gbs model dl vdl input_size bs loss_fn lr verbose st
           (Suc j) = Inr (stj, osj, lsj, accsj, amaxj, moptj)
         \<and> val_accuracies ! j = Max (set val_accuracies)
         \<and> (\<forall>i<j. val_accuracies ! i < Max (set val_accuracies))
         \<and> model_opt \<noteq> next_ref st
         \<and> parameters (heap st' model_opt) = parameters (heap stj (next_ref st))
         \<and> training (heap st' model_opt) = training (heap stj (next_ref st))
         \<and> grad (heap st' model_opt) = None"
    by blast
next
  assume a: "training_val_cnn_classifier fw model dl vdl num_epochs loss_fn lr verbose st
               = Inr ((model_opt, train_losses, val_accuracies), st')
             \<and> (\<exists>a. a \<in> set val_accuracies \<and> 0 < a)"
  then obtain os' amax' where
    l: "training_val_cnn_classifier_loop fw model dl vdl loss_fn lr verbose st num_epochs
       = Inr (st', os', train_losses, val_accuracies, amax', Some model_opt)"
    by (auto simp: training_val_cnn_classifier_def split: sum.splits option.splits)
  from a obtain v where v: "v \<in> set val_accuracies" "0 < v" by blast
  note mx = Max_insert_0_positive [OF v]
  note e = training_val_cnn_classifier_loop_effect [OF l]
  have am: "amax' = Max (set val_accuracies)" using e(4) mx(1) by simp
  then have "0 < amax'" using mx(2) by simp
  from e(5) [OF this] obtain j stj osj lsj accsj amaxj moptj where
    j: "j < num_epochs"
      "training_val_cnn_classifier_loop fw model dl vdl loss_fn lr verbose st (Suc j)
         = Inr (stj, osj, lsj, accsj, amaxj, moptj)"
      "val_accuracies ! j = Max (set val_accuracies)"
      "\<forall>i<j. val_accuracies ! i < Max (set val_accuracies)"
      "model_opt \<noteq> next_ref st"
      "heap st' model_opt = (heap stj (next_ref st))\<lparr>grad := None\<rparr>"
    unfolding am by auto
  from j(6) have "parameters (heap st' model_opt) = parameters (heap stj (next_ref st))
         \<and> training (heap st' model_opt) = training (heap stj (next_ref st))
         \<and> grad (heap st' model_opt) = None"
    by simp
  with j(1-5) show "\<exists>j<num_epochs. \<exists>stj osj lsj accsj amaxj moptj.
         training_val_cnn_classifier_loop fw model dl vdl loss_fn lr verbose st (Suc j)
           = Inr (stj, osj, lsj, accsj, amaxj, moptj)
         \<and> val_accuracies ! j = Max (set val_accuracies)
         \<and> (\<forall>i<j. val_accuracies ! i < Max (set val_accuracies))
         \<and> model_opt \<noteq> next_ref st
         \<and> parameters (heap st' model_opt) = parameters (heap stj (next_ref st))
         \<and> training (heap st' model_opt) = training (heap stj (next_ref st))
         \<and> grad (heap st' model_opt) = None"
    by blast
qed

theorem C9_witness:
  "(\<exists>train_losses st' stj osj lsj accsj amaxj moptj.
       train_val_mlp_classifier (toy 1 :: (rat, nat, nat list) framework) 2 0
         one_batch_loader first_best_loader 1 2 2 toy_loss (1 / 5) True machine0
         = Inr ((3, train_losses, [100, 50]), st')
     \<and> train_val_mlp_classifier_loop (toy 1 :: (rat, nat, nat list) framework) 2 0
         one_batch_loader first_best_loader 1 2 toy_loss (1 / 5) True machine0 1
         = Inr (stj, osj, lsj, accsj, amaxj, moptj)
     \<and> parameters (heap st' 3) = parameters (heap stj 1)
     \<and> parameters (heap st' 3) = 3 / 10 \<and> parameters (heap st' 1) = 1 / 10)
   \<and> (\<exists>train_losses st' stj osj lsj accsj amaxj moptj.
       training_val_cnn_classifier (toy 1 :: (rat, nat, nat list) framework) 0
         one_batch_loader first_best_loader 2 toy_loss (1 / 5) True machine0
         = Inr ((2, train_losses, [100, 50]), st')
     \<and> training_val_cnn_classifier_loop (toy 1 :: (rat, nat, nat list) framework) 0
         one_batch_loader first_best_loader toy_loss (1 / 5) True machine0 1
         = Inr (stj, osj, lsj, accsj, amaxj, moptj)
     \<and> parameters (heap st' 2) = parameters (heap stj 1)
     \<and> parameters (heap st' 2) = 3 / 10 \<and> parameters (heap st' 1) = 1 / 10)"
proof -
  obtain ls1 st1 where r1: "train_val_mlp_classifier
       (toy 1 :: (rat, nat, nat list) framework) 2 0 one_batch_loader first_best_loader 1 2 2
       toy_loss (1 / 5) True machine0 = Inr ((3, ls1, [100, 50]), st1)"
    and q1: "parameters (heap st1 3) = 3 / 10" "parameters (heap st1 1) = 1 / 10"
    using train_val_mlp_classifier_run by blast
  obtain ls2 st2 where r2: "training_val_cnn_classifier
       (toy 1 :: (rat, nat, nat list) framework) 0 one_batch_loader first_best_loader 2
       toy_loss (1 / 5) True machine0 = Inr ((2, ls2, [100, 50]), st2)"
    and q2: "parameters (heap st2 2) = 3 / 10" "parameters (heap st2 1) = 1 / 10"
    using training_val_cnn_classifier_run by blast
  have p: "\<exists>a. a \<in> set [100, 50 :: rat] \<and> 0 < a" by auto
  have n: "next_ref machine0 = 1" by (simp add: machine0_def)
  note t = C9_returned_model_is_first_best_epoch
  from t [THEN conjunct1, rule_format, OF conjI [OF r1 p]]
  obtain j stj osj lsj accsj amaxj moptj where
    a: "j < 2" "train_val_mlp_classifier_loop (toy 1 :: (rat, nat, nat list) framework) 2 0
         one_batch_loader first_best_loader 1 2 toy_loss (1 / 5) True machine0 (Suc j)
         = Inr (stj, osj, lsj, accsj, amaxj, moptj)"
      "[100, 50 :: rat] ! j = Max (set [100, 50])"
      "parameters (heap st1 3) = parameters (heap stj (next_ref machine0))"
    by blast
  have "j = 0" using a(1,3) by (rule first_best_index)
  then have c1: "\<exists>train_losses st' stj osj lsj accsj amaxj moptj.
       train_val_mlp_classifier (toy 1 :: (rat, nat, nat list) framework) 2 0
         one_batch_loader first_best_loader 1 2 2 toy_loss (1 / 5) True machine0
         = Inr ((3, train_losses, [100, 50]), st')
     \<and> train_val_mlp_classifier_loop (toy 1 :: (rat, nat, nat list) framework) 2 0
         one_batch_loader first_best_loader 1 2 toy_loss (1 / 5) True machine0 1
         = Inr (stj, osj, lsj, accsj, amaxj, moptj)
     \<and> parameters (heap st' 3) = parameters (heap stj 1)
     \<and> parameters (heap st' 3) = 3 / 10 \<and> parameters (heap st' 1) = 1 / 10"
    using r1 q1 a(2,4) n by auto
  from t [THEN conjunct2, rule_format, OF conjI [OF r2 p]]
  obtain j stj osj lsj accsj amaxj moptj where
    b: "j < 2" "training_val_cnn_classifier_loop (toy 1 :: (rat, nat, nat list) framework) 0
         one_batch_loader first_best_loader toy_loss (1 / 5) True machine0 (Suc j)
         = Inr (stj, osj, lsj, accsj, amaxj, moptj)"
      "[100, 50 :: rat] ! j = Max (set [100, 50])"
      "parameters (heap st2 2) = parameters (heap stj (next_ref machine0))"
    by blast
  have "j = 0" using b(1,3) by (rule first_best_index)
  then have c2: "\<exists>train_losses st' stj osj lsj accsj amaxj moptj.
       training_val_cnn_classifier (toy 1 :: (rat, nat, nat list) framework) 0
         one_batch_loader first_best_loader 2 toy_loss (1 / 5) True machine0
         = Inr ((2, train_losses, [100, 50]), st')
     \<and> training_val_cnn_classifier_loop (toy 1 :: (rat, nat, nat list) framework) 0
         one_batch_loader first_best_loader toy_loss (1 / 5) True machine0 1
         = Inr (stj, osj, lsj, accsj, amaxj, moptj)
     \<and> parameters (heap st' 2) = parameters (heap stj 1)
     \<and> parameters (heap st' 2) = 3 / 10 \<and> parameters (heap st' 1) = 1 / 10"
    using r2 q2 b(2,4) n by auto
  from c1 c2 show ?thesis by (rule conjI)
qed

subsection \<open>What an iteration does\<close>

text \<open>
  Each loop body is one \<open>training_step\<close> on the object of the model, with the
  steps written to the trace and the loss recorded: the calls of the loop do what the
  step says, in the machine.
\<close>

lemmas framework_calls =
  model_call_def loss_call_def optimizer_zero_grad_def loss_backward_def optimizer_step_def
  update_module_def record_step_def print_def training_step_def iteration_def
  Let_def split_beta

lemma update_order:
  "grad_update f (parameters_update g (m :: 'p module)) = parameters_update g (grad_update f m)"
  "stdout_update h (trace_update k (st :: 'p machine)) = trace_update k (stdout_update h st)"
  by (rule module.equality machine.equality; simp)+

lemma linear_regression_epoch_performs:
  "linear_regression_epoch fw loss_fn opt m x y epoch (st, os) =
     (case training_step fw loss_fn opt x y (heap st m, os) of
        Inl e \<Rightarrow> Inl e
      | Inr (m', os', v) \<Rightarrow>
          Inr (st\<lparr>heap := (heap st)(m := m'), trace := trace st @ iteration x,
                  stdout := stdout st @ [v]\<rparr>, os'))"
  unfolding linear_regression_epoch_def
  by (simp add: framework_calls update_order split: sum.splits)

lemma nonlinear_regression_epoch_performs:
  "nonlinear_regression_epoch fw loss_fn opt m x y epoch (st, os, loss_records) =
     (case training_step fw loss_fn opt x y (heap st m, os) of
        Inl e \<Rightarrow> Inl e
      | Inr (m', os', v) \<Rightarrow>
          Inr (st\<lparr>heap := (heap st)(m := m'), trace := trace st @ iteration x,
                  stdout := stdout st @ [v]\<rparr>, os', loss_records @ [v]))"
  unfolding nonlinear_regression_epoch_def
  by (simp add: framework_calls update_order split: sum.splits)

lemma training_mlp_classifier_batch_performs:
  "training_mlp_classifier_batch fw batch_size loss_fn opt m (images, targets) (st, os, tr_loss) =
     (case view_infer batch_size images of
        Inl e \<Rightarrow> Inl e
      | Inr x \<Rightarrow>
          (case training_step fw loss_fn opt x targets (heap st m, os) of
             Inl e \<Rightarrow> Inl e
           | Inr (m', os', v) \<Rightarrow>
               Inr (st\<lparr>heap := (heap st)(m := m'), trace := trace st @ iteration x\<rparr>, os',
                    tr_loss + v * rat_of_nat batch_size)))"
  unfolding training_mlp_classifier_batch_def
  by (simp add: framework_calls update_order split: sum.splits)

lemma train_val_mlp_classifier_batch_performs:
  "train_val_mlp_classifier_batch fw input_size batch_size loss_fn opt m (images, targets)
       (st, os, tr_loss) =
     (case view batch_size input_size images of
        Inl e \<Rightarrow> Inl e
      | Inr x \<Rightarrow>
          (case training_step fw loss_fn opt x targets (heap st m, os) of
             Inl e \<Rightarrow> Inl e
           | Inr (m', os', v) \<Rightarrow>
               Inr (st\<lparr>heap := (heap st)(m := m'), trace := trace st @ iteration x\<rparr>, os',
                    tr_loss + v * rat_of_nat batch_size)))"
  unfolding train_val_mlp_classifier_batch_def
  by (simp add: framework_calls update_order split: sum.splits)

lemma training_val_cnn_classifier_batch_performs:
  "training_val_cnn_classifier_batch fw loss_fn opt m (images, targets) (st, os, tr_loss) =
     (case training_step fw loss_fn opt images targets (heap st m, os) of
        Inl e \<Rightarrow> Inl e
      | Inr (m', os', v) \<Rightarrow>
          Inr (st\<lparr>heap := (heap st)(m := m'), trace := trace st @ iteration images\<rparr>, os',
               tr_loss + v * rat_of_nat (length images)))"
  unfolding training_val_cnn_classifier_batch_def
  by (simp add: framework_calls update_order split: sum.splits)

subsection \<open>The batches of an epoch, one after the other\<close>










subsection \<open>The steps of the optimizer, counted by the optimizer\<close>

lemma training_step_counting:
  "training_step fw loss_fn (counting opt) x y (m, (os, c)) = Inr (m', (os', c'), v)
   \<Longrightarrow> c' = Suc c"
  by (auto simp: training_step_def counting_def Let_def split_beta split: sum.splits)

lemma for_loop_count:
  fixes c :: "'s \<Rightarrow> nat"
  assumes "for_loop body xs s = Inr s'"
    and "\<And>x s s'. x \<in> set xs \<Longrightarrow> body x s = Inr s' \<Longrightarrow> c s' = c s + f x"
  shows "c s' = c s + sum_list (map f xs)"
  using assms
proof (induction xs arbitrary: s)
  case Nil
  then show ?case by simp
next
  case (Cons x xs)
  from Cons.prems(1) obtain s1 where s1: "body x s = Inr s1" "for_loop body xs s1 = Inr s'"
    by (auto split: sum.splits)
  have "c s1 = c s + f x" using Cons.prems(2) s1(1) by simp
  moreover have "c s' = c s1 + sum_list (map f xs)"
    using Cons.IH [OF s1(2)] Cons.prems(2) by simp
  ultimately show ?case by simp
qed

lemma batches_count:
  assumes "for_loop body bs (st, (os, c), acc) = Inr (st', (os', c'), acc')"
    and "\<And>b st os c acc st' os' c' acc'.
           body b (st, (os, c), acc) = Inr (st', (os', c'), acc') \<Longrightarrow> c' = Suc c"
  shows "c' = c + length bs"
proof -
  have "snd (fst (snd (st', (os', c'), acc'))) =
          snd (fst (snd (st, (os, c), acc))) + sum_list (map (\<lambda>b. 1) bs)"
    by (rule for_loop_count [OF assms(1)]) (use assms(2) in fastforce)
  then show ?thesis by (simp add: sum_list_triv)
qed

lemma batch_counts:
  "training_mlp_classifier_batch fw batch_size loss_fn (counting opt) m b (st, (os, c), acc)
     = Inr (st', (os', c'), acc') \<Longrightarrow> c' = Suc c"
  "train_val_mlp_classifier_batch fw input_size batch_size loss_fn (counting opt) m b
     (st, (os, c), acc) = Inr (st', (os', c'), acc') \<Longrightarrow> c' = Suc c"
  "training_val_cnn_classifier_batch fw loss_fn (counting opt) m b (st, (os, c), acc)
     = Inr (st', (os', c'), acc') \<Longrightarrow> c' = Suc c"
  by (cases b; auto simp: training_mlp_classifier_batch_performs
        train_val_mlp_classifier_batch_performs training_val_cnn_classifier_batch_performs
        split: sum.splits dest: training_step_counting)+

lemma epoch_counts:
  "training_mlp_classifier_epoch fw batch_size loss_fn (counting opt) m dl verbose epoch
     (st, (os, c), ls) = Inr (st', (os', c'), ls') \<Longrightarrow> c' = c + length (batches dl epoch)"
  "train_val_mlp_classifier_epoch fw gbs input_size batch_size loss_fn (counting opt) m dl vdl
     verbose epoch (st, (os, c), ls, accs, amax, mopt)
     = Inr (st', (os', c'), ls', accs', amax', mopt') \<Longrightarrow> c' = c + length (batches dl epoch)"
  "training_val_cnn_classifier_epoch fw loss_fn (counting opt) m dl vdl verbose epoch
     (st, (os, c), ls, accs, amax, cmopt)
     = Inr (st', (os', c'), ls', accs', amax', cmopt') \<Longrightarrow> c' = c + length (batches dl epoch)"
proof -
  assume "training_mlp_classifier_epoch fw batch_size loss_fn (counting opt) m dl verbose epoch
     (st, (os, c), ls) = Inr (st', (os', c'), ls')"
  then obtain st1 tr1 where
    "for_loop (training_mlp_classifier_batch fw batch_size loss_fn (counting opt) m)
          (batches dl epoch) (st, (os, c), 0) = Inr (st1, (os', c'), tr1)"
    unfolding training_mlp_classifier_epoch_def
    by (auto simp: Let_def split: sum.splits if_splits)
  then show "c' = c + length (batches dl epoch)"
    by (rule batches_count) (rule batch_counts(1))
next
  assume "train_val_mlp_classifier_epoch fw gbs input_size batch_size loss_fn (counting opt) m
     dl vdl verbose epoch (st, (os, c), ls, accs, amax, mopt)
     = Inr (st', (os', c'), ls', accs', amax', mopt')"
  then obtain st1 tr1 where
    "for_loop (train_val_mlp_classifier_batch fw input_size batch_size loss_fn (counting opt) m)
          (batches dl epoch) (st, (os, c), 0) = Inr (st1, (os', c'), tr1)"
    unfolding train_val_mlp_classifier_epoch_def
    by (auto simp: Let_def split_beta split: sum.splits if_splits)
  then show "c' = c + length (batches dl epoch)"
    by (rule batches_count) (rule batch_counts(2))
next
  assume "training_val_cnn_classifier_epoch fw loss_fn (counting opt) m dl vdl verbose epoch
     (st, (os, c), ls, accs, amax, cmopt)
     = Inr (st', (os', c'), ls', accs', amax', cmopt')"
  then obtain st1 tr1 where
    "for_loop (training_val_cnn_classifier_batch fw loss_fn (counting opt) m)
          (batches dl epoch) (st, (os, c), 0) = Inr (st1, (os', c'), tr1)"
    unfolding training_val_cnn_classifier_epoch_def
    by (auto simp: Let_def split_beta split: sum.splits if_splits)
  then show "c' = c + length (batches dl epoch)"
    by (rule batches_count) (rule batch_counts(3))
qed

lemma counting_steps_simps [simp]:
  "fw_SGD (counting_steps fw) lr = counting (fw_SGD fw lr)"
  "fw_Adam (counting_steps fw) lr = counting (fw_Adam fw lr)"
  "opt_init (counting opt) = (opt_init opt, 0)"
  by (simp_all add: counting_steps_def counting_def)

lemma loop_counts:
  "training_mlp_classifier_loop (counting_steps fw) gbs model dl loss_fn lr verbose st n
     = Inr (st1, (os1, c1), ls1)
   \<Longrightarrow> c1 = sum_list (map (\<lambda>epoch. length (batches dl epoch)) [0..<n])"
  "train_val_mlp_classifier_loop (counting_steps fw) gbs model dl vdl input_size bs loss_fn lr
     verbose st n = Inr (st2, (os2, c2), ls2, accs2, amax2, mopt2)
   \<Longrightarrow> c2 = sum_list (map (\<lambda>epoch. length (batches dl epoch)) [0..<n])"
  "training_val_cnn_classifier_loop (counting_steps fw) model dl vdl loss_fn lr verbose st n
     = Inr (st3, (os3, c3), ls3, accs3, amax3, mopt3)
   \<Longrightarrow> c3 = sum_list (map (\<lambda>epoch. length (batches dl epoch)) [0..<n])"
proof -
  assume "training_mlp_classifier_loop (counting_steps fw) gbs model dl loss_fn lr verbose
               st n = Inr (st1, (os1, c1), ls1)"
  then have l: "for_loop (training_mlp_classifier_epoch (counting_steps fw) gbs loss_fn
                   (counting (fw_SGD fw lr)) (next_ref st) dl verbose) [0..<n]
              (model_train (next_ref st) (snd (deepcopy model st)),
               (opt_init (fw_SGD fw lr), 0), []) = Inr (st1, (os1, c1), ls1)"
    by (simp add: training_mlp_classifier_loop_def Let_def split_beta)
  have "(\<lambda>s. snd (fst (snd s))) (st1, (os1, c1), ls1) =
      (\<lambda>s. snd (fst (snd s))) (model_train (next_ref st) (snd (deepcopy model st)),
                     (opt_init (fw_SGD fw lr), 0 :: nat), [] :: rat list)
      + sum_list (map (\<lambda>epoch. length (batches dl epoch)) [0..<n])"
    by (rule for_loop_count [OF l]) (use epoch_counts(1) in fastforce)
  then show "c1 = sum_list (map (\<lambda>epoch. length (batches dl epoch)) [0..<n])" by simp
next
  assume "train_val_mlp_classifier_loop (counting_steps fw) gbs model dl vdl input_size bs
               loss_fn lr verbose st n = Inr (st2, (os2, c2), ls2, accs2, amax2, mopt2)"
  then have l: "for_loop (train_val_mlp_classifier_epoch (counting_steps fw) gbs input_size bs
                   loss_fn (counting (fw_Adam fw lr)) (next_ref st) dl vdl verbose) [0..<n]
              (snd (deepcopy (next_ref st)
                       (model_train (next_ref st) (snd (deepcopy model st)))),
               (opt_init (fw_Adam fw lr), 0), [], [], 0, Suc (next_ref st))
              = Inr (st2, (os2, c2), ls2, accs2, amax2, mopt2)"
    by (simp add: train_val_mlp_classifier_loop_def Let_def split_beta)
  have "(\<lambda>s. snd (fst (snd s))) (st2, (os2, c2), ls2, accs2, amax2, mopt2) =
      (\<lambda>s. snd (fst (snd s))) (snd (deepcopy (next_ref st)
                       (model_train (next_ref st) (snd (deepcopy model st)))),
                     (opt_init (fw_Adam fw lr), 0 :: nat), [] :: rat list, [] :: rat list,
                     0 :: rat, Suc (next_ref st))
      + sum_list (map (\<lambda>epoch. length (batches dl epoch)) [0..<n])"
    by (rule for_loop_count [OF l]) (use epoch_counts(2) in fastforce)
  then show "c2 = sum_list (map (\<lambda>epoch. length (batches dl epoch)) [0..<n])" by simp
next
  assume "training_val_cnn_classifier_loop (counting_steps fw) model dl vdl loss_fn lr
               verbose st n = Inr (st3, (os3, c3), ls3, accs3, amax3, mopt3)"
  then have l: "for_loop (training_val_cnn_classifier_epoch (counting_steps fw) loss_fn
                   (counting (fw_Adam fw lr)) (next_ref st) dl vdl verbose) [0..<n]
              (model_train (next_ref st) (snd (deepcopy model st)),
               (opt_init (fw_Adam fw lr), 0), [], [], 0, None)
              = Inr (st3, (os3, c3), ls3, accs3, amax3, mopt3)"
    by (simp add: training_val_cnn_classifier_loop_def Let_def split_beta)
  have "(\<lambda>s. snd (fst (snd s))) (st3, (os3, c3), ls3, accs3, amax3, mopt3) =
      (\<lambda>s. snd (fst (snd s))) (model_train (next_ref st) (snd (deepcopy model st)),
                     (opt_init (fw_Adam fw lr), 0 :: nat), [] :: rat list, [] :: rat list,
                     0 :: rat, None :: nat option)
      + sum_list (map (\<lambda>epoch. length (batches dl epoch)) [0..<n])"
    by (rule for_loop_count [OF l]) (use epoch_counts(3) in fastforce)
  then show "c3 = sum_list (map (\<lambda>epoch. length (batches dl epoch)) [0..<n])" by simp
qed

lemma regression_counts:
  "linear_regression_loop fw loss_fn (counting opt) m x y n (st, (os, c)) = Inr (st1, (os1, c1))
   \<Longrightarrow> c1 = c + n"
  "nonlinear_regression_loop fw loss_fn (counting opt) m x y n (st, (os, c), rs)
     = Inr (st2, (os2, c2), rs2) \<Longrightarrow> c2 = c + n"
proof -
  assume a: "linear_regression_loop fw loss_fn (counting opt) m x y n (st, (os, c))
               = Inr (st1, (os1, c1))"
  have "snd (snd (st1, (os1, c1))) = snd (snd (st, (os, c))) + sum_list (map (\<lambda>e. 1) [0..<n])"
    by (rule for_loop_count [OF a [unfolded linear_regression_loop_def]])
       (auto simp: linear_regression_epoch_performs split: sum.splits
          dest: training_step_counting)
  then show "c1 = c + n" by (simp add: sum_list_triv)
next
  assume a: "nonlinear_regression_loop fw loss_fn (counting opt) m x y n (st, (os, c), rs)
               = Inr (st2, (os2, c2), rs2)"
  have "snd (fst (snd (st2, (os2, c2), rs2))) = snd (fst (snd (st, (os, c), rs)))
          + sum_list (map (\<lambda>e. 1) [0..<n])"
    by (rule for_loop_count [OF a [unfolded nonlinear_regression_loop_def]])
       (auto simp: nonlinear_regression_epoch_performs split: sum.splits
          dest: training_step_counting)
  then show "c2 = c + n" by (simp add: sum_list_triv)
qed

subsection \<open>The steps of every iteration\<close>

text \<open>
  Claim C1, as stated: every loop, the first regression loop among them, ends an
  iteration by adding the loss to the bookkeeping of the epoch. The first regression loop
  keeps no record of the loss: it prints it, and that is all. Were the loss kept in what
  the loop leaves, two runs that leave the same model and the same state of the optimizer
  would have had the same losses; with two loss functions that differ by a constant, and
  so have the same gradients, one run prints 4 and the other 5.
\<close>

theorem C1_linear_regression_loop_only_prints:
  "\<not> (\<forall>(fw :: (rat, nat, nat list) framework) loss_fn loss_fn' optimizer m x y n st os
         st1 os1 st2 os2.
        linear_regression_loop fw loss_fn optimizer m x y n (st, os) = Inr (st1, os1) \<longrightarrow>
        linear_regression_loop fw loss_fn' optimizer m x y n (st, os) = Inr (st2, os2) \<longrightarrow>
        heap st1 = heap st2 \<and> os1 = os2 \<longrightarrow>
        stdout st1 = stdout st2)"
proof
  assume a: "\<forall>(fw :: (rat, nat, nat list) framework) loss_fn loss_fn' optimizer m x y n st os
         st1 os1 st2 os2.
        linear_regression_loop fw loss_fn optimizer m x y n (st, os) = Inr (st1, os1) \<longrightarrow>
        linear_regression_loop fw loss_fn' optimizer m x y n (st, os) = Inr (st2, os2) \<longrightarrow>
        heap st1 = heap st2 \<and> os1 = os2 \<longrightarrow>
        stdout st1 = stdout st2"
  let ?after = "\<lambda>v. machine0\<lparr>heap := (heap machine0)
                     (0 := \<lparr>parameters = 1 / 10, grad = Some 2, training = True\<rparr>),
                   trace := iteration [[1], [3]], stdout := [v]\<rparr>"
  have r1: "linear_regression_loop (toy 1 :: (rat, nat, nat list) framework) toy_loss
              (fw_SGD (toy 1 :: (rat, nat, nat list) framework) (1 / 5)) 0 [[1], [3]] [0, 0] 1
              (machine0, 0) = Inr (?after 4, 1)"
    by (simp add: linear_regression_loop_def linear_regression_epoch_performs training_step_def
        toy_def toy_loss_def machine0_def upt_rec)
  have r2: "linear_regression_loop (toy 1 :: (rat, nat, nat list) framework)
              (\<lambda>y_pred y. Inr (sum_list (map sum_list y_pred) + 1))
              (fw_SGD (toy 1 :: (rat, nat, nat list) framework) (1 / 5)) 0 [[1], [3]] [0, 0] 1
              (machine0, 0) = Inr (?after 5, 1)"
    by (simp add: linear_regression_loop_def linear_regression_epoch_performs training_step_def
        toy_def machine0_def upt_rec)
  have "heap (?after 4) = heap (?after 5) \<and> (1 :: nat) = 1" by simp
  with a r1 r2 have "stdout (?after 4) = stdout (?after 5)" by blast
  then show False by simp
qed

text \<open>
  Claim C1, amended. In every training loop an iteration is the forward pass, the loss,
  \<open>optimizer.zero_grad()\<close>, \<open>loss.backward()\<close>, \<open>optimizer.step()\<close>, in
  this order, and then the record of the loss: \<open>tr_loss += ...\<close> in the three
  training functions, \<open>print\<close> and \<open>loss_records.append\<close> in the second
  regression loop, \<open>print\<close> alone in the first. The first five conjuncts are about
  the order, over whole runs: the trace of a run that returns gains the six entries of
  \<open>iteration\<close> once for every epoch of a regression loop, and once for every batch
  of every epoch of a training function. The five equations are about what an iteration
  does, for every state and whether it returns or raises: the body of each loop is one
  \<open>training_step\<close> on the object of the model (the gradient stored is that of the
  loss of this batch at the parameters before the step, the parameters are those the
  optimizer makes of it) and the loss goes to the output, to \<open>loss_records\<close> or to
  \<open>tr_loss\<close>.
\<close>

theorem C1_iteration_steps_and_loss_record:
  "(linear_regression_loop fw_r loss_fn_r optimizer m x y n (st, os) = Inr (st1, os1) \<longrightarrow>
      trace st1 = trace st @ concat (replicate n (iteration x)))
   \<and> (nonlinear_regression_loop fw_r loss_fn_r optimizer m x y n (st, os, rs)
         = Inr (st2, os2, rs2) \<longrightarrow>
      trace st2 = trace st @ concat (replicate n (iteration x)))
   \<and> (training_mlp_classifier fw gbs model dl num_epochs loss_fn lr verbose st
         = Inr (res3, st3) \<longrightarrow>
      trace st3 = trace st @
        concat (map (\<lambda>epoch. concat (map (\<lambda>(images, targets). iteration (mlp_input gbs images))
                                        (batches dl epoch))) [0..<num_epochs]))
   \<and> (train_val_mlp_classifier fw gbs model dl vdl input_size bs num_epochs loss_fn lr verbose st
         = Inr (res4, st4) \<longrightarrow>
      trace st4 = trace st @
        concat (map (\<lambda>epoch. concat
                  (map (\<lambda>(images, targets). iteration (reshape bs input_size (concat images)))
                     (batches dl epoch))) [0..<num_epochs]))
   \<and> (training_val_cnn_classifier fw model dl vdl num_epochs loss_fn lr verbose st
         = Inr (res5, st5) \<longrightarrow>
      trace st5 = trace st @
        concat (map (\<lambda>epoch. concat (map (\<lambda>(images, targets). iteration images)
                                        (batches dl epoch))) [0..<num_epochs]))
   \<and> linear_regression_epoch fw_r loss_fn_r optimizer m x y epoch (sta, osa) =
        (case training_step fw_r loss_fn_r optimizer x y (heap sta m, osa) of
           Inl e \<Rightarrow> Inl e
         | Inr (m', os', v) \<Rightarrow>
             Inr (sta\<lparr>heap := (heap sta)(m := m'), trace := trace sta @ iteration x,
                      stdout := stdout sta @ [v]\<rparr>, os'))
   \<and> nonlinear_regression_epoch fw_r loss_fn_r optimizer m x y epoch (sta, osa, loss_records) =
        (case training_step fw_r loss_fn_r optimizer x y (heap sta m, osa) of
           Inl e \<Rightarrow> Inl e
         | Inr (m', os', v) \<Rightarrow>
             Inr (sta\<lparr>heap := (heap sta)(m := m'), trace := trace sta @ iteration x,
                      stdout := stdout sta @ [v]\<rparr>, os', loss_records @ [v]))
   \<and> training_mlp_classifier_batch fw gbs loss_fn optimizer m (images, targets)
        (sta, osa, tr_loss) =
        (case view_infer gbs images of
           Inl e \<Rightarrow> Inl e
         | Inr xb \<Rightarrow>
             (case training_step fw loss_fn optimizer xb targets (heap sta m, osa) of
                Inl e \<Rightarrow> Inl e
              | Inr (m', os', v) \<Rightarrow>
                  Inr (sta\<lparr>heap := (heap sta)(m := m'), trace := trace sta @ iteration xb\<rparr>,
                       os', tr_loss + v * rat_of_nat gbs)))
   \<and> train_val_mlp_classifier_batch fw input_size bs loss_fn optimizer m (images, targets)
        (sta, osa, tr_loss) =
        (case view bs input_size images of
           Inl e \<Rightarrow> Inl e
         | Inr xb \<Rightarrow>
             (case training_step fw loss_fn optimizer xb targets (heap sta m, osa) of
                Inl e \<Rightarrow> Inl e
              | Inr (m', os', v) \<Rightarrow>
                  Inr (sta\<lparr>heap := (heap sta)(m := m'), trace := trace sta @ iteration xb\<rparr>,
                       os', tr_loss + v * rat_of_nat bs)))
   \<and> training_val_cnn_classifier_batch fw loss_fn optimizer m (images, targets)
        (sta, osa, tr_loss) =
        (case training_step fw loss_fn optimizer images targets (heap sta m, osa) of
           Inl e \<Rightarrow> Inl e
         | Inr (m', os', v) \<Rightarrow>
             Inr (sta\<lparr>heap := (heap sta)(m := m'), trace := trace sta @ iteration images\<rparr>,
                  os', tr_loss + v * rat_of_nat (length images)))"
proof (intro conjI impI)
  assume "linear_regression_loop fw_r loss_fn_r optimizer m x y n (st, os) = Inr (st1, os1)"
  from regression_loops_effect(1) [OF this]
  show "trace st1 = trace st @ concat (replicate n (iteration x))"
    by (simp add: concat_map_const)
next
  assume "nonlinear_regression_loop fw_r loss_fn_r optimizer m x y n (st, os, rs)
            = Inr (st2, os2, rs2)"
  from regression_loops_effect(2) [OF this]
  show "trace st2 = trace st @ concat (replicate n (iteration x))"
    by (simp add: concat_map_const)
next
  assume "training_mlp_classifier fw gbs model dl num_epochs loss_fn lr verbose st
            = Inr (res3, st3)"
  then obtain os' ls' where
    "training_mlp_classifier_loop fw gbs model dl loss_fn lr verbose st num_epochs
       = Inr (st3, os', ls')"
    by (auto simp: training_mlp_classifier_def Let_def split: sum.splits)
  from training_mlp_classifier_loop_effect [OF this]
  show "trace st3 = trace st @
        concat (map (\<lambda>epoch. concat (map (\<lambda>(images, targets). iteration (mlp_input gbs images))
                                        (batches dl epoch))) [0..<num_epochs])"
    by (simp add: case_prod_fst)
next
  assume "train_val_mlp_classifier fw gbs model dl vdl input_size bs num_epochs loss_fn lr
            verbose st = Inr (res4, st4)"
  then obtain os' ls' accs' amax' mopt' where
    "train_val_mlp_classifier_loop fw gbs model dl vdl input_size bs loss_fn lr verbose st
       num_epochs = Inr (st4, os', ls', accs', amax', mopt')"
    by (auto simp: train_val_mlp_classifier_def split: sum.splits)
  from train_val_mlp_classifier_loop_effect(1) [OF this]
  show "trace st4 = trace st @
        concat (map (\<lambda>epoch. concat
                  (map (\<lambda>(images, targets). iteration (reshape bs input_size (concat images)))
                     (batches dl epoch))) [0..<num_epochs])"
    by (simp add: case_prod_fst)
next
  assume "training_val_cnn_classifier fw model dl vdl num_epochs loss_fn lr verbose st
            = Inr (res5, st5)"
  then obtain os' ls' accs' amax' mopt' where
    "training_val_cnn_classifier_loop fw model dl vdl loss_fn lr verbose st num_epochs
       = Inr (st5, os', ls', accs', amax', mopt')"
    by (auto simp: training_val_cnn_classifier_def split: sum.splits option.splits)
  from training_val_cnn_classifier_loop_effect(1) [OF this]
  show "trace st5 = trace st @
        concat (map (\<lambda>epoch. concat (map (\<lambda>(images, targets). iteration images)
                                        (batches dl epoch))) [0..<num_epochs])"
    by (simp add: case_prod_fst)
next
  show "linear_regression_epoch fw_r loss_fn_r optimizer m x y epoch (sta, osa) =
        (case training_step fw_r loss_fn_r optimizer x y (heap sta m, osa) of
           Inl e \<Rightarrow> Inl e
         | Inr (m', os', v) \<Rightarrow>
             Inr (sta\<lparr>heap := (heap sta)(m := m'), trace := trace sta @ iteration x,
                      stdout := stdout sta @ [v]\<rparr>, os'))"
    by (rule linear_regression_epoch_performs)
next
  show "nonlinear_regression_epoch fw_r loss_fn_r optimizer m x y epoch
          (sta, osa, loss_records) =
        (case training_step fw_r loss_fn_r optimizer x y (heap sta m, osa) of
           Inl e \<Rightarrow> Inl e
         | Inr (m', os', v) \<Rightarrow>
             Inr (sta\<lparr>heap := (heap sta)(m := m'), trace := trace sta @ iteration x,
                      stdout := stdout sta @ [v]\<rparr>, os', loss_records @ [v]))"
    by (rule nonlinear_regression_epoch_performs)
next
  show "training_mlp_classifier_batch fw gbs loss_fn optimizer m (images, targets)
        (sta, osa, tr_loss) =
        (case view_infer gbs images of
           Inl e \<Rightarrow> Inl e
         | Inr xb \<Rightarrow>
             (case training_step fw loss_fn optimizer xb targets (heap sta m, osa) of
                Inl e \<Rightarrow> Inl e
              | Inr (m', os', v) \<Rightarrow>
                  Inr (sta\<lparr>heap := (heap sta)(m := m'), trace := trace sta @ iteration xb\<rparr>,
                       os', tr_loss + v * rat_of_nat gbs)))"
    by (rule training_mlp_classifier_batch_performs)
next
  show "train_val_mlp_classifier_batch fw input_size bs loss_fn optimizer m (images, targets)
        (sta, osa, tr_loss) =
        (case view bs input_size images of
           Inl e \<Rightarrow> Inl e
         | Inr xb \<Rightarrow>
             (case training_step fw loss_fn optimizer xb targets (heap sta m, osa) of
                Inl e \<Rightarrow> Inl e
              | Inr (m', os', v) \<Rightarrow>
                  Inr (sta\<lparr>heap := (heap sta)(m := m'), trace := trace sta @ iteration xb\<rparr>,
                       os', tr_loss + v * rat_of_nat bs)))"
    by (rule train_val_mlp_classifier_batch_performs)
next
  show "training_val_cnn_classifier_batch fw loss_fn optimizer m (images, targets)
        (sta, osa, tr_loss) =
        (case training_step fw loss_fn optimizer images targets (heap sta m, osa) of
           Inl e \<Rightarrow> Inl e
         | Inr (m', os', v) \<Rightarrow>
             Inr (sta\<lparr>heap := (heap sta)(m := m'), trace := trace sta @ iteration images\<rparr>,
                  os', tr_loss + v * rat_of_nat (length images)))"
    by (rule training_val_cnn_classifier_batch_performs)
qed

theorem C1_witness:
  "(\<exists>st1 os1. linear_regression_loop (toy 1 :: (rat, nat, nat list) framework) toy_loss
       (fw_SGD (toy 1 :: (rat, nat, nat list) framework) (1 / 5)) 0 [[1], [3]] [0, 0] 2
       (machine0, 0) = Inr (st1, os1)
      \<and> trace st1 = iteration [[1], [3]] @ iteration [[1], [3]])
   \<and> (\<exists>st2 os2 rs2. nonlinear_regression_loop (toy 1 :: (rat, nat, nat list) framework)
       toy_loss (fw_SGD (toy 1 :: (rat, nat, nat list) framework) (1 / 5)) 0 [[1], [3]] [0, 0]
       2 (machine0, 0, []) = Inr (st2, os2, rs2)
      \<and> trace st2 = iteration [[1], [3]] @ iteration [[1], [3]])
   \<and> (\<exists>res3 st3. training_mlp_classifier (toy 1 :: (rat, nat, nat list) framework) 2 0
       one_batch_loader 2 toy_loss (1 / 5) True machine0 = Inr (res3, st3)
      \<and> trace st3 = iteration [[1], [3]] @ iteration [[1], [3]])
   \<and> (\<exists>res4 st4. train_val_mlp_classifier (toy 1 :: (rat, nat, nat list) framework) 2 0
       one_batch_loader first_best_loader 1 2 2 toy_loss (1 / 5) True machine0
         = Inr (res4, st4)
      \<and> trace st4 = iteration [[1], [3]] @ iteration [[1], [3]])
   \<and> (\<exists>res5 st5. training_val_cnn_classifier (toy 1 :: (rat, nat, nat list) framework) 0
       one_batch_loader first_best_loader 2 toy_loss (1 / 5) True machine0 = Inr (res5, st5)
      \<and> trace st5 = iteration [[1], [3]] @ iteration [[1], [3]])"
proof -
  obtain st1 os1 where r1: "linear_regression_loop (toy 1 :: (rat, nat, nat list) framework)
       toy_loss (fw_SGD (toy 1 :: (rat, nat, nat list) framework) (1 / 5)) 0 [[1], [3]] [0, 0]
       2 (machine0, 0) = Inr (st1, os1)"
    using linear_regression_run by blast
  obtain st2 os2 rs2 where r2: "nonlinear_regression_loop
       (toy 1 :: (rat, nat, nat list) framework) toy_loss
       (fw_SGD (toy 1 :: (rat, nat, nat list) framework) (1 / 5)) 0 [[1], [3]] [0, 0]
       2 (machine0, 0, []) = Inr (st2, os2, rs2)"
    using nonlinear_regression_run by blast
  obtain res3 st3 where r3: "training_mlp_classifier (toy 1 :: (rat, nat, nat list) framework)
       2 0 one_batch_loader 2 toy_loss (1 / 5) True machine0 = Inr (res3, st3)"
    using training_mlp_classifier_run by blast
  obtain res4 st4 where r4: "train_val_mlp_classifier
       (toy 1 :: (rat, nat, nat list) framework) 2 0 one_batch_loader first_best_loader 1 2 2
       toy_loss (1 / 5) True machine0 = Inr (res4, st4)"
    using train_val_mlp_classifier_run by blast
  obtain res5 st5 where r5: "training_val_cnn_classifier
       (toy 1 :: (rat, nat, nat list) framework) 0 one_batch_loader first_best_loader 2
       toy_loss (1 / 5) True machine0 = Inr (res5, st5)"
    using training_val_cnn_classifier_run by blast
  note t = C1_iteration_steps_and_loss_record
  have e: "[0..<2] = [0, 1]" by (simp add: upt_rec)
  have m: "mlp_input 2 [[1], [3]] = [[1], [3]]" "reshape 2 (Suc 0) [1, 3] = [[1], [3]]"
    by (simp_all add: mlp_input_def reshape_def e)
  from t [THEN conjunct1, rule_format, OF r1]
  have "trace st1 = iteration [[1], [3]] @ iteration [[1], [3]]"
    by (simp add: machine0_def numeral_2_eq_2)
  moreover from t [THEN conjunct2, THEN conjunct1, rule_format, OF r2]
  have "trace st2 = iteration [[1], [3]] @ iteration [[1], [3]]"
    by (simp add: machine0_def numeral_2_eq_2)
  moreover from t [THEN conjunct2, THEN conjunct2, THEN conjunct1, rule_format, OF r3]
  have "trace st3 = iteration [[1], [3]] @ iteration [[1], [3]]"
    by (simp add: machine0_def batches_one_batch_loader e m)
  moreover
  from t [THEN conjunct2, THEN conjunct2, THEN conjunct2, THEN conjunct1, rule_format, OF r4]
  have "trace st4 = iteration [[1], [3]] @ iteration [[1], [3]]"
    by (simp add: machine0_def batches_one_batch_loader e m)
  moreover
  from t [THEN conjunct2, THEN conjunct2, THEN conjunct2, THEN conjunct2, THEN conjunct1,
          rule_format, OF r5]
  have "trace st5 = iteration [[1], [3]] @ iteration [[1], [3]]"
    by (simp add: machine0_def batches_one_batch_loader e)
  ultimately show ?thesis
    using r1 r2 r3 r4 r5 by blast
qed

subsection \<open>Optimizer steps and exceptions\<close>

text \<open>
  Runs with an optimizer that counts its steps, and first epochs that raise: the model
  raises on an image without pixels.
\<close>

lemma counting_runs:
  "\<exists>st1 os1 c1. linear_regression_loop
       (counting_steps (toy 1 :: (rat, nat, nat list) framework)) toy_loss
       (counting (fw_SGD (toy 1 :: (rat, nat, nat list) framework) (1 / 5))) 0 [[1], [3]]
       [0, 0] 2 (machine0, (0, 0)) = Inr (st1, (os1, c1))"
  "\<exists>st2 os2 c2 rs2. nonlinear_regression_loop
       (counting_steps (toy 1 :: (rat, nat, nat list) framework))
       toy_loss (counting (fw_SGD (toy 1 :: (rat, nat, nat list) framework) (1 / 5))) 0
       [[1], [3]] [0, 0] 2 (machine0, (0, 0), []) = Inr (st2, (os2, c2), rs2)"
  "\<exists>st3 os3 c3 ls3. training_mlp_classifier_loop
       (counting_steps (toy 1 :: (rat, nat, nat list) framework)) 2 0 one_batch_loader
       toy_loss (1 / 5) True machine0 2 = Inr (st3, (os3, c3), ls3)"
  "\<exists>st4 os4 c4 ls4 accs4 amax4 mopt4. train_val_mlp_classifier_loop
       (counting_steps (toy 1 :: (rat, nat, nat list) framework)) 2 0 one_batch_loader
       first_best_loader 1 2 toy_loss (1 / 5) True machine0 2
       = Inr (st4, (os4, c4), ls4, accs4, amax4, mopt4)"
  "\<exists>st5 os5 c5 ls5 accs5 amax5 mopt5. training_val_cnn_classifier_loop
       (counting_steps (toy 1 :: (rat, nat, nat list) framework)) 0 one_batch_loader
       first_best_loader toy_loss (1 / 5) True machine0 2
       = Inr (st5, (os5, c5), ls5, accs5, amax5, mopt5)"
  by (simp_all add: toy_run counting_def counting_steps_def cong: let_weak_cong if_weak_cong)

lemma zero_gradient_run:
  "\<exists>st' os' ls. training_mlp_classifier_loop
       (counting_steps (toy 0 :: (rat, nat, nat list) framework)) 2 0 one_batch_loader
       toy_loss (1 / 5) True machine0 1 = Inr (st', (os', 1), ls)"
  by (simp add: toy_run counting_def counting_steps_def cong: let_weak_cong if_weak_cong)

lemma failing_regression_epochs:
  "linear_regression_epoch (toy 1 :: (rat, nat, nat list) framework) toy_loss
     (fw_SGD (toy 1 :: (rat, nat, nat list) framework) (1 / 5)) 0 [[]] [0] 0 (machine0, 0)
   = Inl RuntimeError"
  "nonlinear_regression_epoch (toy 1 :: (rat, nat, nat list) framework) toy_loss
     (fw_SGD (toy 1 :: (rat, nat, nat list) framework) (1 / 5)) 0 [[]] [0] 0 (machine0, 0, [])
   = Inl RuntimeError"
  by (simp_all add: toy_run cong: let_weak_cong if_weak_cong)

text \<open>
  Claim C4, as stated: when the gradients of a batch are all zero the step of the
  optimizer is skipped. With a framework whose gradients are always 0 and an optimizer
  that counts the applications of its update, one epoch on one batch leaves the count at
  1, not at 0.
\<close>

theorem C4_step_taken_with_zero_gradients:
  "\<not> (\<forall>(fw :: (rat, nat, nat list) framework) gbs model dl num_epochs loss_fn lr verbose st
         st' os' c ls.
        (\<forall>lf w tr x y. fw_autograd fw lf w tr x y = 0) \<longrightarrow>
        training_mlp_classifier_loop (counting_steps fw) gbs model dl loss_fn lr verbose st
          num_epochs = Inr (st', (os', c), ls) \<longrightarrow>
        c = 0)"
proof
  assume a: "\<forall>(fw :: (rat, nat, nat list) framework) gbs model dl num_epochs loss_fn lr verbose
         st st' os' c ls.
        (\<forall>lf w tr x y. fw_autograd fw lf w tr x y = 0) \<longrightarrow>
        training_mlp_classifier_loop (counting_steps fw) gbs model dl loss_fn lr verbose st
          num_epochs = Inr (st', (os', c), ls) \<longrightarrow>
        c = 0"
  have z: "\<forall>lf w tr x y. fw_autograd (toy 0 :: (rat, nat, nat list) framework) lf w tr x y = 0"
    by (simp add: toy_def)
  from zero_gradient_run obtain st' os' ls where
    "training_mlp_classifier_loop
       (counting_steps (toy 0 :: (rat, nat, nat list) framework)) 2 0 one_batch_loader
       toy_loss (1 / 5) True machine0 1 = Inr (st', (os', 1), ls)"
    by blast
  with a z have "(1 :: nat) = 0" by blast
  then show False by simp
qed

text \<open>
  Claim C4, amended: the training loops have no handling of failures at all. No loop
  looks at the gradients: the update of the optimizer is applied once in every iteration,
  whatever they are. With an optimizer that counts its applications, a run that returns
  leaves the count at the number of epochs (regression loops) or at the number of batches
  of all the epochs (training functions). And no loop catches an exception: when the body
  raises at some epoch, the loop, and the function, end with that exception.
\<close>

theorem C4_optimizer_applied_every_batch_and_no_handler:
  "(linear_regression_loop fw_r loss_fn_r (counting opt_r) m x y n (st, (os, c))
      = Inr (st1, (os1, c1)) \<longrightarrow> c1 = c + n)
   \<and> (nonlinear_regression_loop fw_r loss_fn_r (counting opt_r) m x y n (st, (os, c), rs)
         = Inr (st2, (os2, c2), rs2) \<longrightarrow> c2 = c + n)
   \<and> (training_mlp_classifier_loop (counting_steps fw) gbs model dl loss_fn lr verbose st
         num_epochs = Inr (st3, (os3, c3), ls3) \<longrightarrow>
      c3 = sum_list (map (\<lambda>epoch. length (batches dl epoch)) [0..<num_epochs]))
   \<and> (train_val_mlp_classifier_loop (counting_steps fw) gbs model dl vdl input_size bs loss_fn
         lr verbose st num_epochs = Inr (st4, (os4, c4), ls4, accs4, amax4, mopt4) \<longrightarrow>
      c4 = sum_list (map (\<lambda>epoch. length (batches dl epoch)) [0..<num_epochs]))
   \<and> (training_val_cnn_classifier_loop (counting_steps fw) model dl vdl loss_fn lr verbose st
         num_epochs = Inr (st5, (os5, c5), ls5, accs5, amax5, mopt5) \<longrightarrow>
      c5 = sum_list (map (\<lambda>epoch. length (batches dl epoch)) [0..<num_epochs]))
   \<and> (k < n
      \<and> linear_regression_loop fw_e loss_fn_e opt m x y k sr = Inr sr1
      \<and> linear_regression_epoch fw_e loss_fn_e opt m x y k sr1 = Inl e
      \<longrightarrow> linear_regression_loop fw_e loss_fn_e opt m x y n sr = Inl e)
   \<and> (k < n
      \<and> nonlinear_regression_loop fw_e loss_fn_e opt m x y k sn = Inr sn1
      \<and> nonlinear_regression_epoch fw_e loss_fn_e opt m x y k sn1 = Inl e
      \<longrightarrow> nonlinear_regression_loop fw_e loss_fn_e opt m x y n sn = Inl e)
   \<and> (j < num_epochs
      \<and> training_mlp_classifier_loop fw gbs model dl loss_fn lr verbose st j = Inr s1
      \<and> training_mlp_classifier_epoch fw gbs loss_fn (fw_SGD fw lr) (next_ref st) dl verbose
           j s1 = Inl e
      \<longrightarrow> training_mlp_classifier fw gbs model dl num_epochs loss_fn lr verbose st = Inl e)
   \<and> (j < num_epochs
      \<and> train_val_mlp_classifier_loop fw gbs model dl vdl input_size bs loss_fn lr verbose st j
           = Inr s2
      \<and> train_val_mlp_classifier_epoch fw gbs input_size bs loss_fn (fw_Adam fw lr)
           (next_ref st) dl vdl verbose j s2 = Inl e
      \<longrightarrow> train_val_mlp_classifier fw gbs model dl vdl input_size bs num_epochs loss_fn lr
            verbose st = Inl e)
   \<and> (j < num_epochs
      \<and> training_val_cnn_classifier_loop fw model dl vdl loss_fn lr verbose st j = Inr s3
      \<and> training_val_cnn_classifier_epoch fw loss_fn (fw_Adam fw lr) (next_ref st) dl vdl
           verbose j s3 = Inl e
      \<longrightarrow> training_val_cnn_classifier fw model dl vdl num_epochs loss_fn lr verbose st = Inl e)"
proof (intro conjI impI)
  assume "linear_regression_loop fw_r loss_fn_r (counting opt_r) m x y n (st, (os, c))
            = Inr (st1, (os1, c1))"
  then show "c1 = c + n" by (rule regression_counts(1))
next
  assume "nonlinear_regression_loop fw_r loss_fn_r (counting opt_r) m x y n (st, (os, c), rs)
            = Inr (st2, (os2, c2), rs2)"
  then show "c2 = c + n" by (rule regression_counts(2))
next
  assume "training_mlp_classifier_loop (counting_steps fw) gbs model dl loss_fn lr verbose st
            num_epochs = Inr (st3, (os3, c3), ls3)"
  then show "c3 = sum_list (map (\<lambda>epoch. length (batches dl epoch)) [0..<num_epochs])" by (rule loop_counts(1))
next
  assume "train_val_mlp_classifier_loop (counting_steps fw) gbs model dl vdl input_size bs
            loss_fn lr verbose st num_epochs = Inr (st4, (os4, c4), ls4, accs4, amax4, mopt4)"
  then show "c4 = sum_list (map (\<lambda>epoch. length (batches dl epoch)) [0..<num_epochs])" by (rule loop_counts(2))
next
  assume "training_val_cnn_classifier_loop (counting_steps fw) model dl vdl loss_fn lr verbose
            st num_epochs = Inr (st5, (os5, c5), ls5, accs5, amax5, mopt5)"
  then show "c5 = sum_list (map (\<lambda>epoch. length (batches dl epoch)) [0..<num_epochs])" by (rule loop_counts(3))
next
  assume a: "k < n
      \<and> linear_regression_loop fw_e loss_fn_e opt m x y k sr = Inr sr1
      \<and> linear_regression_epoch fw_e loss_fn_e opt m x y k sr1 = Inl e"
  then show "linear_regression_loop fw_e loss_fn_e opt m x y n sr = Inl e"
    using for_loop_raises [of _ k sr sr1 e n]
    by (simp add: linear_regression_loop_def)
next
  assume a: "k < n
      \<and> nonlinear_regression_loop fw_e loss_fn_e opt m x y k sn = Inr sn1
      \<and> nonlinear_regression_epoch fw_e loss_fn_e opt m x y k sn1 = Inl e"
  then show "nonlinear_regression_loop fw_e loss_fn_e opt m x y n sn = Inl e"
    using for_loop_raises [of _ k sn sn1 e n]
    by (simp add: nonlinear_regression_loop_def)
next
  assume a: "j < num_epochs
      \<and> training_mlp_classifier_loop fw gbs model dl loss_fn lr verbose st j = Inr s1
      \<and> training_mlp_classifier_epoch fw gbs loss_fn (fw_SGD fw lr) (next_ref st) dl verbose
           j s1 = Inl e"
  have "training_mlp_classifier_loop fw gbs model dl loss_fn lr verbose st num_epochs = Inl e"
    using a for_loop_raises [of _ j _ s1 e num_epochs]
    by (simp add: training_mlp_classifier_loop_def Let_def split_beta)
  then show "training_mlp_classifier fw gbs model dl num_epochs loss_fn lr verbose st = Inl e"
    by (simp add: training_mlp_classifier_def Let_def)
next
  assume a: "j < num_epochs
      \<and> train_val_mlp_classifier_loop fw gbs model dl vdl input_size bs loss_fn lr verbose st j
           = Inr s2
      \<and> train_val_mlp_classifier_epoch fw gbs input_size bs loss_fn (fw_Adam fw lr)
           (next_ref st) dl vdl verbose j s2 = Inl e"
  have "train_val_mlp_classifier_loop fw gbs model dl vdl input_size bs loss_fn lr verbose st
          num_epochs = Inl e"
    using a for_loop_raises [of _ j _ s2 e num_epochs]
    by (simp add: train_val_mlp_classifier_loop_def Let_def split_beta)
  then show "train_val_mlp_classifier fw gbs model dl vdl input_size bs num_epochs loss_fn lr
            verbose st = Inl e"
    by (simp add: train_val_mlp_classifier_def)
next
  assume a: "j < num_epochs
      \<and> training_val_cnn_classifier_loop fw model dl vdl loss_fn lr verbose st j = Inr s3
      \<and> training_val_cnn_classifier_epoch fw loss_fn (fw_Adam fw lr) (next_ref st) dl vdl
           verbose j s3 = Inl e"
  have "training_val_cnn_classifier_loop fw model dl vdl loss_fn lr verbose st num_epochs
          = Inl e"
    using a for_loop_raises [of _ j _ s3 e num_epochs]
    by (simp add: training_val_cnn_classifier_loop_def Let_def split_beta)
  then show "training_val_cnn_classifier fw model dl vdl num_epochs loss_fn lr verbose st
               = Inl e"
    by (simp add: training_val_cnn_classifier_def)
qed

theorem C4_witness:
  "(\<exists>st1 os1. linear_regression_loop (counting_steps (toy 1 :: (rat, nat, nat list) framework)) toy_loss
       (counting (fw_SGD (toy 1 :: (rat, nat, nat list) framework) (1 / 5))) 0 [[1], [3]] [0, 0] 2 (machine0, (0, 0))
       = Inr (st1, (os1, 2)))
   \<and> (\<exists>st2 os2 rs2. nonlinear_regression_loop (counting_steps (toy 1 :: (rat, nat, nat list) framework)) toy_loss
       (counting (fw_SGD (toy 1 :: (rat, nat, nat list) framework) (1 / 5))) 0 [[1], [3]] [0, 0] 2 (machine0, (0, 0), [])
       = Inr (st2, (os2, 2), rs2))
   \<and> (\<exists>st3 os3 ls3. training_mlp_classifier_loop (counting_steps (toy 1 :: (rat, nat, nat list) framework)) 2 0 one_batch_loader
       toy_loss (1 / 5) True machine0 2 = Inr (st3, (os3, 2), ls3))
   \<and> (\<exists>st4 os4 ls4 accs4 amax4 mopt4. train_val_mlp_classifier_loop (counting_steps (toy 1 :: (rat, nat, nat list) framework)) 2 0
       one_batch_loader first_best_loader 1 2 toy_loss (1 / 5) True machine0 2
       = Inr (st4, (os4, 2), ls4, accs4, amax4, mopt4))
   \<and> (\<exists>st5 os5 ls5 accs5 amax5 mopt5. training_val_cnn_classifier_loop (counting_steps (toy 1 :: (rat, nat, nat list) framework))
       0 one_batch_loader first_best_loader toy_loss (1 / 5) True machine0 2
       = Inr (st5, (os5, 2), ls5, accs5, amax5, mopt5))
   \<and> linear_regression_loop (toy 1 :: (rat, nat, nat list) framework) toy_loss (fw_SGD (toy 1 :: (rat, nat, nat list) framework) (1 / 5)) 0 [[]] [0] 1 (machine0, 0)
       = Inl RuntimeError
   \<and> nonlinear_regression_loop (toy 1 :: (rat, nat, nat list) framework) toy_loss (fw_SGD (toy 1 :: (rat, nat, nat list) framework) (1 / 5)) 0 [[]] [0] 1
       (machine0, 0, []) = Inl RuntimeError
   \<and> training_mlp_classifier (toy 1 :: (rat, nat, nat list) framework) 2 0 partial_loader 1 toy_loss (1 / 5) True machine0
       = Inl RuntimeError
   \<and> train_val_mlp_classifier (toy 1 :: (rat, nat, nat list) framework) 2 0 partial_loader first_best_loader 1 2 1 toy_loss (1 / 5)
       True machine0 = Inl RuntimeError
   \<and> training_val_cnn_classifier (toy 1 :: (rat, nat, nat list) framework) 0 empty_rows_loader first_best_loader 1 toy_loss (1 / 5)
       True machine0 = Inl RuntimeError"
proof -
  note t = C4_optimizer_applied_every_batch_and_no_handler
  have e: "sum_list (map (\<lambda>epoch. length (batches one_batch_loader epoch)) [0..<2]) = 2"
    by (simp add: batches_one_batch_loader upt_rec)
  from counting_runs(1) obtain st1 os1 c1 where r1: "linear_regression_loop
       (counting_steps (toy 1 :: (rat, nat, nat list) framework)) toy_loss (counting (fw_SGD (toy 1 :: (rat, nat, nat list) framework) (1 / 5))) 0 [[1], [3]] [0, 0] 2
       (machine0, (0, 0)) = Inr (st1, (os1, c1))"
    by blast
  from t [THEN conjunct1, rule_format, OF r1] have "c1 = 2" by simp
  with r1 have g1: "\<exists>st1 os1. linear_regression_loop (counting_steps (toy 1 :: (rat, nat, nat list) framework)) toy_loss
       (counting (fw_SGD (toy 1 :: (rat, nat, nat list) framework) (1 / 5))) 0 [[1], [3]] [0, 0] 2 (machine0, (0, 0))
       = Inr (st1, (os1, 2))"
    by blast
  from counting_runs(2) obtain st2 os2 c2 rs2 where r2: "nonlinear_regression_loop
       (counting_steps (toy 1 :: (rat, nat, nat list) framework)) toy_loss (counting (fw_SGD (toy 1 :: (rat, nat, nat list) framework) (1 / 5))) 0 [[1], [3]] [0, 0] 2
       (machine0, (0, 0), []) = Inr (st2, (os2, c2), rs2)"
    by blast
  from t [THEN conjunct2, THEN conjunct1, rule_format, OF r2] have "c2 = 2" by simp
  with r2 have g2: "\<exists>st2 os2 rs2. nonlinear_regression_loop (counting_steps (toy 1 :: (rat, nat, nat list) framework)) toy_loss
       (counting (fw_SGD (toy 1 :: (rat, nat, nat list) framework) (1 / 5))) 0 [[1], [3]] [0, 0] 2 (machine0, (0, 0), [])
       = Inr (st2, (os2, 2), rs2)"
    by blast
  from counting_runs(3) obtain st3 os3 c3 ls3 where r3: "training_mlp_classifier_loop
       (counting_steps (toy 1 :: (rat, nat, nat list) framework)) 2 0 one_batch_loader toy_loss (1 / 5) True machine0 2
       = Inr (st3, (os3, c3), ls3)"
    by blast
  from t [THEN conjunct2, THEN conjunct2, THEN conjunct1, rule_format, OF r3] e
  have "c3 = 2" by simp
  with r3 have g3: "\<exists>st3 os3 ls3. training_mlp_classifier_loop (counting_steps (toy 1 :: (rat, nat, nat list) framework)) 2 0
       one_batch_loader toy_loss (1 / 5) True machine0 2 = Inr (st3, (os3, 2), ls3)"
    by blast
  from counting_runs(4) obtain st4 os4 c4 ls4 accs4 amax4 mopt4 where
    r4: "train_val_mlp_classifier_loop (counting_steps (toy 1 :: (rat, nat, nat list) framework)) 2 0 one_batch_loader
       first_best_loader 1 2 toy_loss (1 / 5) True machine0 2
       = Inr (st4, (os4, c4), ls4, accs4, amax4, mopt4)"
    by blast
  from t [THEN conjunct2, THEN conjunct2, THEN conjunct2, THEN conjunct1, rule_format, OF r4] e
  have "c4 = 2" by simp
  with r4 have g4: "\<exists>st4 os4 ls4 accs4 amax4 mopt4. train_val_mlp_classifier_loop
       (counting_steps (toy 1 :: (rat, nat, nat list) framework)) 2 0 one_batch_loader first_best_loader 1 2 toy_loss (1 / 5) True
       machine0 2 = Inr (st4, (os4, 2), ls4, accs4, amax4, mopt4)"
    by blast
  from counting_runs(5) obtain st5 os5 c5 ls5 accs5 amax5 mopt5 where
    r5: "training_val_cnn_classifier_loop (counting_steps (toy 1 :: (rat, nat, nat list) framework)) 0 one_batch_loader
       first_best_loader toy_loss (1 / 5) True machine0 2
       = Inr (st5, (os5, c5), ls5, accs5, amax5, mopt5)"
    by blast
  from t [THEN conjunct2, THEN conjunct2, THEN conjunct2, THEN conjunct2, THEN conjunct1,
          rule_format, OF r5] e
  have "c5 = 2" by simp
  with r5 have g5: "\<exists>st5 os5 ls5 accs5 amax5 mopt5. training_val_cnn_classifier_loop
       (counting_steps (toy 1 :: (rat, nat, nat list) framework)) 0 one_batch_loader first_best_loader toy_loss (1 / 5) True
       machine0 2 = Inr (st5, (os5, 2), ls5, accs5, amax5, mopt5)"
    by blast
  have k: "0 < (1::nat)" by simp
  have l0: "linear_regression_loop (toy 1 :: (rat, nat, nat list) framework) toy_loss (fw_SGD (toy 1 :: (rat, nat, nat list) framework) (1 / 5)) 0 [[]] [0] 0
              (machine0, 0) = Inr (machine0, 0)"
    "nonlinear_regression_loop (toy 1 :: (rat, nat, nat list) framework) toy_loss (fw_SGD (toy 1 :: (rat, nat, nat list) framework) (1 / 5)) 0 [[]] [0] 0
              (machine0, 0, []) = Inr (machine0, 0, [])"
    by (simp_all add: linear_regression_loop_def nonlinear_regression_loop_def)
  from t [THEN conjunct2, THEN conjunct2, THEN conjunct2, THEN conjunct2, THEN conjunct2,
          THEN conjunct1, rule_format,
          OF conjI [OF k conjI [OF l0(1) failing_regression_epochs(1)]]]
  have g6: "linear_regression_loop (toy 1 :: (rat, nat, nat list) framework) toy_loss (fw_SGD (toy 1 :: (rat, nat, nat list) framework) (1 / 5)) 0 [[]] [0] 1
              (machine0, 0) = Inl RuntimeError" .
  from t [THEN conjunct2, THEN conjunct2, THEN conjunct2, THEN conjunct2, THEN conjunct2,
          THEN conjunct2, THEN conjunct1, rule_format,
          OF conjI [OF k conjI [OF l0(2) failing_regression_epochs(2)]]]
  have g7: "nonlinear_regression_loop (toy 1 :: (rat, nat, nat list) framework) toy_loss (fw_SGD (toy 1 :: (rat, nat, nat list) framework) (1 / 5)) 0 [[]] [0] 1
              (machine0, 0, []) = Inl RuntimeError" .
  obtain s1 where f1: "training_mlp_classifier_loop (toy 1 :: (rat, nat, nat list) framework)
            2 0 partial_loader toy_loss (1 / 5) True machine0 0 = Inr s1"
        "training_mlp_classifier_epoch (toy 1 :: (rat, nat, nat list) framework) 2 toy_loss
            (fw_SGD (toy 1 :: (rat, nat, nat list) framework) (1 / 5)) (next_ref machine0)
            partial_loader True 0 s1 = Inl RuntimeError"
    using failing_epochs(1) by blast
  obtain s2 where f2: "train_val_mlp_classifier_loop
            (toy 1 :: (rat, nat, nat list) framework) 2 0
            partial_loader first_best_loader 1 2 toy_loss (1 / 5) True machine0 0 = Inr s2"
        "train_val_mlp_classifier_epoch (toy 1 :: (rat, nat, nat list) framework) 2 1 2
            toy_loss (fw_Adam (toy 1 :: (rat, nat, nat list) framework) (1 / 5))
            (next_ref machine0) partial_loader first_best_loader True 0 s2 = Inl RuntimeError"
    using failing_epochs(2) by blast
  obtain s3 where f3: "training_val_cnn_classifier_loop
            (toy 1 :: (rat, nat, nat list) framework) 0
            empty_rows_loader first_best_loader toy_loss (1 / 5) True machine0 0 = Inr s3"
        "training_val_cnn_classifier_epoch (toy 1 :: (rat, nat, nat list) framework) toy_loss
            (fw_Adam (toy 1 :: (rat, nat, nat list) framework) (1 / 5)) (next_ref machine0)
            empty_rows_loader first_best_loader True 0 s3 = Inl RuntimeError"
    using failing_epochs(3) by blast
  from t [THEN conjunct2, THEN conjunct2, THEN conjunct2, THEN conjunct2, THEN conjunct2,
          THEN conjunct2, THEN conjunct2, THEN conjunct1, rule_format,
          OF conjI [OF k conjI [OF f1]]]
  have g8: "training_mlp_classifier (toy 1 :: (rat, nat, nat list) framework) 2 0 partial_loader 1 toy_loss (1 / 5) True machine0
       = Inl RuntimeError" .
  from t [THEN conjunct2, THEN conjunct2, THEN conjunct2, THEN conjunct2, THEN conjunct2,
          THEN conjunct2, THEN conjunct2, THEN conjunct2, THEN conjunct1, rule_format,
          OF conjI [OF k conjI [OF f2]]]
  have g9: "train_val_mlp_classifier (toy 1 :: (rat, nat, nat list) framework) 2 0 partial_loader first_best_loader 1 2 1 toy_loss
       (1 / 5) True machine0 = Inl RuntimeError" .
  from t [THEN conjunct2, THEN conjunct2, THEN conjunct2, THEN conjunct2, THEN conjunct2,
          THEN conjunct2, THEN conjunct2, THEN conjunct2, THEN conjunct2, rule_format,
          OF conjI [OF k conjI [OF f3]]]
  have g10: "training_val_cnn_classifier (toy 1 :: (rat, nat, nat list) framework) 0 empty_rows_loader first_best_loader 1 toy_loss
       (1 / 5) True machine0 = Inl RuntimeError" .
  from g1 g2 g3 g4 g5 g6 g7 g8 g9 g10 show ?thesis by (intro conjI)
qed

subsection \<open>The samples of an epoch\<close>







end
